theory Spec2Isabelle
  imports Complex_Main
begin

section \<open>Numbers, vectors and the anchor registry\<close>

text \<open>
  JavaScript numbers are modelled as mathematical reals (rounding error of the IEEE
  doubles is not represented; NaN and the infinities do not occur on the paths below).
  Sphere identifiers are the integers stored in the \<open>id\<close> field.
\<close>

type_synonym vec3 = "real \<times> real \<times> real"

definition js_rem :: "real \<Rightarrow> real \<Rightarrow> real" where
  \<comment> \<open>the \<open>%\<close> operator: remainder of the truncated quotient, sign of the dividend\<close>
  "js_rem a b = a - b * of_int (if 0 \<le> a / b then \<lfloor>a / b\<rfloor> else \<lceil>a / b\<rceil>)"

definition atan2 :: "real \<Rightarrow> real \<Rightarrow> real" where
  \<comment> \<open>\<open>Math.atan2(y, x)\<close>, the angle of the point \<open>(x, y)\<close> in \<open>(-pi, pi]\<close>\<close>
  "atan2 b a =
     (if 0 < a then arctan (b / a)
      else if a < 0 then (if 0 \<le> b then arctan (b / a) + pi else arctan (b / a) - pi)
      else if 0 < b then pi / 2
      else if b < 0 then - (pi / 2)
      else 0)"

definition distanceTo :: "vec3 \<Rightarrow> vec3 \<Rightarrow> real" where
  \<comment> \<open>\<open>Math.sqrt(Math.pow(dx, 2) + Math.pow(dy, 2) + Math.pow(dz, 2))\<close>\<close>
  "distanceTo t c =
     (case (t, c) of ((t0, t1, t2), (c0, c1, c2)) \<Rightarrow>
        sqrt ((t0 - c0)\<^sup>2 + (t1 - c1)\<^sup>2 + (t2 - c2)\<^sup>2))"

definition lerp3 :: "real \<Rightarrow> vec3 \<Rightarrow> vec3 \<Rightarrow> vec3" where
  \<comment> \<open>\<open>current[i] += (target[i] - current[i]) * lerpFactor\<close> for the three components\<close>
  "lerp3 f t c =
     (case (t, c) of ((t0, t1, t2), (c0, c1, c2)) \<Rightarrow>
        (c0 + (t0 - c0) * f, c1 + (t1 - c1) * f, c2 + (t2 - c2) * f))"

record SpherePosition =
  sphere_id :: int
  sphere_x :: real
  sphere_y :: real
  sphere_z :: real
  sphere_visible :: bool
  sphere_color :: string
  sphere_name :: string

record CameraTarget =
  position :: vec3
  lookAt :: vec3
  animating :: bool

datatype room = Living_Room | Kitchen | Bedroom | Bathroom

definition menuData :: "room \<Rightarrow> string list" where
  "menuData r = (case r of
       Living_Room \<Rightarrow> [''Samsung TV'', ''LED lights'', ''Videogame'', ''Carpet'']
     | Kitchen \<Rightarrow> [''Oven'', ''Microwave'', ''Mixer'', ''Cooktop'']
     | Bedroom \<Rightarrow> [''Bed'', ''Rug'', ''Desk'', ''Chair'']
     | Bathroom \<Rightarrow> [''Shower'', ''Toilet'', ''LED lights'', ''Towell Hanger''])"

definition allAppliances :: "string list" where
  "allAppliances = menuData Living_Room @ menuData Kitchen @ menuData Bedroom @ menuData Bathroom"

definition specificCoordinates :: "vec3 list" where
  "specificCoordinates =
     [(-1.2, 2.4, 1.8), (-1.1, 2.6, 0.9), (-1.3, 2.2, 1.7), (-0.4, 0.1, 1.5),
      (-0.2, 0.4, -1.7), (-0.6, 0.6, -1.7), (0.5, 0.6, -1.7), (-0.1, 0.7, -1.7),
      (0.42, 2.1, 1.7), (-0.6, 2.1, 1.7), (1.3, 2.2, 1.7), (1.2, 2.2, 1.2),
      (1.5, 0.8, -1.8), (1.7, 0.3, -0.7), (1.4, 1.3, 0.1), (0.9, 0.8, -0.6)]"

definition colors :: "string list" where
  "colors =
     [''#ff6b6b'', ''#4ecdc4'', ''#45b7d1'', ''#96ceb4'', ''#feca57'', ''#ff9ff3'',
      ''#54a0ff'', ''#5f27cd'', ''#00d2d3'', ''#ff9f43'', ''#ee5a24'', ''#0abde3'',
      ''#10ac84'', ''#f368e0'', ''#3742fa'', ''#2f3542'']"

definition initialSpheres :: "SpherePosition list" where
  \<comment> \<open>\<open>Array.from({ length: 16 }, (_, index) => ...)\<close>; the three tables have sixteen entries\<close>
  "initialSpheres =
     map (\<lambda>index. case specificCoordinates ! index of (cx, cy, cz) \<Rightarrow>
            \<lparr>sphere_id = int index + 1, sphere_x = cx, sphere_y = cy, sphere_z = cz,
             sphere_visible = True, sphere_color = colors ! index,
             sphere_name = allAppliances ! index\<rparr>)
         [0..<16]"

definition initialDropdownStates :: "room \<Rightarrow> bool" where
  "initialDropdownStates = (\<lambda>_. False)"

definition newTitleOpacity :: "real \<Rightarrow> real" where
  "newTitleOpacity displayDegrees =
     (if displayDegrees < 30 then max (1 - displayDegrees / 30) 0 else 0)"

definition newModelScale :: "real \<Rightarrow> real" where
  "newModelScale displayDegrees =
     (if displayDegrees < 30 then 1.5
      else if displayDegrees < 60 then
        (let scaleProgress = (displayDegrees - 30) / 30 in 1.5 + scaleProgress * 1.3)
      else 2.8)"

datatype stage = TitleVisible | ModelGrowing | NavigationActive

definition getCurrentStage :: "real \<Rightarrow> stage" where
  \<comment> \<open>the three labels \<open>Stage 1: Title Visible\<close>, \<open>Stage 2: Model Growing\<close>, \<open>Stage 3: ...\<close>\<close>
  "getCurrentStage rotationDegrees =
     (if rotationDegrees < 30 then TitleVisible
      else if rotationDegrees < 60 then ModelGrowing
      else NavigationActive)"

text \<open>
  Deferred callbacks. \<open>setTimeout\<close> appends an entry to the timer table; the flag says
  whether the entry is still pending. An entry is never removed, so the table also records
  every callback that was ever scheduled.
\<close>

datatype timer =
    HideNotification nat
  | ZoomIn "int option" "SpherePosition list" real

type_synonym timers = "(timer \<times> bool) list"

definition setTimeout :: "timer \<Rightarrow> timers \<Rightarrow> timers" where
  "setTimeout t ts = ts @ [(t, True)]"

definition scheduled :: "timer \<Rightarrow> timers \<Rightarrow> nat" where
  "scheduled t ts = length (filter (\<lambda>e. fst e = t) ts)"

section \<open>MenuHome (MenuHome.tsx): wheel-driven stages\<close>

record mh_state =
  mh_sidebarOpen :: bool
  mh_notificationShown :: bool
  mh_showNotification :: bool
  mh_targetRotation :: real
  mh_titleOpacity :: real
  mh_modelScale :: real
  mh_dropdownStates :: "room \<Rightarrow> bool"
  mh_accumulatedRotation :: real
  mh_timers :: timers

definition mh_init :: mh_state where
  "mh_init = \<lparr>mh_sidebarOpen = False, mh_notificationShown = False,
     mh_showNotification = False, mh_targetRotation = 0, mh_titleOpacity = 1,
     mh_modelScale = 1.5, mh_dropdownStates = initialDropdownStates,
     mh_accumulatedRotation = 0, mh_timers = []\<rparr>"

definition mh_rotationDegrees :: "real \<Rightarrow> real" where
  "mh_rotationDegrees accumulatedRotation = js_rem \<bar>accumulatedRotation * 180 / pi\<bar> 360"

definition mh_handleWheel :: "real \<Rightarrow> mh_state \<Rightarrow> mh_state" where
  "mh_handleWheel deltaY st =
     (let rotationSensitivity = 0.005;
          accumulatedRotation = mh_accumulatedRotation st + deltaY * rotationSensitivity;
          rotationDegrees = mh_rotationDegrees accumulatedRotation;
          st1 = st\<lparr>mh_accumulatedRotation := accumulatedRotation,
                   mh_targetRotation := accumulatedRotation,
                   mh_titleOpacity := newTitleOpacity rotationDegrees,
                   mh_modelScale := newModelScale rotationDegrees\<rparr>
      in if 60 \<le> rotationDegrees \<and> \<not> mh_sidebarOpen st then
           (let st2 = st1\<lparr>mh_sidebarOpen := True\<rparr>
            in if \<not> mh_notificationShown st then
                 st2\<lparr>mh_showNotification := True,
                     mh_timers := setTimeout (HideNotification 3000) (mh_timers st2),
                     mh_notificationShown := True\<rparr>
               else st2)
         else st1)"

definition mh_closeSidebar :: "mh_state \<Rightarrow> mh_state" where
  "mh_closeSidebar st = st\<lparr>mh_sidebarOpen := False, mh_dropdownStates := initialDropdownStates\<rparr>"

definition mh_handleKeyDown :: "string \<Rightarrow> mh_state \<Rightarrow> mh_state" where
  "mh_handleKeyDown key st =
     (if key = ''Escape'' \<and> mh_sidebarOpen st then
        st\<lparr>mh_sidebarOpen := False, mh_dropdownStates := initialDropdownStates\<rparr>
      else st)"

definition mh_toggleDropdown :: "room \<Rightarrow> mh_state \<Rightarrow> mh_state" where
  "mh_toggleDropdown item st =
     st\<lparr>mh_dropdownStates := (mh_dropdownStates st)(item := \<not> mh_dropdownStates st item)\<rparr>"

definition mh_timeout :: "nat \<Rightarrow> mh_state \<Rightarrow> mh_state" where
  \<comment> \<open>the pending entry \<open>k\<close> of the timer table fires; every callback of this component hides
     the notification\<close>
  "mh_timeout k st =
     (if k < length (mh_timers st) \<and> snd (mh_timers st ! k) then
        st\<lparr>mh_showNotification := False,
           mh_timers := (mh_timers st)[k := (fst (mh_timers st ! k), False)]\<rparr>
      else st)"

definition mh_effects :: "mh_state \<Rightarrow> mh_state \<Rightarrow> mh_state" where
  \<comment> \<open>the wheel effect has the dependencies \<open>[sidebarOpen, notificationShown]\<close>: when one of
     them changed, the listener is replaced and its local accumulator starts again at 0\<close>
  "mh_effects old new =
     (if mh_sidebarOpen new \<noteq> mh_sidebarOpen old
         \<or> mh_notificationShown new \<noteq> mh_notificationShown old
      then new\<lparr>mh_accumulatedRotation := 0\<rparr> else new)"

datatype mh_event =
    MH_Wheel real
  | MH_KeyDown string
  | MH_CloseSidebar
  | MH_ToggleDropdown room
  | MH_Timeout nat

fun mh_handle :: "mh_event \<Rightarrow> mh_state \<Rightarrow> mh_state" where
  "mh_handle (MH_Wheel deltaY) st = mh_handleWheel deltaY st"
| "mh_handle (MH_KeyDown key) st = mh_handleKeyDown key st"
| "mh_handle MH_CloseSidebar st = mh_closeSidebar st"
| "mh_handle (MH_ToggleDropdown item) st = mh_toggleDropdown item st"
| "mh_handle (MH_Timeout k) st = mh_timeout k st"

definition mh_step :: "mh_state \<Rightarrow> mh_event \<Rightarrow> mh_state" where
  "mh_step st e = mh_effects st (mh_handle e st)"

definition mh_run :: "mh_event list \<Rightarrow> mh_state \<Rightarrow> mh_state" where
  "mh_run es st = foldl mh_step st es"

section \<open>SpherePositioningSystem: wheel stages, anchors and the animated camera\<close>

record Camera =
  camera_position :: vec3
  camera_lookAt :: vec3

record AnimRefs =
  currentPosition :: vec3
  currentLookAt :: vec3
  isAnimating :: bool

record ModelRefs =
  currentRotation :: real
  velocity :: real

datatype axis = AxisX | AxisY | AxisZ

definition updateSpherePosition ::
  "int \<Rightarrow> axis \<Rightarrow> real \<Rightarrow> SpherePosition list \<Rightarrow> SpherePosition list" where
  "updateSpherePosition i ax v prev =
     map (\<lambda>sphere. if sphere_id sphere = i then
            (case ax of AxisX \<Rightarrow> sphere\<lparr>sphere_x := v\<rparr>
                      | AxisY \<Rightarrow> sphere\<lparr>sphere_y := v\<rparr>
                      | AxisZ \<Rightarrow> sphere\<lparr>sphere_z := v\<rparr>)
          else sphere) prev"

definition toggleSphereVisibility :: "int \<Rightarrow> SpherePosition list \<Rightarrow> SpherePosition list" where
  "toggleSphereVisibility i prev =
     map (\<lambda>sphere. if sphere_id sphere = i
            then sphere\<lparr>sphere_visible := \<not> sphere_visible sphere\<rparr> else sphere) prev"

text \<open>
  \<open>Math.random()\<close> is an input: \<open>rnd n\<close> is the \<open>n\<close>-th number drawn during the call, each
  in \<open>[0, 1)\<close>. The object literal draws for \<open>x\<close>, then \<open>y\<close>, then \<open>z\<close>.
\<close>

fun sps_resetSpherePosition ::
  "int \<Rightarrow> (nat \<Rightarrow> real) \<Rightarrow> nat \<Rightarrow> SpherePosition list \<Rightarrow> SpherePosition list" where
  "sps_resetSpherePosition i rnd n [] = []"
| "sps_resetSpherePosition i rnd n (sphere # prev) =
     (if sphere_id sphere = i then
        sphere\<lparr>sphere_x := (rnd n - 0.5) * 12,
               sphere_y := rnd (n + 1) * 6 - 1,
               sphere_z := (rnd (n + 2) - 0.5) * 12\<rparr>
        # sps_resetSpherePosition i rnd (n + 3) prev
      else sphere # sps_resetSpherePosition i rnd n prev)"

fun sps_resetAllSpheres ::
  "(nat \<Rightarrow> real) \<Rightarrow> nat \<Rightarrow> SpherePosition list \<Rightarrow> SpherePosition list" where
  "sps_resetAllSpheres rnd n [] = []"
| "sps_resetAllSpheres rnd n (sphere # prev) =
     sphere\<lparr>sphere_x := (rnd n - 0.5) * 12,
            sphere_y := rnd (n + 1) * 6 - 1,
            sphere_z := (rnd (n + 2) - 0.5) * 12,
            sphere_visible := True\<rparr>
     # sps_resetAllSpheres rnd (n + 3) prev"

record sps_state =
  sps_sidebarOpen :: bool
  sps_notificationShown :: bool
  sps_showNotification :: bool
  sps_targetRotation :: real
  sps_titleOpacity :: real
  sps_modelScale :: real
  sps_rotationDegrees :: real
  sps_showSphereControls :: bool
  sps_selectedSphere :: "int option"
  sps_cameraTarget :: CameraTarget
  sps_notificationText :: string
  sps_spheres :: "SpherePosition list"
  sps_dropdownStates :: "room \<Rightarrow> bool"
  sps_accumulatedDegrees :: real
  sps_timers :: timers
  sps_camera :: Camera
  sps_anim :: AnimRefs
  sps_model :: ModelRefs

definition sps_init :: "Camera \<Rightarrow> sps_state" where
  \<comment> \<open>the state at mount; the camera is the one the canvas was created with\<close>
  "sps_init cam = \<lparr>sps_sidebarOpen = False, sps_notificationShown = False,
     sps_showNotification = False, sps_targetRotation = 0, sps_titleOpacity = 1,
     sps_modelScale = 1.5, sps_rotationDegrees = 0, sps_showSphereControls = False,
     sps_selectedSphere = None,
     sps_cameraTarget = \<lparr>position = (0, 3, 8), lookAt = (0, 0, 0), animating = False\<rparr>,
     sps_notificationText = [], sps_spheres = initialSpheres,
     sps_dropdownStates = initialDropdownStates, sps_accumulatedDegrees = 0,
     sps_timers = [], sps_camera = cam,
     sps_anim = \<lparr>currentPosition = (0, 3, 8), currentLookAt = (0, 0, 0), isAnimating = False\<rparr>,
     sps_model = \<lparr>currentRotation = 0, velocity = 0\<rparr>\<rparr>"

definition sps_handleWheel :: "real \<Rightarrow> sps_state \<Rightarrow> sps_state" where
  "sps_handleWheel deltaY st =
     (let degreesPerScroll = 1.2;
          scrollDirection = (if 0 < deltaY then 1 else - 1);
          accumulatedDegrees = sps_accumulatedDegrees st + scrollDirection * degreesPerScroll;
          targetRadians = accumulatedDegrees * pi / 180;
          displayDegrees = js_rem \<bar>accumulatedDegrees\<bar> 360;
          st1 = st\<lparr>sps_accumulatedDegrees := accumulatedDegrees,
                   sps_targetRotation := targetRadians,
                   sps_rotationDegrees := displayDegrees,
                   sps_titleOpacity := newTitleOpacity displayDegrees,
                   sps_modelScale := newModelScale displayDegrees\<rparr>
      in if 60 \<le> displayDegrees \<and> \<not> sps_sidebarOpen st then
           (let st2 = st1\<lparr>sps_sidebarOpen := True, sps_showSphereControls := True\<rparr>
            in if \<not> sps_notificationShown st then
                 st2\<lparr>sps_showNotification := True,
                     sps_timers := setTimeout (HideNotification 3000) (sps_timers st2),
                     sps_notificationShown := True\<rparr>
               else st2)
         else st1)"

definition sps_closeSidebar :: "sps_state \<Rightarrow> sps_state" where
  "sps_closeSidebar st =
     st\<lparr>sps_sidebarOpen := False, sps_showSphereControls := False,
        sps_selectedSphere := None, sps_dropdownStates := initialDropdownStates\<rparr>"

definition sps_handleKeyDown :: "string \<Rightarrow> sps_state \<Rightarrow> sps_state" where
  "sps_handleKeyDown key st =
     (if key = ''Escape'' \<and> sps_sidebarOpen st then
        st\<lparr>sps_sidebarOpen := False, sps_showSphereControls := False,
           sps_selectedSphere := None, sps_dropdownStates := initialDropdownStates\<rparr>
      else st)"

definition sps_toggleDropdown :: "room \<Rightarrow> sps_state \<Rightarrow> sps_state" where
  "sps_toggleDropdown item st =
     st\<lparr>sps_dropdownStates := (sps_dropdownStates st)(item := \<not> sps_dropdownStates st item)\<rparr>"

definition sps_zoomToSphere :: "int \<Rightarrow> sps_state \<Rightarrow> sps_state" where
  "sps_zoomToSphere sphereId st =
     (case find (\<lambda>s. sphere_id s = sphereId) (sps_spheres st) of
        None \<Rightarrow> st
      | Some sphere \<Rightarrow>
          let distance = 1.5;
              height = 0.8;
              targetRotation = sps_targetRotation st;
              worldX = sphere_x sphere * cos targetRotation - sphere_z sphere * sin targetRotation;
              worldZ = sphere_x sphere * sin targetRotation + sphere_z sphere * cos targetRotation;
              worldY = sphere_y sphere;
              angle = atan2 worldZ worldX + pi / 3;
              cameraX = worldX + distance * cos angle;
              cameraY = worldY + height;
              cameraZ = worldZ + distance * sin angle
          in st\<lparr>sps_cameraTarget := \<lparr>position = (cameraX, cameraY, cameraZ),
                                      lookAt = (worldX, worldY, worldZ), animating = True\<rparr>,
                 sps_notificationText := ''Zooming to '' @ sphere_name sphere,
                 sps_showNotification := True,
                 sps_timers := setTimeout (HideNotification 2000) (sps_timers st)\<rparr>)"

definition sps_resetCamera :: "sps_state \<Rightarrow> sps_state" where
  "sps_resetCamera st =
     st\<lparr>sps_cameraTarget := \<lparr>position = (0, 3, 8 - (sps_modelScale st - 1.5) * 1.5),
                              lookAt = (0, 0, 0), animating = True\<rparr>,
        sps_notificationText := ''Returning to overview'',
        sps_showNotification := True,
        sps_timers := setTimeout (HideNotification 2000) (sps_timers st)\<rparr>"

definition sps_handleAnimationComplete :: "sps_state \<Rightarrow> sps_state" where
  "sps_handleAnimationComplete st =
     st\<lparr>sps_cameraTarget := (sps_cameraTarget st)\<lparr>animating := False\<rparr>\<rparr>"

definition sps_exportCoordinates :: "sps_state \<Rightarrow> sps_state" where
  "sps_exportCoordinates st =
     st\<lparr>sps_showNotification := True,
        sps_timers := setTimeout (HideNotification 2000) (sps_timers st)\<rparr>"

definition sps_timeout :: "nat \<Rightarrow> sps_state \<Rightarrow> sps_state" where
  "sps_timeout k st =
     (if k < length (sps_timers st) \<and> snd (sps_timers st ! k) then
        st\<lparr>sps_showNotification := False,
           sps_timers := (sps_timers st)[k := (fst (sps_timers st ! k), False)]\<rparr>
      else st)"

definition AnimatedCamera_complete :: "CameraTarget \<Rightarrow> AnimRefs \<Rightarrow> bool" where
  \<comment> \<open>the test that ends an animation, on the interpolated pose of this frame\<close>
  "AnimatedCamera_complete cameraTarget refs =
     (let positionDistance = distanceTo (position cameraTarget) (currentPosition refs)
      in positionDistance < 0.1)"

definition AnimatedCamera_frame :: "sps_state \<Rightarrow> sps_state" where
  \<comment> \<open>the \<open>useFrame\<close> callback of \<open>AnimatedCamera\<close>\<close>
  "AnimatedCamera_frame st =
     (let cameraTarget = sps_cameraTarget st;
          refs0 = sps_anim st;
          refs1 = (if animating cameraTarget \<and> \<not> isAnimating refs0 then
                     refs0\<lparr>currentPosition := camera_position (sps_camera st),
                           currentLookAt := (0, 0, 0), isAnimating := True\<rparr>
                   else refs0)
      in if animating cameraTarget \<or> isAnimating refs1 then
           (let lerpFactor = 0.08;
                refs2 = refs1\<lparr>currentPosition :=
                                 lerp3 lerpFactor (position cameraTarget) (currentPosition refs1),
                               currentLookAt :=
                                 lerp3 lerpFactor (lookAt cameraTarget) (currentLookAt refs1)\<rparr>;
                st1 = st\<lparr>sps_camera := \<lparr>camera_position = currentPosition refs2,
                                          camera_lookAt = currentLookAt refs2\<rparr>\<rparr>
            in if AnimatedCamera_complete cameraTarget refs2 then
                 sps_handleAnimationComplete (st1\<lparr>sps_anim := refs2\<lparr>isAnimating := False\<rparr>\<rparr>)
               else st1\<lparr>sps_anim := refs2\<rparr>)
         else
           (let defaultPosition = (0, 3, 8 - (sps_modelScale st - 1.5) * 1.5)
            in if \<not> isAnimating refs1 then
                 (let refs2 = refs1\<lparr>currentPosition :=
                                       lerp3 0.02 defaultPosition (currentPosition refs1),
                                     currentLookAt :=
                                       lerp3 0.02 (0, 0, 0) (currentLookAt refs1)\<rparr>
                  in st\<lparr>sps_anim := refs2,
                        sps_camera := \<lparr>camera_position = currentPosition refs2,
                                        camera_lookAt = currentLookAt refs2\<rparr>\<rparr>)
               else st\<lparr>sps_anim := refs1\<rparr>))"

definition TinyHouseModel_frame :: "real \<Rightarrow> ModelRefs \<Rightarrow> ModelRefs" where
  \<comment> \<open>the \<open>useFrame\<close> callback of \<open>TinyHouseModel\<close>, the model being mounted\<close>
  "TinyHouseModel_frame targetRotation refs =
     (let lerpFactor = 0.08;
          difference = targetRotation - currentRotation refs;
          v1 = velocity refs + difference * 0.02;
          v2 = v1 * 0.85
      in \<lparr>currentRotation = currentRotation refs + (difference * lerpFactor + v2 * 0.1),
          velocity = v2\<rparr>)"

definition sps_frame :: "sps_state \<Rightarrow> sps_state" where
  "sps_frame st =
     (let st1 = AnimatedCamera_frame st
      in st1\<lparr>sps_model := TinyHouseModel_frame (sps_targetRotation st) (sps_model st)\<rparr>)"

definition sps_effects :: "sps_state \<Rightarrow> sps_state \<Rightarrow> sps_state" where
  "sps_effects old new =
     (if sps_sidebarOpen new \<noteq> sps_sidebarOpen old
         \<or> sps_notificationShown new \<noteq> sps_notificationShown old
      then new\<lparr>sps_accumulatedDegrees := 0\<rparr> else new)"

datatype sps_event =
    SPS_Wheel real
  | SPS_KeyDown string
  | SPS_CloseSidebar
  | SPS_ToggleDropdown room
  | SPS_ZoomToSphere int
  | SPS_ResetCamera
  | SPS_UpdateSpherePosition int axis real
  | SPS_ToggleSphereVisibility int
  | SPS_ResetSpherePosition int "nat \<Rightarrow> real"
  | SPS_ResetAllSpheres "nat \<Rightarrow> real"
  | SPS_ExportCoordinates
  | SPS_SetShowSphereControls bool
  | SPS_SetSelectedSphere "int option"
  | SPS_Timeout nat
  | SPS_Frame

fun sps_handle :: "sps_event \<Rightarrow> sps_state \<Rightarrow> sps_state" where
  "sps_handle (SPS_Wheel deltaY) st = sps_handleWheel deltaY st"
| "sps_handle (SPS_KeyDown key) st = sps_handleKeyDown key st"
| "sps_handle SPS_CloseSidebar st = sps_closeSidebar st"
| "sps_handle (SPS_ToggleDropdown item) st = sps_toggleDropdown item st"
| "sps_handle (SPS_ZoomToSphere sphereId) st = sps_zoomToSphere sphereId st"
| "sps_handle SPS_ResetCamera st = sps_resetCamera st"
| "sps_handle (SPS_UpdateSpherePosition i ax v) st =
     st\<lparr>sps_spheres := updateSpherePosition i ax v (sps_spheres st)\<rparr>"
| "sps_handle (SPS_ToggleSphereVisibility i) st =
     st\<lparr>sps_spheres := toggleSphereVisibility i (sps_spheres st)\<rparr>"
| "sps_handle (SPS_ResetSpherePosition i rnd) st =
     st\<lparr>sps_spheres := sps_resetSpherePosition i rnd 0 (sps_spheres st)\<rparr>"
| "sps_handle (SPS_ResetAllSpheres rnd) st =
     st\<lparr>sps_spheres := sps_resetAllSpheres rnd 0 (sps_spheres st), sps_selectedSphere := None\<rparr>"
| "sps_handle SPS_ExportCoordinates st = sps_exportCoordinates st"
| "sps_handle (SPS_SetShowSphereControls b) st = st\<lparr>sps_showSphereControls := b\<rparr>"
| "sps_handle (SPS_SetSelectedSphere sel) st = st\<lparr>sps_selectedSphere := sel\<rparr>"
| "sps_handle (SPS_Timeout k) st = sps_timeout k st"
| "sps_handle SPS_Frame st = sps_frame st"

definition sps_step :: "sps_state \<Rightarrow> sps_event \<Rightarrow> sps_state" where
  "sps_step st e = sps_effects st (sps_handle e st)"

definition sps_run :: "sps_event list \<Rightarrow> sps_state \<Rightarrow> sps_state" where
  "sps_run es st = foldl sps_step st es"

section \<open>LODOptimizedScene: level of detail, camera director and transitions\<close>

datatype LODLevel = Low | Medium | High

record GeometryDetail =
  widthSegments :: real
  heightSegments :: real

record LOD =
  detail :: LODLevel
  visible :: bool
  showWireframe :: bool
  showFloating :: bool
  geometryDetail :: GeometryDetail

definition truthy :: "int option \<Rightarrow> bool" where
  \<comment> \<open>a \<open>number | null\<close> used as a condition: \<open>null\<close>, \<open>undefined\<close> and 0 are false\<close>
  "truthy v = (case v of None \<Rightarrow> False | Some n \<Rightarrow> n \<noteq> 0)"

definition useDistanceLOD :: "vec3 \<Rightarrow> vec3 \<Rightarrow> int option \<Rightarrow> int option \<Rightarrow> LOD" where
  \<comment> \<open>arguments: sphere position, camera position, \<open>focusedSphere\<close>, the optional \<open>sphereId\<close>\<close>
  "useDistanceLOD spherePos cameraPos focusedSphere sphereId =
     (let distance = distanceTo cameraPos spherePos
      in if truthy sphereId \<and> focusedSphere = sphereId then
           \<lparr>detail = High, visible = True, showWireframe = True, showFloating = True,
            geometryDetail = \<lparr>widthSegments = 32, heightSegments = 32\<rparr>\<rparr>
         else if distance < 2 then
           \<lparr>detail = High, visible = True, showWireframe = True, showFloating = True,
            geometryDetail = \<lparr>widthSegments = 16, heightSegments = 16\<rparr>\<rparr>
         else if distance < 5 then
           \<lparr>detail = Medium, visible = True, showWireframe = True, showFloating = True,
            geometryDetail = \<lparr>widthSegments = 12, heightSegments = 12\<rparr>\<rparr>
         else if distance < 10 then
           \<lparr>detail = Low, visible = True, showWireframe = False, showFloating = False,
            geometryDetail = \<lparr>widthSegments = 8, heightSegments = 8\<rparr>\<rparr>
         else
           \<lparr>detail = Low, visible = False, showWireframe = False, showFloating = False,
            geometryDetail = \<lparr>widthSegments = 6, heightSegments = 6\<rparr>\<rparr>)"

definition performanceAdjustment :: "real \<Rightarrow> real" where
  "performanceAdjustment fps = (if fps < 30 then 0.5 else if fps < 45 then 0.75 else 1.0)"

definition finalGeometryDetail :: "LOD \<Rightarrow> real \<Rightarrow> GeometryDetail" where
  "finalGeometryDetail lod fps =
     \<lparr>widthSegments =
        max 4 (of_int \<lfloor>widthSegments (geometryDetail lod) * performanceAdjustment fps\<rfloor>),
      heightSegments =
        max 4 (of_int \<lfloor>heightSegments (geometryDetail lod) * performanceAdjustment fps\<rfloor>)\<rparr>"

datatype CameraMode = Overview | Focused | Transitioning

datatype TransitionPhase = Zoom_out | Zoom_in | No_phase

record LODAnimRefs = AnimRefs +
  isLocked :: bool
  frameCounter :: nat

fun lod_resetSpherePosition ::
  "int \<Rightarrow> (nat \<Rightarrow> real) \<Rightarrow> nat \<Rightarrow> SpherePosition list \<Rightarrow> SpherePosition list" where
  "lod_resetSpherePosition i rnd n [] = []"
| "lod_resetSpherePosition i rnd n (sphere # prev) =
     (if sphere_id sphere = i then
        sphere\<lparr>sphere_x := (rnd n - 0.5) * 16,
               sphere_y := rnd (n + 1) * 8 - 2,
               sphere_z := (rnd (n + 2) - 0.5) * 16\<rparr>
        # lod_resetSpherePosition i rnd (n + 3) prev
      else sphere # lod_resetSpherePosition i rnd n prev)"

fun lod_resetAllSpheres ::
  "(nat \<Rightarrow> real) \<Rightarrow> nat \<Rightarrow> SpherePosition list \<Rightarrow> SpherePosition list" where
  "lod_resetAllSpheres rnd n [] = []"
| "lod_resetAllSpheres rnd n (sphere # prev) =
     sphere\<lparr>sphere_x := (rnd n - 0.5) * 16,
            sphere_y := rnd (n + 1) * 8 - 2,
            sphere_z := (rnd (n + 2) - 0.5) * 16\<rparr>
     # lod_resetAllSpheres rnd (n + 3) prev"

record lod_state =
  lod_targetRotation :: real
  lod_modelScale :: real
  lod_sidebarOpen :: bool
  lod_rotationDegrees :: real
  lod_showSphereControls :: bool
  lod_selectedSphere :: "int option"
  lod_notificationShown :: bool
  lod_cameraTarget :: CameraTarget
  lod_notificationText :: string
  lod_showNotification :: bool
  lod_focusedSphere :: "int option"
  lod_cameraMode :: CameraMode
  lod_pendingTarget :: "int option"
  lod_transitionPhase :: TransitionPhase
  lod_spheres :: "SpherePosition list"
  lod_dropdownStates :: "room \<Rightarrow> bool"
  lod_accumulatedDegrees :: real
  lod_timers :: timers
  lod_camera :: Camera
  lod_anim :: LODAnimRefs
  lod_model :: ModelRefs

definition lod_init :: "Camera \<Rightarrow> lod_state" where
  "lod_init cam = \<lparr>lod_targetRotation = 0, lod_modelScale = 1.5, lod_sidebarOpen = False,
     lod_rotationDegrees = 0, lod_showSphereControls = False, lod_selectedSphere = None,
     lod_notificationShown = False,
     lod_cameraTarget = \<lparr>position = (0, 3, 8), lookAt = (0, 0, 0), animating = False\<rparr>,
     lod_notificationText = [], lod_showNotification = False, lod_focusedSphere = None,
     lod_cameraMode = Overview, lod_pendingTarget = None, lod_transitionPhase = No_phase,
     lod_spheres = initialSpheres, lod_dropdownStates = initialDropdownStates,
     lod_accumulatedDegrees = 0, lod_timers = [], lod_camera = cam,
     lod_anim = \<lparr>currentPosition = (0, 3, 8), currentLookAt = (0, 0, 0), isAnimating = False,
                 isLocked = False, frameCounter = 0\<rparr>,
     lod_model = \<lparr>currentRotation = 0, velocity = 0\<rparr>\<rparr>"

definition lod_handleWheel :: "real \<Rightarrow> lod_state \<Rightarrow> lod_state" where
  "lod_handleWheel deltaY st =
     (let degreesPerScroll = 1.2;
          scrollDirection = (if 0 < deltaY then 1 else - 1);
          accumulatedDegrees = lod_accumulatedDegrees st + scrollDirection * degreesPerScroll;
          targetRadians = accumulatedDegrees * pi / 180;
          displayDegrees = js_rem \<bar>accumulatedDegrees\<bar> 360;
          st1 = st\<lparr>lod_accumulatedDegrees := accumulatedDegrees,
                   lod_targetRotation := targetRadians,
                   lod_rotationDegrees := displayDegrees,
                   lod_modelScale := newModelScale displayDegrees\<rparr>
      in if 60 \<le> displayDegrees \<and> \<not> lod_sidebarOpen st then
           (let st2 = st1\<lparr>lod_sidebarOpen := True, lod_showSphereControls := True\<rparr>
            in if \<not> lod_notificationShown st then
                 st2\<lparr>lod_showNotification := True,
                     lod_timers := setTimeout (HideNotification 3000) (lod_timers st2),
                     lod_notificationShown := True\<rparr>
               else st2)
         else st1)"

definition lod_closeSidebar :: "lod_state \<Rightarrow> lod_state" where
  "lod_closeSidebar st =
     st\<lparr>lod_sidebarOpen := False, lod_showSphereControls := False,
        lod_selectedSphere := None, lod_dropdownStates := initialDropdownStates\<rparr>"

definition lod_handleKeyDown :: "string \<Rightarrow> lod_state \<Rightarrow> lod_state" where
  "lod_handleKeyDown key st =
     (if key = ''Escape'' \<and> lod_sidebarOpen st then
        st\<lparr>lod_sidebarOpen := False, lod_showSphereControls := False,
           lod_selectedSphere := None, lod_dropdownStates := initialDropdownStates\<rparr>
      else st)"

definition lod_toggleDropdown :: "room \<Rightarrow> lod_state \<Rightarrow> lod_state" where
  "lod_toggleDropdown item st =
     st\<lparr>lod_dropdownStates := (lod_dropdownStates st)(item := \<not> lod_dropdownStates st item)\<rparr>"

definition performZoomToSphere :: "int \<Rightarrow> lod_state \<Rightarrow> lod_state" where
  "performZoomToSphere sphereId st =
     (case find (\<lambda>s. sphere_id s = sphereId) (lod_spheres st) of
        None \<Rightarrow> st
      | Some sphere \<Rightarrow>
          let targetRotation = lod_targetRotation st;
              worldX = sphere_x sphere * cos targetRotation - sphere_z sphere * sin targetRotation;
              worldZ = sphere_x sphere * sin targetRotation + sphere_z sphere * cos targetRotation;
              worldY = sphere_y sphere;
              distance = 0.8;
              height = 0.3;
              angle = atan2 worldZ worldX + pi / 4;
              cameraX = worldX + distance * cos angle;
              cameraY = worldY + height;
              cameraZ = worldZ + distance * sin angle
          in st\<lparr>lod_cameraTarget := \<lparr>position = (cameraX, cameraY, cameraZ),
                                      lookAt = (worldX, worldY, worldZ), animating = True\<rparr>,
                 lod_focusedSphere := Some sphereId,
                 lod_cameraMode := Focused,
                 lod_notificationText :=
                   ''Focused on '' @ sphere_name sphere @ '' - LOD Optimized & Locked'',
                 lod_showNotification := True,
                 lod_timers := setTimeout (HideNotification 2000) (lod_timers st)\<rparr>)"

definition lod_zoomToSphere :: "int \<Rightarrow> lod_state \<Rightarrow> lod_state" where
  "lod_zoomToSphere sphereId st =
     (case find (\<lambda>s. sphere_id s = sphereId) (lod_spheres st) of
        None \<Rightarrow> st
      | Some sphere \<Rightarrow>
          if truthy (lod_focusedSphere st) \<and> lod_focusedSphere st \<noteq> Some sphereId then
            st\<lparr>lod_cameraMode := Transitioning,
               lod_pendingTarget := Some sphereId,
               lod_transitionPhase := Zoom_out,
               lod_focusedSphere := None,
               lod_cameraTarget := \<lparr>position = (0, 3, 8 - (lod_modelScale st - 1.5) * 1.5),
                                     lookAt = (0, 0, 0), animating = True\<rparr>,
               lod_notificationText :=
                 ''Transitioning from ''
                 @ (case find (\<lambda>s. Some (sphere_id s) = lod_focusedSphere st) (lod_spheres st) of
                      None \<Rightarrow> ''undefined'' | Some old \<Rightarrow> sphere_name old)
                 @ '' to '' @ sphere_name sphere @ ''...'',
               lod_showNotification := True,
               lod_timers := setTimeout (HideNotification 2000) (lod_timers st)\<rparr>
          else performZoomToSphere sphereId st)"

definition lod_resetCamera :: "lod_state \<Rightarrow> lod_state" where
  "lod_resetCamera st =
     st\<lparr>lod_cameraTarget := \<lparr>position = (0, 3, 8 - (lod_modelScale st - 1.5) * 1.5),
                              lookAt = (0, 0, 0), animating = True\<rparr>,
        lod_focusedSphere := None,
        lod_cameraMode := Overview,
        lod_transitionPhase := No_phase,
        lod_pendingTarget := None,
        lod_notificationText := ''Returning to overview - LOD Optimized'',
        lod_showNotification := True,
        lod_timers := setTimeout (HideNotification 2000) (lod_timers st)\<rparr>"

definition lod_handleAnimationComplete :: "lod_state \<Rightarrow> lod_state \<Rightarrow> lod_state" where
  \<comment> \<open>\<open>seen\<close> is the rendered state the callback was created in (its closure), \<open>st\<close> the state
     the updates are applied to; the deferred zoom-in keeps the values of \<open>seen\<close>\<close>
  "lod_handleAnimationComplete seen st =
     (let st1 = st\<lparr>lod_cameraTarget := (lod_cameraTarget st)\<lparr>animating := False\<rparr>\<rparr>
      in if lod_cameraMode seen = Transitioning \<and> lod_transitionPhase seen = Zoom_out
            \<and> truthy (lod_pendingTarget seen)
         then st1\<lparr>lod_timers :=
                     setTimeout (ZoomIn (lod_pendingTarget seen) (lod_spheres seen)
                                   (lod_targetRotation seen)) (lod_timers st1)\<rparr>
         else st1)"

definition lod_zoomInCallback ::
  "int option \<Rightarrow> SpherePosition list \<Rightarrow> real \<Rightarrow> lod_state \<Rightarrow> lod_state" where
  \<comment> \<open>the function deferred by 400 ms in \<open>handleAnimationComplete\<close>; its updates are applied
     together, so of the two writes to \<open>transitionPhase\<close> the last one is the new value\<close>
  "lod_zoomInCallback pendingTarget spheres targetRotation st =
     (let st1 = st\<lparr>lod_transitionPhase := Zoom_in\<rparr>;
          st2 = (case find (\<lambda>s. Some (sphere_id s) = pendingTarget) spheres of
                   None \<Rightarrow> st1
                 | Some sphere \<Rightarrow>
                     let worldX = sphere_x sphere * cos targetRotation
                                  - sphere_z sphere * sin targetRotation;
                         worldZ = sphere_x sphere * sin targetRotation
                                  + sphere_z sphere * cos targetRotation;
                         worldY = sphere_y sphere;
                         distance = 0.8;
                         height = 0.3;
                         angle = atan2 worldZ worldX + pi / 4;
                         cameraX = worldX + distance * cos angle;
                         cameraY = worldY + height;
                         cameraZ = worldZ + distance * sin angle
                     in st1\<lparr>lod_cameraTarget := \<lparr>position = (cameraX, cameraY, cameraZ),
                                                  lookAt = (worldX, worldY, worldZ),
                                                  animating = True\<rparr>,
                             lod_focusedSphere := pendingTarget,
                             lod_cameraMode := Focused,
                             lod_notificationText :=
                               ''Focused on '' @ sphere_name sphere
                               @ '' - LOD Optimized & Locked'',
                             lod_showNotification := True,
                             lod_timers := setTimeout (HideNotification 2000) (lod_timers st1)\<rparr>)
      in st2\<lparr>lod_pendingTarget := None, lod_transitionPhase := No_phase\<rparr>)"

definition lod_exportCoordinates :: "lod_state \<Rightarrow> lod_state" where
  "lod_exportCoordinates st =
     st\<lparr>lod_notificationText := ''Coordinates exported to console'',
        lod_showNotification := True,
        lod_timers := setTimeout (HideNotification 2000) (lod_timers st)\<rparr>"

definition lod_timeout :: "nat \<Rightarrow> lod_state \<Rightarrow> lod_state" where
  "lod_timeout k st =
     (if k < length (lod_timers st) \<and> snd (lod_timers st ! k) then
        (let t = fst (lod_timers st ! k);
             st1 = st\<lparr>lod_timers := (lod_timers st)[k := (t, False)]\<rparr>
         in case t of
              HideNotification ms \<Rightarrow> st1\<lparr>lod_showNotification := False\<rparr>
            | ZoomIn pendingTarget spheres targetRotation \<Rightarrow>
                lod_zoomInCallback pendingTarget spheres targetRotation st1)
      else st)"

definition animationQuality :: "real \<Rightarrow> real \<times> nat" where
  \<comment> \<open>the pair \<open>(lerpFactor, updateFrequency)\<close>\<close>
  "animationQuality fps =
     (if fps < 30 then (0.15, 2) else if fps < 45 then (0.12, 1) else (0.1, 1))"

definition LODStaticCameraAnimation_complete :: "CameraTarget \<Rightarrow> LODAnimRefs \<Rightarrow> bool" where
  \<comment> \<open>the test that ends an animation, on the interpolated pose of this frame\<close>
  "LODStaticCameraAnimation_complete cameraTarget refs =
     (let positionDistance = distanceTo (position cameraTarget) (currentPosition refs);
          lookAtDistance = distanceTo (lookAt cameraTarget) (currentLookAt refs)
      in positionDistance < 0.05 \<and> lookAtDistance < 0.05)"

definition LODStaticCameraAnimation_frame :: "real \<Rightarrow> lod_state \<Rightarrow> lod_state" where
  \<comment> \<open>the \<open>useFrame\<close> callback of \<open>LODStaticCameraAnimation\<close>; \<open>fps\<close> is the current reading of
     the performance monitor\<close>
  "LODStaticCameraAnimation_frame fps st =
     (let cameraTarget = lod_cameraTarget st;
          focusedSphere = lod_focusedSphere st;
          lerpFactor = fst (animationQuality fps);
          updateFrequency = snd (animationQuality fps);
          refs0 = (lod_anim st)\<lparr>frameCounter := frameCounter (lod_anim st) + 1\<rparr>
      in if frameCounter refs0 mod updateFrequency \<noteq> 0 then st\<lparr>lod_anim := refs0\<rparr>
         else
           (let refs1 = (if animating cameraTarget \<and> \<not> isAnimating refs0 then
                           (case camera_position (lod_camera st) of (cx, cy, cz) \<Rightarrow>
                              refs0\<lparr>currentPosition := (cx, cy, cz),
                                    currentLookAt := (cx, cy, cz - 1),
                                    isAnimating := True\<rparr>)
                         else refs0)
            in if animating cameraTarget \<or> isAnimating refs1 then
                 (let refs2 = refs1\<lparr>currentPosition :=
                                       lerp3 lerpFactor (position cameraTarget)
                                         (currentPosition refs1),
                                     currentLookAt :=
                                       lerp3 lerpFactor (lookAt cameraTarget)
                                         (currentLookAt refs1)\<rparr>;
                      st1 = st\<lparr>lod_camera := \<lparr>camera_position = currentPosition refs2,
                                                camera_lookAt = currentLookAt refs2\<rparr>\<rparr>
                  in if LODStaticCameraAnimation_complete cameraTarget refs2 then
                       lod_handleAnimationComplete st
                         (st1\<lparr>lod_anim := refs2\<lparr>isAnimating := False,
                                                 isLocked := (focusedSphere \<noteq> None)\<rparr>\<rparr>)
                     else st1\<lparr>lod_anim := refs2\<rparr>)
               else if isLocked refs1 \<and> truthy focusedSphere \<and> 0 < length (lod_spheres st)
                       \<and> lod_cameraMode st \<noteq> Transitioning then
                 (case find (\<lambda>s. Some (sphere_id s) = focusedSphere) (lod_spheres st) of
                    None \<Rightarrow> st\<lparr>lod_anim := refs1\<rparr>
                  | Some sphere \<Rightarrow>
                      let targetRotation = lod_targetRotation st;
                          worldX = sphere_x sphere * cos targetRotation
                                   - sphere_z sphere * sin targetRotation;
                          worldZ = sphere_x sphere * sin targetRotation
                                   + sphere_z sphere * cos targetRotation;
                          worldY = sphere_y sphere;
                          distance = 0.8;
                          height = 0.3;
                          angle = atan2 worldZ worldX + pi / 4;
                          staticCameraX = worldX + distance * cos angle;
                          staticCameraY = worldY + height;
                          staticCameraZ = worldZ + distance * sin angle
                      in st\<lparr>lod_anim := refs1,
                            lod_camera :=
                              \<lparr>camera_position = (staticCameraX, staticCameraY, staticCameraZ),
                               camera_lookAt = (worldX, worldY, worldZ)\<rparr>\<rparr>)
               else if \<not> isLocked refs1 then
                 (let defaultPosition = (0, 3, 8 - (lod_modelScale st - 1.5) * 1.5);
                      defaultLerpFactor = (if 45 < fps then 0.02 else 0.01);
                      refs2 = refs1\<lparr>currentPosition :=
                                       lerp3 defaultLerpFactor defaultPosition
                                         (currentPosition refs1),
                                     currentLookAt :=
                                       lerp3 defaultLerpFactor (0, 0, 0) (currentLookAt refs1)\<rparr>
                  in st\<lparr>lod_anim := refs2,
                        lod_camera := \<lparr>camera_position = currentPosition refs2,
                                        camera_lookAt = currentLookAt refs2\<rparr>\<rparr>)
               else st\<lparr>lod_anim := refs1\<rparr>))"

definition rotationQuality :: "real \<Rightarrow> real \<times> real \<times> real" where
  \<comment> \<open>the triple \<open>(lerpFactor, momentum, damping)\<close>\<close>
  "rotationQuality fps =
     (if fps < 30 then (0.12, 0.01, 0.9)
      else if fps < 45 then (0.1, 0.015, 0.87)
      else (0.08, 0.02, 0.85))"

definition LODTinyHouseModel_frame :: "real \<Rightarrow> real \<Rightarrow> ModelRefs \<Rightarrow> ModelRefs" where
  "LODTinyHouseModel_frame fps targetRotation refs =
     (case rotationQuality fps of (lerpFactor, momentum, damping) \<Rightarrow>
        let difference = targetRotation - currentRotation refs;
            v1 = velocity refs + difference * momentum;
            v2 = v1 * damping
        in \<lparr>currentRotation = currentRotation refs + (difference * lerpFactor + v2 * 0.1),
            velocity = v2\<rparr>)"

definition lod_frame :: "real \<Rightarrow> lod_state \<Rightarrow> lod_state" where
  "lod_frame fps st =
     (let st1 = LODStaticCameraAnimation_frame fps st
      in st1\<lparr>lod_model := LODTinyHouseModel_frame fps (lod_targetRotation st) (lod_model st)\<rparr>)"

definition lod_effects :: "lod_state \<Rightarrow> lod_state \<Rightarrow> lod_state" where
  \<comment> \<open>effects that run after a render: the wheel listener is replaced when \<open>sidebarOpen\<close> or
     \<open>notificationShown\<close> changed; the lock is released when \<open>focusedSphere\<close> became \<open>null\<close>\<close>
  "lod_effects old new =
     (let st1 = (if lod_sidebarOpen new \<noteq> lod_sidebarOpen old
                    \<or> lod_notificationShown new \<noteq> lod_notificationShown old
                 then new\<lparr>lod_accumulatedDegrees := 0\<rparr> else new)
      in if lod_focusedSphere new \<noteq> lod_focusedSphere old \<and> lod_focusedSphere new = None
         then st1\<lparr>lod_anim := (lod_anim st1)\<lparr>isLocked := False\<rparr>\<rparr> else st1)"

datatype lod_event =
    LOD_Wheel real
  | LOD_KeyDown string
  | LOD_CloseSidebar
  | LOD_ToggleDropdown room
  | LOD_ZoomToSphere int
  | LOD_ResetCamera
  | LOD_UpdateSpherePosition int axis real
  | LOD_ToggleSphereVisibility int
  | LOD_ResetSpherePosition int "nat \<Rightarrow> real"
  | LOD_ResetAllSpheres "nat \<Rightarrow> real"
  | LOD_ExportCoordinates
  | LOD_SetSelectedSphere "int option"
  | LOD_Timeout nat
  | LOD_Frame real

fun lod_handle :: "lod_event \<Rightarrow> lod_state \<Rightarrow> lod_state" where
  "lod_handle (LOD_Wheel deltaY) st = lod_handleWheel deltaY st"
| "lod_handle (LOD_KeyDown key) st = lod_handleKeyDown key st"
| "lod_handle LOD_CloseSidebar st = lod_closeSidebar st"
| "lod_handle (LOD_ToggleDropdown item) st = lod_toggleDropdown item st"
| "lod_handle (LOD_ZoomToSphere sphereId) st = lod_zoomToSphere sphereId st"
| "lod_handle LOD_ResetCamera st = lod_resetCamera st"
| "lod_handle (LOD_UpdateSpherePosition i ax v) st =
     st\<lparr>lod_spheres := updateSpherePosition i ax v (lod_spheres st)\<rparr>"
| "lod_handle (LOD_ToggleSphereVisibility i) st =
     st\<lparr>lod_spheres := toggleSphereVisibility i (lod_spheres st)\<rparr>"
| "lod_handle (LOD_ResetSpherePosition i rnd) st =
     st\<lparr>lod_spheres := lod_resetSpherePosition i rnd 0 (lod_spheres st)\<rparr>"
| "lod_handle (LOD_ResetAllSpheres rnd) st =
     st\<lparr>lod_spheres := lod_resetAllSpheres rnd 0 (lod_spheres st)\<rparr>"
| "lod_handle LOD_ExportCoordinates st = lod_exportCoordinates st"
| "lod_handle (LOD_SetSelectedSphere sel) st = st\<lparr>lod_selectedSphere := sel\<rparr>"
| "lod_handle (LOD_Timeout k) st = lod_timeout k st"
| "lod_handle (LOD_Frame fps) st = lod_frame fps st"

definition lod_step :: "lod_state \<Rightarrow> lod_event \<Rightarrow> lod_state" where
  "lod_step st e = lod_effects st (lod_handle e st)"

definition lod_run :: "lod_event list \<Rightarrow> lod_state \<Rightarrow> lod_state" where
  "lod_run es st = foldl lod_step st es"

section \<open>The wheel handlers in floating-point arithmetic\<close>

text \<open>
  The definitions above compute over the reals. The numbers of the program are doubles, and
  sums of the step 1.2 are not exact in them, so a test of the accumulated angle against a
  threshold can differ at the threshold itself. The handlers below are the same functions
  with the result of every floating-point operation, and every literal that is not a
  double, rounded by \<open>fl\<close>. Integers and 1.5 are doubles; \<open>Math.abs\<close>, \<open>%\<close> and the comparisons
  are exact. With the identity for \<open>fl\<close> these are the handlers above.
\<close>

definition binary64_rounding :: "(real \<Rightarrow> real) \<Rightarrow> bool" where
  \<comment> \<open>what is used of rounding to the nearest double: on magnitudes between \<open>1/1000\<close> and
     1000 the relative error is at most \<open>2\<^sup>-\<^sup>5\<^sup>3\<close>\<close>
  "binary64_rounding fl \<longleftrightarrow>
     (\<forall>x. 1 / 1000 \<le> \<bar>x\<bar> \<and> \<bar>x\<bar> \<le> 1000 \<longrightarrow> \<bar>fl x - x\<bar> \<le> \<bar>x\<bar> / 2 ^ 53)"

definition newTitleOpacity_fl :: "(real \<Rightarrow> real) \<Rightarrow> real \<Rightarrow> real" where
  "newTitleOpacity_fl fl displayDegrees =
     (if displayDegrees < 30 then max (fl (1 - fl (displayDegrees / 30))) 0 else 0)"

definition newModelScale_fl :: "(real \<Rightarrow> real) \<Rightarrow> real \<Rightarrow> real" where
  "newModelScale_fl fl displayDegrees =
     (if displayDegrees < 30 then 1.5
      else if displayDegrees < 60 then
        (let scaleProgress = fl (fl (displayDegrees - 30) / 30)
         in fl (1.5 + fl (scaleProgress * fl 1.3)))
      else fl 2.8)"

definition sps_handleWheel_fl :: "(real \<Rightarrow> real) \<Rightarrow> real \<Rightarrow> sps_state \<Rightarrow> sps_state" where
  "sps_handleWheel_fl fl deltaY st =
     (let degreesPerScroll = fl 1.2;
          scrollDirection = (if 0 < deltaY then 1 else - 1);
          accumulatedDegrees =
            fl (sps_accumulatedDegrees st + fl (scrollDirection * degreesPerScroll));
          targetRadians = fl (fl (accumulatedDegrees * fl pi) / 180);
          displayDegrees = js_rem \<bar>accumulatedDegrees\<bar> 360;
          st1 = st\<lparr>sps_accumulatedDegrees := accumulatedDegrees,
                   sps_targetRotation := targetRadians,
                   sps_rotationDegrees := displayDegrees,
                   sps_titleOpacity := newTitleOpacity_fl fl displayDegrees,
                   sps_modelScale := newModelScale_fl fl displayDegrees\<rparr>
      in if 60 \<le> displayDegrees \<and> \<not> sps_sidebarOpen st then
           (let st2 = st1\<lparr>sps_sidebarOpen := True, sps_showSphereControls := True\<rparr>
            in if \<not> sps_notificationShown st then
                 st2\<lparr>sps_showNotification := True,
                     sps_timers := setTimeout (HideNotification 3000) (sps_timers st2),
                     sps_notificationShown := True\<rparr>
               else st2)
         else st1)"

definition sps_wheels_fl :: "(real \<Rightarrow> real) \<Rightarrow> real list \<Rightarrow> sps_state \<Rightarrow> sps_state" where
  \<comment> \<open>a sequence of wheel events, given by their \<open>deltaY\<close>, each followed by the effects of
     the render\<close>
  "sps_wheels_fl fl deltaYs st =
     foldl (\<lambda>st deltaY. sps_effects st (sps_handleWheel_fl fl deltaY st)) st deltaYs"

definition lod_handleWheel_fl :: "(real \<Rightarrow> real) \<Rightarrow> real \<Rightarrow> lod_state \<Rightarrow> lod_state" where
  "lod_handleWheel_fl fl deltaY st =
     (let degreesPerScroll = fl 1.2;
          scrollDirection = (if 0 < deltaY then 1 else - 1);
          accumulatedDegrees =
            fl (lod_accumulatedDegrees st + fl (scrollDirection * degreesPerScroll));
          targetRadians = fl (fl (accumulatedDegrees * fl pi) / 180);
          displayDegrees = js_rem \<bar>accumulatedDegrees\<bar> 360;
          st1 = st\<lparr>lod_accumulatedDegrees := accumulatedDegrees,
                   lod_targetRotation := targetRadians,
                   lod_rotationDegrees := displayDegrees,
                   lod_modelScale := newModelScale_fl fl displayDegrees\<rparr>
      in if 60 \<le> displayDegrees \<and> \<not> lod_sidebarOpen st then
           (let st2 = st1\<lparr>lod_sidebarOpen := True, lod_showSphereControls := True\<rparr>
            in if \<not> lod_notificationShown st then
                 st2\<lparr>lod_showNotification := True,
                     lod_timers := setTimeout (HideNotification 3000) (lod_timers st2),
                     lod_notificationShown := True\<rparr>
               else st2)
         else st1)"

definition lod_wheels_fl :: "(real \<Rightarrow> real) \<Rightarrow> real list \<Rightarrow> lod_state \<Rightarrow> lod_state" where
  "lod_wheels_fl fl deltaYs st =
     foldl (\<lambda>st deltaY. lod_effects st (lod_handleWheel_fl fl deltaY st)) st deltaYs"

section \<open>Predicates used in the statements\<close>

definition canvasCamera :: Camera where
  \<comment> \<open>the camera of a canvas that configures none: at \<open>(0, 0, 5)\<close>, looking at the origin\<close>
  "canvasCamera = \<lparr>camera_position = (0, 0, 5), camera_lookAt = (0, 0, 0)\<rparr>"

definition in_bounds :: "real \<Rightarrow> real \<Rightarrow> real \<Rightarrow> SpherePosition \<Rightarrow> bool" where
  \<comment> \<open>\<open>x\<close> and \<open>z\<close> in \<open>[-h, h)\<close>, \<open>y\<close> in \<open>[lo, hi)\<close>\<close>
  "in_bounds h lo hi s \<longleftrightarrow>
     - h \<le> sphere_x s \<and> sphere_x s < h \<and> lo \<le> sphere_y s \<and> sphere_y s < hi
     \<and> - h \<le> sphere_z s \<and> sphere_z s < h"

definition sps_quiet :: "real \<Rightarrow> sps_state \<Rightarrow> bool" where
  \<comment> \<open>nothing has opened yet and the listener has accumulated \<open>a\<close> degrees\<close>
  "sps_quiet a st \<longleftrightarrow>
     sps_accumulatedDegrees st = a \<and> \<not> sps_sidebarOpen st \<and> \<not> sps_notificationShown st
     \<and> \<not> sps_showNotification st \<and> sps_timers st = []"

definition lod_quiet :: "real \<Rightarrow> lod_state \<Rightarrow> bool" where
  "lod_quiet a st \<longleftrightarrow>
     lod_accumulatedDegrees st = a \<and> \<not> lod_sidebarOpen st \<and> \<not> lod_notificationShown st
     \<and> \<not> lod_showNotification st \<and> lod_timers st = []"

definition mh_latch :: "mh_state \<Rightarrow> bool" where
  \<comment> \<open>the 3000 ms callback was scheduled once if the latch is set and never otherwise; the
     sidebar has only been opened with the latch set\<close>
  "mh_latch st \<longleftrightarrow>
     scheduled (HideNotification 3000) (mh_timers st) = (if mh_notificationShown st then 1 else 0)
     \<and> (mh_sidebarOpen st \<longrightarrow> mh_notificationShown st)"

definition sps_latch :: "sps_state \<Rightarrow> bool" where
  "sps_latch st \<longleftrightarrow>
     scheduled (HideNotification 3000) (sps_timers st) = (if sps_notificationShown st then 1 else 0)
     \<and> (sps_sidebarOpen st \<longrightarrow> sps_notificationShown st)"

definition revisit_state :: sps_state where
  \<comment> \<open>the sphere positioning scene right after \<open>zoomToSphere(1)\<close> at rotation 0, with the
     camera at the target position, as when an earlier zoom to the same sphere has just
     ended there\<close>
  "revisit_state =
     (sps_zoomToSphere 1 (sps_init canvasCamera))
       \<lparr>sps_camera :=
          \<lparr>camera_position = position (sps_cameraTarget (sps_zoomToSphere 1 (sps_init canvasCamera))),
           camera_lookAt = lookAt (sps_cameraTarget (sps_zoomToSphere 1 (sps_init canvasCamera)))\<rparr>\<rparr>"

definition overview_at_rest :: lod_state where
  \<comment> \<open>the level-of-detail scene after a first rendered frame and \<open>resetCamera()\<close>: the camera
     rests at the overview position\<close>
  "overview_at_rest = lod_run [LOD_Frame 60, LOD_ResetCamera] (lod_init canvasCamera)"




definition focused_on :: "int \<Rightarrow> lod_state \<Rightarrow> bool" where
  \<comment> \<open>the camera mode FOCUSED on anchor \<open>a\<close>\<close>
  "focused_on a st \<longleftrightarrow> lod_cameraMode st = Focused \<and> lod_focusedSphere st = Some a"

definition transitioning_to :: "int \<Rightarrow> lod_state \<Rightarrow> bool" where
  \<comment> \<open>the camera mode TRANSITIONING, phase zoom-out, with pending target \<open>a\<close>\<close>
  "transitioning_to a st \<longleftrightarrow>
     lod_cameraMode st = Transitioning \<and> lod_transitionPhase st = Zoom_out
     \<and> lod_pendingTarget st = Some a \<and> lod_focusedSphere st = None"

fun is_zoomIn :: "timer \<Rightarrow> bool" where
  "is_zoomIn (ZoomIn p sph rot) = True"
| "is_zoomIn (HideNotification ms) = False"

definition zoomIn_at :: "nat \<Rightarrow> lod_state \<Rightarrow> bool" where
  \<comment> \<open>entry \<open>k\<close> of the timer table is a deferred zoom-in that has not fired yet\<close>
  "zoomIn_at k st \<longleftrightarrow>
     k < length (lod_timers st) \<and> snd (lod_timers st ! k) \<and> is_zoomIn (fst (lod_timers st ! k))"

definition zoomIn_pending :: "lod_state \<Rightarrow> bool" where
  \<comment> \<open>some deferred zoom-in has not fired yet\<close>
  "zoomIn_pending st \<longleftrightarrow> list_ex (\<lambda>e. snd e \<and> is_zoomIn (fst e)) (lod_timers st)"

text \<open>Events that request neither a focus nor a reset.\<close>

fun is_passive :: "lod_event \<Rightarrow> bool" where
  "is_passive (LOD_ZoomToSphere i) = False"
| "is_passive LOD_ResetCamera = False"
| "is_passive e = True"

definition zoom_out_arrived :: "vec3 \<Rightarrow> real \<Rightarrow> lod_state \<Rightarrow> bool" where
  \<comment> \<open>after the frame, camera position and look-at point are within 0.05 of the overview
     pose\<close>
  "zoom_out_arrived overview fps st \<longleftrightarrow>
     distanceTo overview (camera_position (lod_camera (lod_step st (LOD_Frame fps)))) < 0.05
     \<and> distanceTo (0, 0, 0) (camera_lookAt (lod_camera (lod_step st (LOD_Frame fps)))) < 0.05"

fun zoomIn_for :: "int \<Rightarrow> timer \<times> bool \<Rightarrow> bool" where
  "zoomIn_for a (ZoomIn p sph rot, pending) =
     (pending \<longrightarrow> p = Some a \<and> a \<in> sphere_id ` set sph)"
| "zoomIn_for a (HideNotification ms, pending) = True"

definition switch_inv :: "int \<Rightarrow> CameraTarget \<Rightarrow> lod_state \<Rightarrow> bool" where
  \<comment> \<open>what holds from the switch to \<open>a\<close> on, as long as no new focus or reset is requested\<close>
  "switch_inv a target st \<longleftrightarrow>
     list_all (zoomIn_for a) (lod_timers st)
     \<and> a \<in> sphere_id ` set (lod_spheres st)
     \<and> (transitioning_to a st
          \<and> position (lod_cameraTarget st) = position target
          \<and> lookAt (lod_cameraTarget st) = lookAt target
        \<or> focused_on a st)"

definition switch_state :: lod_state where
  \<comment> \<open>a first rendered frame, then \<open>zoomToSphere(5)\<close> immediately followed by
     \<open>zoomToSphere(7)\<close>\<close>
  "switch_state =
     lod_run [LOD_Frame 60, LOD_ZoomToSphere 5, LOD_ZoomToSphere 7] (lod_init canvasCamera)"

definition zooming_out :: "real \<Rightarrow> real \<Rightarrow> nat \<Rightarrow> lod_state" where
  \<comment> \<open>\<open>switch_state\<close> during the zoom-out: the camera at the overview position, looking at
     \<open>(0, m, l)\<close>, the frame counter at \<open>n\<close>\<close>
  "zooming_out m l n =
     switch_state
       \<lparr>lod_camera := \<lparr>camera_position = (0, 3, 8), camera_lookAt = (0, m, l)\<rparr>,
        lod_anim := \<lparr>currentPosition = (0, 3, 8), currentLookAt = (0, m, l),
                      isAnimating = True, isLocked = False, frameCounter = n\<rparr>\<rparr>"

definition early_focus_state :: lod_state where
  \<comment> \<open>\<open>switch_state\<close> after the forty-eight frames of the zoom-out and the firing of the
     deferred zoom-in\<close>
  "early_focus_state =
     lod_run ([LOD_Frame 60, LOD_ZoomToSphere 5, LOD_ZoomToSphere 7]
              @ replicate 48 (LOD_Frame 60) @ [LOD_Timeout 2]) (lod_init canvasCamera)"

definition stale_focus_state :: lod_state where
  \<comment> \<open>\<open>switch_state\<close> after the zoom-out, then \<open>zoomToSphere(7)\<close> before the deferred zoom-in
     fires: the scene is FOCUSED on 7 and the zoom-in of the earlier switch is still pending\<close>
  "stale_focus_state =
     lod_run ([LOD_Frame 60, LOD_ZoomToSphere 5, LOD_ZoomToSphere 7]
              @ replicate 48 (LOD_Frame 60) @ [LOD_ZoomToSphere 7])
       (lod_init canvasCamera)"

section \<open>Basic facts\<close>

lemma js_rem_small:
  assumes "0 \<le> a" and "a < b"
  shows "js_rem a b = a"
proof -
  have q: "0 \<le> a / b" "a / b < 1" using assms by simp_all
  then have "\<lfloor>a / b\<rfloor> = 0" by (simp add: floor_eq_iff)
  with q show ?thesis by (simp add: js_rem_def)
qed

lemma find_absent: "\<forall>s \<in> set xs. \<not> P s \<Longrightarrow> find P xs = None"
  by (simp add: find_None_iff)

lemma initialSpheres_eq:
  "initialSpheres =
     [\<lparr>sphere_id = 1, sphere_x = - 1.2, sphere_y = 2.4, sphere_z = 1.8,
       sphere_visible = True, sphere_color = ''#ff6b6b'', sphere_name = ''Samsung TV''\<rparr>,
      \<lparr>sphere_id = 2, sphere_x = - 1.1, sphere_y = 2.6, sphere_z = 0.9,
       sphere_visible = True, sphere_color = ''#4ecdc4'', sphere_name = ''LED lights''\<rparr>,
      \<lparr>sphere_id = 3, sphere_x = - 1.3, sphere_y = 2.2, sphere_z = 1.7,
       sphere_visible = True, sphere_color = ''#45b7d1'', sphere_name = ''Videogame''\<rparr>,
      \<lparr>sphere_id = 4, sphere_x = - 0.4, sphere_y = 0.1, sphere_z = 1.5,
       sphere_visible = True, sphere_color = ''#96ceb4'', sphere_name = ''Carpet''\<rparr>,
      \<lparr>sphere_id = 5, sphere_x = - 0.2, sphere_y = 0.4, sphere_z = - 1.7,
       sphere_visible = True, sphere_color = ''#feca57'', sphere_name = ''Oven''\<rparr>,
      \<lparr>sphere_id = 6, sphere_x = - 0.6, sphere_y = 0.6, sphere_z = - 1.7,
       sphere_visible = True, sphere_color = ''#ff9ff3'', sphere_name = ''Microwave''\<rparr>,
      \<lparr>sphere_id = 7, sphere_x = 0.5, sphere_y = 0.6, sphere_z = - 1.7,
       sphere_visible = True, sphere_color = ''#54a0ff'', sphere_name = ''Mixer''\<rparr>,
      \<lparr>sphere_id = 8, sphere_x = - 0.1, sphere_y = 0.7, sphere_z = - 1.7,
       sphere_visible = True, sphere_color = ''#5f27cd'', sphere_name = ''Cooktop''\<rparr>,
      \<lparr>sphere_id = 9, sphere_x = 0.42, sphere_y = 2.1, sphere_z = 1.7,
       sphere_visible = True, sphere_color = ''#00d2d3'', sphere_name = ''Bed''\<rparr>,
      \<lparr>sphere_id = 10, sphere_x = - 0.6, sphere_y = 2.1, sphere_z = 1.7,
       sphere_visible = True, sphere_color = ''#ff9f43'', sphere_name = ''Rug''\<rparr>,
      \<lparr>sphere_id = 11, sphere_x = 1.3, sphere_y = 2.2, sphere_z = 1.7,
       sphere_visible = True, sphere_color = ''#ee5a24'', sphere_name = ''Desk''\<rparr>,
      \<lparr>sphere_id = 12, sphere_x = 1.2, sphere_y = 2.2, sphere_z = 1.2,
       sphere_visible = True, sphere_color = ''#0abde3'', sphere_name = ''Chair''\<rparr>,
      \<lparr>sphere_id = 13, sphere_x = 1.5, sphere_y = 0.8, sphere_z = - 1.8,
       sphere_visible = True, sphere_color = ''#10ac84'', sphere_name = ''Shower''\<rparr>,
      \<lparr>sphere_id = 14, sphere_x = 1.7, sphere_y = 0.3, sphere_z = - 0.7,
       sphere_visible = True, sphere_color = ''#f368e0'', sphere_name = ''Toilet''\<rparr>,
      \<lparr>sphere_id = 15, sphere_x = 1.4, sphere_y = 1.3, sphere_z = 0.1,
       sphere_visible = True, sphere_color = ''#3742fa'', sphere_name = ''LED lights''\<rparr>,
      \<lparr>sphere_id = 16, sphere_x = 0.9, sphere_y = 0.8, sphere_z = - 0.6,
       sphere_visible = True, sphere_color = ''#2f3542'', sphere_name = ''Towell Hanger''\<rparr>]"
  by (simp add: initialSpheres_def specificCoordinates_def colors_def allAppliances_def
        menuData_def upt_rec numeral_nat)

lemma ids_initial:
  "map sphere_id initialSpheres = [1, 2, 3, 4, 5, 6, 7, 8, 9, 10, 11, 12, 13, 14, 15, 16]"
  by (simp add: initialSpheres_eq)

lemma sps_effects_same: "sps_effects st st = st"
  by (simp add: sps_effects_def)

lemma lod_effects_same: "lod_effects st st = st"
  by (simp add: lod_effects_def Let_def)

lemma sps_run_snoc: "sps_run (es @ [e]) st = sps_step (sps_run es st) e"
  by (simp add: sps_run_def)

lemma lod_run_snoc: "lod_run (es @ [e]) st = lod_step (lod_run es st) e"
  by (simp add: lod_run_def)

lemma mh_run_snoc: "mh_run (es @ [e]) st = mh_step (mh_run es st) e"
  by (simp add: mh_run_def)

lemma sps_run_replicate_Suc:
  "sps_run (replicate (Suc n) e) st = sps_step (sps_run (replicate n e) st) e"
proof -
  have "replicate (Suc n) e = replicate n e @ [e]" by (simp add: replicate_append_same)
  then show ?thesis by (simp only: sps_run_snoc)
qed

lemma lod_run_replicate_Suc:
  "lod_run (replicate (Suc n) e) st = lod_step (lod_run (replicate n e) st) e"
proof -
  have "replicate (Suc n) e = replicate n e @ [e]" by (simp add: replicate_append_same)
  then show ?thesis by (simp only: lod_run_snoc)
qed

lemma lod_run_append: "lod_run (es @ es') st = lod_run es' (lod_run es st)"
  by (simp add: lod_run_def)

lemma lod_run_Cons: "lod_run (e # es) st = lod_run es (lod_step st e)"
  by (simp add: lod_run_def)

lemma lod_run_Nil: "lod_run [] st = st"
  by (simp add: lod_run_def)

lemma first_render:
  "lod_step (lod_init canvasCamera) (LOD_Frame 60) =
     (lod_init canvasCamera)
       \<lparr>lod_camera := \<lparr>camera_position = (0, 3, 8), camera_lookAt = (0, 0, 0)\<rparr>,
        lod_anim := \<lparr>currentPosition = (0, 3, 8), currentLookAt = (0, 0, 0),
                      isAnimating = False, isLocked = False, frameCounter = 1\<rparr>\<rparr>"
  by (simp add: lod_step_def lod_frame_def LODStaticCameraAnimation_frame_def lod_init_def
        animationQuality_def Let_def lod_effects_def lerp3_def
        LODTinyHouseModel_frame_def rotationQuality_def)

section \<open>Model scale and the wheel handler\<close>

lemma sps_handleWheel_scale:
  "sps_modelScale (sps_handleWheel deltaY st)
     = newModelScale (sps_rotationDegrees (sps_handleWheel deltaY st))"
  by (simp add: sps_handleWheel_def Let_def)

lemma mh_handleWheel_scale:
  "mh_modelScale (mh_handleWheel deltaY st)
     = newModelScale (mh_rotationDegrees (mh_targetRotation (mh_handleWheel deltaY st)))"
  by (simp add: mh_handleWheel_def Let_def)

text \<open>
  C5. The scale written by the wheel handler is the piecewise function of the displayed
  degrees: 1.5 below 30, the linear ramp \<open>1.5 + ((d - 30) / 30) * 1.3\<close> on \<open>[30, 60)\<close>, and 2.8
  from 60 on; at 30, 45 and 60 degrees it is 1.5, 2.15 and 2.8.
\<close>

theorem C5_model_scale:
  "(d < 30 \<longrightarrow> newModelScale d = 1.5)
   \<and> (30 \<le> d \<and> d < 60 \<longrightarrow> newModelScale d = 1.5 + ((d - 30) / 30) * 1.3)
   \<and> (60 \<le> d \<longrightarrow> newModelScale d = 2.8)
   \<and> newModelScale 30 = 1.5 \<and> newModelScale 45 = 2.15 \<and> newModelScale 60 = 2.8
   \<and> mh_modelScale (mh_handleWheel deltaY mst)
       = newModelScale (mh_rotationDegrees (mh_targetRotation (mh_handleWheel deltaY mst)))
   \<and> sps_modelScale (sps_handleWheel deltaY sst)
       = newModelScale (sps_rotationDegrees (sps_handleWheel deltaY sst))"
  by (simp add: newModelScale_def Let_def sps_handleWheel_scale mh_handleWheel_scale)

theorem C5_model_scale_witness:
  "(10::real) < 30 \<and> newModelScale 10 = 1.5
   \<and> (30::real) \<le> 40 \<and> (40::real) < 60 \<and> newModelScale 40 = 1.5 + ((40 - 30) / 30) * 1.3
   \<and> (60::real) \<le> 75 \<and> newModelScale 75 = 2.8
   \<and> sps_modelScale (sps_handleWheel 100 (sps_init canvasCamera)) = 1.5"
  using C5_model_scale [of 10 100 mh_init "sps_init canvasCamera"]
        C5_model_scale [of 40 100 mh_init "sps_init canvasCamera"]
        C5_model_scale [of 75 100 mh_init "sps_init canvasCamera"]
        C5_model_scale [of "6 / 5" 100 mh_init "sps_init canvasCamera"]
  by (simp add: sps_handleWheel_def sps_init_def js_rem_small Let_def)

lemma sps_wheel_acc:
  "sps_accumulatedDegrees (sps_handleWheel deltaY st)
     = sps_accumulatedDegrees st + (if 0 < deltaY then 1.2 else - 1.2)"
  by (simp add: sps_handleWheel_def Let_def)

lemma lod_wheel_acc:
  "lod_accumulatedDegrees (lod_handleWheel deltaY st)
     = lod_accumulatedDegrees st + (if 0 < deltaY then 1.2 else - 1.2)"
  by (simp add: lod_handleWheel_def Let_def)

lemma sps_wheel_target:
  "sps_targetRotation (sps_handleWheel deltaY st)
     = (sps_accumulatedDegrees st + (if 0 < deltaY then 1.2 else - 1.2)) * pi / 180"
  by (simp add: sps_handleWheel_def Let_def)

lemma lod_wheel_target:
  "lod_targetRotation (lod_handleWheel deltaY st)
     = (lod_accumulatedDegrees st + (if 0 < deltaY then 1.2 else - 1.2)) * pi / 180"
  by (simp add: lod_handleWheel_def Let_def)

text \<open>
  C10. In the delta-mode handlers a wheel event with \<open>deltaY = 0\<close> counts as backward: the
  accumulated rotation (and with it the target rotation) goes down by 1.2 degrees. The
  accumulated rotation goes up exactly for the events with \<open>deltaY > 0\<close>.
\<close>

theorem C10_zero_delta_is_backward:
  "sps_accumulatedDegrees (sps_handleWheel 0 sst) = sps_accumulatedDegrees sst - 1.2
   \<and> sps_targetRotation (sps_handleWheel 0 sst) = (sps_accumulatedDegrees sst - 1.2) * pi / 180
   \<and> lod_accumulatedDegrees (lod_handleWheel 0 lst) = lod_accumulatedDegrees lst - 1.2
   \<and> lod_targetRotation (lod_handleWheel 0 lst) = (lod_accumulatedDegrees lst - 1.2) * pi / 180
   \<and> (sps_accumulatedDegrees sst < sps_accumulatedDegrees (sps_handleWheel deltaY sst)
        \<longleftrightarrow> 0 < deltaY)
   \<and> (lod_accumulatedDegrees lst < lod_accumulatedDegrees (lod_handleWheel deltaY lst)
        \<longleftrightarrow> 0 < deltaY)"
  by (simp add: sps_wheel_acc lod_wheel_acc sps_wheel_target lod_wheel_target)

theorem C10_zero_delta_is_backward_witness:
  "sps_accumulatedDegrees (sps_handleWheel 0 (sps_init canvasCamera)) = - 1.2
   \<and> lod_accumulatedDegrees (lod_handleWheel 0 (lod_init canvasCamera)) = - 1.2
   \<and> sps_accumulatedDegrees (sps_init canvasCamera)
       < sps_accumulatedDegrees (sps_handleWheel 3 (sps_init canvasCamera))
   \<and> \<not> sps_accumulatedDegrees (sps_init canvasCamera)
       < sps_accumulatedDegrees (sps_handleWheel (- 3) (sps_init canvasCamera))"
  using C10_zero_delta_is_backward [of "sps_init canvasCamera" "lod_init canvasCamera" 3]
        C10_zero_delta_is_backward [of "sps_init canvasCamera" "lod_init canvasCamera" "- 3"]
  by (simp add: sps_init_def lod_init_def)

section \<open>Focus on an unknown anchor\<close>

lemma sps_zoom_unknown:
  "\<forall>s \<in> set (sps_spheres st). sphere_id s \<noteq> i \<Longrightarrow> sps_zoomToSphere i st = st"
  by (simp add: sps_zoomToSphere_def find_absent)

lemma lod_zoom_unknown:
  "\<forall>s \<in> set (lod_spheres st). sphere_id s \<noteq> i \<Longrightarrow> lod_zoomToSphere i st = st"
  by (simp add: lod_zoomToSphere_def find_absent)

text \<open>
  C7. \<open>zoomToSphere\<close> with an identifier that no sphere of the registry carries returns the
  state as it was, in both scenes: camera target, focused sphere, camera mode, notification
  and timer table are unchanged, also after the effects of the following render. The
  function has no failing branch.
\<close>

theorem C7_focus_unknown_id:
  "((\<forall>s \<in> set (lod_spheres lst). sphere_id s \<noteq> i) \<longrightarrow>
      lod_zoomToSphere i lst = lst \<and> lod_step lst (LOD_ZoomToSphere i) = lst)
   \<and> ((\<forall>s \<in> set (sps_spheres sst). sphere_id s \<noteq> i) \<longrightarrow>
      sps_zoomToSphere i sst = sst \<and> sps_step sst (SPS_ZoomToSphere i) = sst)"
  by (simp add: lod_zoom_unknown sps_zoom_unknown lod_step_def sps_step_def
        sps_effects_same lod_effects_same)

theorem C7_focus_unknown_id_witness:
  "17 \<notin> sphere_id ` set (lod_spheres (lod_init canvasCamera))
   \<and> lod_zoomToSphere 17 (lod_init canvasCamera) = lod_init canvasCamera
   \<and> lod_step (lod_init canvasCamera) (LOD_ZoomToSphere 17) = lod_init canvasCamera
   \<and> 17 \<notin> sphere_id ` set (sps_spheres (sps_init canvasCamera))
   \<and> sps_zoomToSphere 17 (sps_init canvasCamera) = sps_init canvasCamera
   \<and> sps_step (sps_init canvasCamera) (SPS_ZoomToSphere 17) = sps_init canvasCamera"
proof -
  have a: "\<forall>s \<in> set (lod_spheres (lod_init canvasCamera)). sphere_id s \<noteq> 17"
    by (simp add: lod_init_def initialSpheres_eq)
  have b: "\<forall>s \<in> set (sps_spheres (sps_init canvasCamera)). sphere_id s \<noteq> 17"
    by (simp add: sps_init_def initialSpheres_eq)
  have a': "17 \<notin> sphere_id ` set (lod_spheres (lod_init canvasCamera))"
    using a by auto
  have b': "17 \<notin> sphere_id ` set (sps_spheres (sps_init canvasCamera))"
    using b by auto
  from a b C7_focus_unknown_id [of "lod_init canvasCamera" 17 "sps_init canvasCamera"]
  have "lod_zoomToSphere 17 (lod_init canvasCamera) = lod_init canvasCamera
      \<and> lod_step (lod_init canvasCamera) (LOD_ZoomToSphere 17) = lod_init canvasCamera
      \<and> sps_zoomToSphere 17 (sps_init canvasCamera) = sps_init canvasCamera
      \<and> sps_step (sps_init canvasCamera) (SPS_ZoomToSphere 17) = sps_init canvasCamera"
    by blast
  with a' b' show ?thesis by simp
qed

section \<open>Level of detail of the focused anchor\<close>

lemma lod_resolution_max:
  "widthSegments (geometryDetail (useDistanceLOD p c f s)) \<le> 32
   \<and> heightSegments (geometryDetail (useDistanceLOD p c f s)) \<le> 32"
  by (simp add: useDistanceLOD_def Let_def)

text \<open>
  C8. For the sphere that is the focused one (its identifier is a nonzero number, as all
  registry identifiers are), \<open>useDistanceLOD\<close> returns high detail, visible, wireframe on,
  floating on and 32 by 32 segments, whatever the positions of sphere and camera; 32 is the
  largest resolution the selector returns for any input.
\<close>

theorem C8_focused_lod:
  "(i \<noteq> 0 \<longrightarrow>
      useDistanceLOD spherePos cameraPos (Some i) (Some i) =
        \<lparr>detail = High, visible = True, showWireframe = True, showFloating = True,
         geometryDetail = \<lparr>widthSegments = 32, heightSegments = 32\<rparr>\<rparr>)
   \<and> widthSegments (geometryDetail (useDistanceLOD p c f s)) \<le> 32
   \<and> heightSegments (geometryDetail (useDistanceLOD p c f s)) \<le> 32"
  by (simp add: useDistanceLOD_def truthy_def Let_def)

theorem C8_focused_lod_witness:
  "(5::int) \<noteq> 0
   \<and> useDistanceLOD (100, 0, 0) (0, 0, 0) (Some 5) (Some 5) =
        \<lparr>detail = High, visible = True, showWireframe = True, showFloating = True,
         geometryDetail = \<lparr>widthSegments = 32, heightSegments = 32\<rparr>\<rparr>
   \<and> \<not> visible (useDistanceLOD (100, 0, 0) (0, 0, 0) (Some 4) (Some 5))"
  using C8_focused_lod [of 5 "(100, 0, 0)" "(0, 0, 0)"]
  by (simp add: useDistanceLOD_def truthy_def distanceTo_def)

section \<open>Resetting all anchors\<close>

lemma sps_resetAll_frame:
  "map sphere_id (sps_resetAllSpheres rnd n ss) = map sphere_id ss
   \<and> map sphere_name (sps_resetAllSpheres rnd n ss) = map sphere_name ss
   \<and> map sphere_color (sps_resetAllSpheres rnd n ss) = map sphere_color ss"
  by (induction ss arbitrary: n) simp_all

lemma lod_resetAll_frame:
  "map sphere_id (lod_resetAllSpheres rnd n ss) = map sphere_id ss
   \<and> map sphere_name (lod_resetAllSpheres rnd n ss) = map sphere_name ss
   \<and> map sphere_color (lod_resetAllSpheres rnd n ss) = map sphere_color ss"
  by (induction ss arbitrary: n) simp_all

lemma sps_resetAll_nth:
  "i < length ss \<Longrightarrow>
     sps_resetAllSpheres rnd n ss ! i =
       (ss ! i)\<lparr>sphere_x := (rnd (n + 3 * i) - 0.5) * 12,
                sphere_y := rnd (n + 3 * i + 1) * 6 - 1,
                sphere_z := (rnd (n + 3 * i + 2) - 0.5) * 12,
                sphere_visible := True\<rparr>"
proof (induction ss arbitrary: n i)
  case Nil
  then show ?case by simp
next
  case (Cons s ss)
  show ?case
  proof (cases i)
    case 0
    then show ?thesis by simp
  next
    case (Suc j)
    with Cons.prems have "j < length ss" by simp
    from Cons.IH [OF this, of "n + 3"] Suc show ?thesis
      by (simp add: add.assoc add.commute add.left_commute)
  qed
qed

lemma lod_resetAll_nth:
  "i < length ss \<Longrightarrow>
     lod_resetAllSpheres rnd n ss ! i =
       (ss ! i)\<lparr>sphere_x := (rnd (n + 3 * i) - 0.5) * 16,
                sphere_y := rnd (n + 3 * i + 1) * 8 - 2,
                sphere_z := (rnd (n + 3 * i + 2) - 0.5) * 16\<rparr>"
proof (induction ss arbitrary: n i)
  case Nil
  then show ?case by simp
next
  case (Cons s ss)
  show ?case
  proof (cases i)
    case 0
    then show ?thesis by simp
  next
    case (Suc j)
    with Cons.prems have "j < length ss" by simp
    from Cons.IH [OF this, of "n + 3"] Suc show ?thesis
      by (simp add: add.assoc add.commute add.left_commute)
  qed
qed

lemma sps_resetAll_bounds:
  assumes "\<And>k. 0 \<le> rnd k \<and> rnd k < 1"
  shows "list_all (in_bounds 6 (- 1) 5) (sps_resetAllSpheres rnd n ss)"
proof (induction ss arbitrary: n)
  case Nil
  show ?case by simp
next
  case (Cons s ss)
  have "0 \<le> rnd n" "rnd n < 1" "0 \<le> rnd (n + 1)" "rnd (n + 1) < 1"
       "0 \<le> rnd (n + 2)" "rnd (n + 2) < 1"
    using assms by simp_all
  then show ?case using Cons.IH [of "n + 3"] by (simp add: in_bounds_def)
qed

lemma lod_resetAll_bounds:
  assumes "\<And>k. 0 \<le> rnd k \<and> rnd k < 1"
  shows "list_all (in_bounds 8 (- 2) 6) (lod_resetAllSpheres rnd n ss)"
proof (induction ss arbitrary: n)
  case Nil
  show ?case by simp
next
  case (Cons s ss)
  have "0 \<le> rnd n" "rnd n < 1" "0 \<le> rnd (n + 1)" "rnd (n + 1) < 1"
       "0 \<le> rnd (n + 2)" "rnd (n + 2) < 1"
    using assms by simp_all
  then show ?case using Cons.IH [of "n + 3"] by (simp add: in_bounds_def)
qed

text \<open>
  C9. \<open>resetAllSpheres\<close>, with every random draw in \<open>[0, 1)\<close>, leaves the identifier, name and
  colour of every sphere as they were, in registry order, and gives every sphere new
  coordinates computed from three draws of its own: \<open>x\<close> and \<open>z\<close> in \<open>[-6, 6)\<close> and \<open>y\<close> in
  \<open>[-1, 5)\<close> in the sphere positioning scene, \<open>x\<close> and \<open>z\<close> in \<open>[-8, 8)\<close> and \<open>y\<close> in \<open>[-2, 6)\<close> in
  the level-of-detail scene.
\<close>

theorem C9_resetAll:
  "(\<forall>k. 0 \<le> rnd k \<and> rnd k < 1) \<longrightarrow>
     map sphere_id (sps_spheres (sps_handle (SPS_ResetAllSpheres rnd) sst))
       = map sphere_id (sps_spheres sst)
   \<and> map sphere_name (sps_spheres (sps_handle (SPS_ResetAllSpheres rnd) sst))
       = map sphere_name (sps_spheres sst)
   \<and> map sphere_color (sps_spheres (sps_handle (SPS_ResetAllSpheres rnd) sst))
       = map sphere_color (sps_spheres sst)
   \<and> list_all (in_bounds 6 (- 1) 5) (sps_spheres (sps_handle (SPS_ResetAllSpheres rnd) sst))
   \<and> (\<forall>j < length (sps_spheres sst).
        sps_spheres (sps_handle (SPS_ResetAllSpheres rnd) sst) ! j =
          (sps_spheres sst ! j)\<lparr>sphere_x := (rnd (3 * j) - 0.5) * 12,
                                 sphere_y := rnd (3 * j + 1) * 6 - 1,
                                 sphere_z := (rnd (3 * j + 2) - 0.5) * 12,
                                 sphere_visible := True\<rparr>)
   \<and> map sphere_id (lod_spheres (lod_handle (LOD_ResetAllSpheres rnd) lst))
       = map sphere_id (lod_spheres lst)
   \<and> map sphere_name (lod_spheres (lod_handle (LOD_ResetAllSpheres rnd) lst))
       = map sphere_name (lod_spheres lst)
   \<and> map sphere_color (lod_spheres (lod_handle (LOD_ResetAllSpheres rnd) lst))
       = map sphere_color (lod_spheres lst)
   \<and> list_all (in_bounds 8 (- 2) 6) (lod_spheres (lod_handle (LOD_ResetAllSpheres rnd) lst))
   \<and> (\<forall>j < length (lod_spheres lst).
        lod_spheres (lod_handle (LOD_ResetAllSpheres rnd) lst) ! j =
          (lod_spheres lst ! j)\<lparr>sphere_x := (rnd (3 * j) - 0.5) * 16,
                                 sphere_y := rnd (3 * j + 1) * 8 - 2,
                                 sphere_z := (rnd (3 * j + 2) - 0.5) * 16\<rparr>)"
proof
  assume r: "\<forall>k. 0 \<le> rnd k \<and> rnd k < 1"
  then have r': "\<And>k. 0 \<le> rnd k \<and> rnd k < 1" by simp
  have n1: "\<forall>j < length (sps_spheres sst).
        sps_spheres (sps_handle (SPS_ResetAllSpheres rnd) sst) ! j =
          (sps_spheres sst ! j)\<lparr>sphere_x := (rnd (3 * j) - 0.5) * 12,
                                 sphere_y := rnd (3 * j + 1) * 6 - 1,
                                 sphere_z := (rnd (3 * j + 2) - 0.5) * 12,
                                 sphere_visible := True\<rparr>"
    using sps_resetAll_nth [of _ "sps_spheres sst" rnd 0] by simp
  have n2: "\<forall>j < length (lod_spheres lst).
        lod_spheres (lod_handle (LOD_ResetAllSpheres rnd) lst) ! j =
          (lod_spheres lst ! j)\<lparr>sphere_x := (rnd (3 * j) - 0.5) * 16,
                                 sphere_y := rnd (3 * j + 1) * 8 - 2,
                                 sphere_z := (rnd (3 * j + 2) - 0.5) * 16\<rparr>"
    using lod_resetAll_nth [of _ "lod_spheres lst" rnd 0] by simp
  have b1: "list_all (in_bounds 6 (- 1) 5) (sps_spheres (sps_handle (SPS_ResetAllSpheres rnd) sst))"
    using sps_resetAll_bounds [OF r'] by simp
  have b2: "list_all (in_bounds 8 (- 2) 6) (lod_spheres (lod_handle (LOD_ResetAllSpheres rnd) lst))"
    using lod_resetAll_bounds [OF r'] by simp
  show "map sphere_id (sps_spheres (sps_handle (SPS_ResetAllSpheres rnd) sst))
       = map sphere_id (sps_spheres sst)
   \<and> map sphere_name (sps_spheres (sps_handle (SPS_ResetAllSpheres rnd) sst))
       = map sphere_name (sps_spheres sst)
   \<and> map sphere_color (sps_spheres (sps_handle (SPS_ResetAllSpheres rnd) sst))
       = map sphere_color (sps_spheres sst)
   \<and> list_all (in_bounds 6 (- 1) 5) (sps_spheres (sps_handle (SPS_ResetAllSpheres rnd) sst))
   \<and> (\<forall>j < length (sps_spheres sst).
        sps_spheres (sps_handle (SPS_ResetAllSpheres rnd) sst) ! j =
          (sps_spheres sst ! j)\<lparr>sphere_x := (rnd (3 * j) - 0.5) * 12,
                                 sphere_y := rnd (3 * j + 1) * 6 - 1,
                                 sphere_z := (rnd (3 * j + 2) - 0.5) * 12,
                                 sphere_visible := True\<rparr>)
   \<and> map sphere_id (lod_spheres (lod_handle (LOD_ResetAllSpheres rnd) lst))
       = map sphere_id (lod_spheres lst)
   \<and> map sphere_name (lod_spheres (lod_handle (LOD_ResetAllSpheres rnd) lst))
       = map sphere_name (lod_spheres lst)
   \<and> map sphere_color (lod_spheres (lod_handle (LOD_ResetAllSpheres rnd) lst))
       = map sphere_color (lod_spheres lst)
   \<and> list_all (in_bounds 8 (- 2) 6) (lod_spheres (lod_handle (LOD_ResetAllSpheres rnd) lst))
   \<and> (\<forall>j < length (lod_spheres lst).
        lod_spheres (lod_handle (LOD_ResetAllSpheres rnd) lst) ! j =
          (lod_spheres lst ! j)\<lparr>sphere_x := (rnd (3 * j) - 0.5) * 16,
                                 sphere_y := rnd (3 * j + 1) * 8 - 2,
                                 sphere_z := (rnd (3 * j + 2) - 0.5) * 16\<rparr>)"
    using n1 n2 b1 b2 by (simp add: sps_resetAll_frame lod_resetAll_frame)
qed

theorem C9_resetAll_witness:
  "(\<forall>k. 0 \<le> (\<lambda>n. real (n mod 4) / 4) k \<and> (\<lambda>n. real (n mod 4) / 4) k < 1)
   \<and> map sphere_id (sps_spheres (sps_handle (SPS_ResetAllSpheres (\<lambda>n. real (n mod 4) / 4))
         (sps_init canvasCamera)))
       = [1, 2, 3, 4, 5, 6, 7, 8, 9, 10, 11, 12, 13, 14, 15, 16]
   \<and> map sphere_id (lod_spheres (lod_handle (LOD_ResetAllSpheres (\<lambda>n. real (n mod 4) / 4))
         (lod_init canvasCamera)))
       = [1, 2, 3, 4, 5, 6, 7, 8, 9, 10, 11, 12, 13, 14, 15, 16]
   \<and> list_all (in_bounds 6 (- 1) 5)
        (sps_spheres (sps_handle (SPS_ResetAllSpheres (\<lambda>n. real (n mod 4) / 4))
           (sps_init canvasCamera)))
   \<and> list_all (in_bounds 8 (- 2) 6)
        (lod_spheres (lod_handle (LOD_ResetAllSpheres (\<lambda>n. real (n mod 4) / 4))
           (lod_init canvasCamera)))"
proof -
  have r: "\<forall>k. 0 \<le> (\<lambda>n. real (n mod 4) / 4) k \<and> (\<lambda>n. real (n mod 4) / 4) k < 1"
    by simp
  have i1: "map sphere_id (sps_spheres (sps_init canvasCamera))
              = [1, 2, 3, 4, 5, 6, 7, 8, 9, 10, 11, 12, 13, 14, 15, 16]"
    by (simp add: sps_init_def ids_initial)
  have i2: "map sphere_id (lod_spheres (lod_init canvasCamera))
              = [1, 2, 3, 4, 5, 6, 7, 8, 9, 10, 11, 12, 13, 14, 15, 16]"
    by (simp add: lod_init_def ids_initial)
  from C9_resetAll [of "\<lambda>n. real (n mod 4) / 4" "sps_init canvasCamera" "lod_init canvasCamera"] r
  show ?thesis unfolding i1 i2 by blast
qed

section \<open>The wheel scenario\<close>


lemma sps_wheel_forward_below:
  assumes "sps_quiet a st" and "0 < deltaY" and "0 \<le> a" and "a + 1.2 < 60"
  shows "sps_step st (SPS_Wheel deltaY) =
           st\<lparr>sps_accumulatedDegrees := a + 1.2,
              sps_targetRotation := (a + 1.2) * pi / 180,
              sps_rotationDegrees := a + 1.2,
              sps_titleOpacity := newTitleOpacity (a + 1.2),
              sps_modelScale := newModelScale (a + 1.2)\<rparr>"
proof -
  have r: "js_rem \<bar>a + 1.2\<bar> 360 = a + 1.2"
    using assms(3,4) by (subst js_rem_small) simp_all
  show ?thesis
    using assms r
    by (simp add: sps_step_def sps_handleWheel_def sps_effects_def sps_quiet_def Let_def)
qed

lemma sps_forward_run:
  assumes "0 < deltaY" and "real n * 1.2 < 60" and "0 < n"
  shows "sps_run (replicate n (SPS_Wheel deltaY)) (sps_init cam) =
           (sps_init cam)\<lparr>sps_accumulatedDegrees := real n * 1.2,
              sps_targetRotation := (real n * 1.2) * pi / 180,
              sps_rotationDegrees := real n * 1.2,
              sps_titleOpacity := newTitleOpacity (real n * 1.2),
              sps_modelScale := newModelScale (real n * 1.2)\<rparr>"
  using assms(2,3)
proof (induction n)
  case 0
  then show ?case by simp
next
  case (Suc n)
  show ?case
  proof (cases "n = 0")
    case True
    have q: "sps_quiet 0 (sps_init cam)" by (simp add: sps_quiet_def sps_init_def)
    show ?thesis using True sps_wheel_forward_below [OF q assms(1)]
      by (simp add: sps_run_def sps_init_def)
  next
    case False
    then have n: "0 < n" by simp
    have b: "real n * 1.2 < 60" using Suc.prems by simp
    let ?st = "sps_run (replicate n (SPS_Wheel deltaY)) (sps_init cam)"
    have q: "sps_quiet (real n * 1.2) ?st"
      unfolding Suc.IH [OF b n] by (simp add: sps_quiet_def sps_init_def)
    have s: "real n * 1.2 + 1.2 < 60" "0 \<le> real n * 1.2"
      using Suc.prems by (simp_all add: algebra_simps)
    have "sps_run (replicate (Suc n) (SPS_Wheel deltaY)) (sps_init cam)
            = sps_step ?st (SPS_Wheel deltaY)"
      by (rule sps_run_replicate_Suc)
    also have "\<dots> = ?st\<lparr>sps_accumulatedDegrees := real n * 1.2 + 1.2,
              sps_targetRotation := (real n * 1.2 + 1.2) * pi / 180,
              sps_rotationDegrees := real n * 1.2 + 1.2,
              sps_titleOpacity := newTitleOpacity (real n * 1.2 + 1.2),
              sps_modelScale := newModelScale (real n * 1.2 + 1.2)\<rparr>"
      using sps_wheel_forward_below [OF q assms(1) s(2) s(1)] .
    also have "real n * 1.2 + 1.2 = real (Suc n) * 1.2" by (simp add: algebra_simps)
    finally show ?thesis unfolding Suc.IH [OF b n] by simp
  qed
qed

lemma lod_wheel_forward_below:
  assumes "lod_quiet a st" and "0 < deltaY" and "0 \<le> a" and "a + 1.2 < 60"
  shows "lod_step st (LOD_Wheel deltaY) =
           st\<lparr>lod_accumulatedDegrees := a + 1.2,
              lod_targetRotation := (a + 1.2) * pi / 180,
              lod_rotationDegrees := a + 1.2,
              lod_modelScale := newModelScale (a + 1.2)\<rparr>"
proof -
  have r: "js_rem \<bar>a + 1.2\<bar> 360 = a + 1.2"
    using assms(3,4) by (subst js_rem_small) simp_all
  show ?thesis
    using assms r
    by (simp add: lod_step_def lod_handleWheel_def lod_effects_def lod_quiet_def Let_def)
qed

lemma lod_forward_run:
  assumes "0 < deltaY" and "real n * 1.2 < 60" and "0 < n"
  shows "lod_run (replicate n (LOD_Wheel deltaY)) (lod_init cam) =
           (lod_init cam)\<lparr>lod_accumulatedDegrees := real n * 1.2,
              lod_targetRotation := (real n * 1.2) * pi / 180,
              lod_rotationDegrees := real n * 1.2,
              lod_modelScale := newModelScale (real n * 1.2)\<rparr>"
  using assms(2,3)
proof (induction n)
  case 0
  then show ?case by simp
next
  case (Suc n)
  show ?case
  proof (cases "n = 0")
    case True
    have q: "lod_quiet 0 (lod_init cam)" by (simp add: lod_quiet_def lod_init_def)
    show ?thesis using True lod_wheel_forward_below [OF q assms(1)]
      by (simp add: lod_run_def lod_init_def)
  next
    case False
    then have n: "0 < n" by simp
    have b: "real n * 1.2 < 60" using Suc.prems by simp
    let ?st = "lod_run (replicate n (LOD_Wheel deltaY)) (lod_init cam)"
    have q: "lod_quiet (real n * 1.2) ?st"
      unfolding Suc.IH [OF b n] by (simp add: lod_quiet_def lod_init_def)
    have s: "real n * 1.2 + 1.2 < 60" "0 \<le> real n * 1.2"
      using Suc.prems by (simp_all add: algebra_simps)
    have "lod_run (replicate (Suc n) (LOD_Wheel deltaY)) (lod_init cam)
            = lod_step ?st (LOD_Wheel deltaY)"
      by (rule lod_run_replicate_Suc)
    also have "\<dots> = ?st\<lparr>lod_accumulatedDegrees := real n * 1.2 + 1.2,
              lod_targetRotation := (real n * 1.2 + 1.2) * pi / 180,
              lod_rotationDegrees := real n * 1.2 + 1.2,
              lod_modelScale := newModelScale (real n * 1.2 + 1.2)\<rparr>"
      using lod_wheel_forward_below [OF q assms(1) s(2) s(1)] .
    also have "real n * 1.2 + 1.2 = real (Suc n) * 1.2" by (simp add: algebra_simps)
    finally show ?thesis unfolding Suc.IH [OF b n] by simp
  qed
qed

text \<open>
  C3, as stated, fails: forty-two forward wheel events accumulate 50.4 degrees and leave the
  scale at 2.384; forty-one (49.2 degrees) leave it at 2.332, and the ramp at exactly 50
  degrees is 71/30. None is within 0.1 of 2.17.
\<close>

theorem C3_scale_counterexample:
  "\<not> (getCurrentStage (sps_rotationDegrees
           (sps_run (replicate 42 (SPS_Wheel 100)) (sps_init canvasCamera))) = ModelGrowing
       \<and> \<bar>sps_modelScale (sps_run (replicate 42 (SPS_Wheel 100)) (sps_init canvasCamera))
            - 2.17\<bar> \<le> 0.1
       \<and> \<not> sps_sidebarOpen (sps_run (replicate 42 (SPS_Wheel 100)) (sps_init canvasCamera))
       \<and> sps_titleOpacity (sps_run (replicate 42 (SPS_Wheel 100)) (sps_init canvasCamera)) = 0)
   \<and> \<not> \<bar>sps_modelScale (sps_run (replicate 41 (SPS_Wheel 100)) (sps_init canvasCamera))
            - 2.17\<bar> \<le> 0.1
   \<and> \<not> \<bar>lod_modelScale (lod_run (replicate 42 (LOD_Wheel 100)) (lod_init canvasCamera))
            - 2.17\<bar> \<le> 0.1
   \<and> \<not> \<bar>lod_modelScale (lod_run (replicate 41 (LOD_Wheel 100)) (lod_init canvasCamera))
            - 2.17\<bar> \<le> 0.1
   \<and> \<not> \<bar>newModelScale 50 - 2.17\<bar> \<le> 0.1"
proof -
  have a: "sps_modelScale (sps_run (replicate 42 (SPS_Wheel 100)) (sps_init canvasCamera)) = 2.384"
    by (subst sps_forward_run) (simp_all add: newModelScale_def)
  have b: "sps_modelScale (sps_run (replicate 41 (SPS_Wheel 100)) (sps_init canvasCamera)) = 2.332"
    by (subst sps_forward_run) (simp_all add: newModelScale_def)
  have c: "lod_modelScale (lod_run (replicate 42 (LOD_Wheel 100)) (lod_init canvasCamera)) = 2.384"
    by (subst lod_forward_run) (simp_all add: newModelScale_def)
  have d: "lod_modelScale (lod_run (replicate 41 (LOD_Wheel 100)) (lod_init canvasCamera)) = 2.332"
    by (subst lod_forward_run) (simp_all add: newModelScale_def)
  show ?thesis unfolding a b c d by (simp add: newModelScale_def)
qed

lemma sps_handleWheel_fl_exact: "sps_handleWheel_fl (\<lambda>x. x) deltaY st = sps_handleWheel deltaY st"
  by (simp add: sps_handleWheel_fl_def sps_handleWheel_def newTitleOpacity_fl_def
        newTitleOpacity_def newModelScale_fl_def newModelScale_def Let_def)

lemma lod_handleWheel_fl_exact: "lod_handleWheel_fl (\<lambda>x. x) deltaY st = lod_handleWheel deltaY st"
  by (simp add: lod_handleWheel_fl_def lod_handleWheel_def newModelScale_fl_def
        newModelScale_def Let_def)

lemma sps_wheels_fl_exact:
  "sps_wheels_fl (\<lambda>x. x) deltaYs st = sps_run (map SPS_Wheel deltaYs) st"
  by (induction deltaYs arbitrary: st)
     (simp_all add: sps_wheels_fl_def sps_run_def sps_step_def sps_handleWheel_fl_exact)

lemma lod_wheels_fl_exact:
  "lod_wheels_fl (\<lambda>x. x) deltaYs st = lod_run (map LOD_Wheel deltaYs) st"
  by (induction deltaYs arbitrary: st)
     (simp_all add: lod_wheels_fl_def lod_run_def lod_step_def lod_handleWheel_fl_exact)

lemma fl_close:
  assumes "binary64_rounding fl" and "1 / 1000 \<le> x" and "x \<le> 1000"
  shows "x - 1 / 1000000000000 \<le> fl x" and "fl x \<le> x + 1 / 1000000000000"
proof -
  have ax: "\<bar>x\<bar> = x" using assms(2) by simp
  from assms(1) have "1 / 1000 \<le> \<bar>x\<bar> \<and> \<bar>x\<bar> \<le> 1000 \<longrightarrow> \<bar>fl x - x\<bar> \<le> \<bar>x\<bar> / 2 ^ 53"
    unfolding binary64_rounding_def by blast
  then have "\<bar>fl x - x\<bar> \<le> x / 2 ^ 53" using assms(2,3) unfolding ax by blast
  also have "\<dots> \<le> 1000 / 2 ^ 53" using assms(3) by (simp add: divide_right_mono)
  also have "\<dots> \<le> 1 / 1000000000000" by simp
  finally have "\<bar>fl x - x\<bar> \<le> 1 / 1000000000000" .
  then show "x - 1 / 1000000000000 \<le> fl x" and "fl x \<le> x + 1 / 1000000000000"
    by linarith+
qed

lemma fl_increment:
  assumes "binary64_rounding fl"
  shows "1.2 - 2 / 1000000000000 \<le> fl (fl 1.2)" and "fl (fl 1.2) \<le> 1.2 + 2 / 1000000000000"
proof -
  have a: "1.2 - 1 / 1000000000000 \<le> fl 1.2" "fl 1.2 \<le> 1.2 + 1 / 1000000000000"
    by (rule fl_close [OF assms]; simp)+
  then have r: "1 / 1000 \<le> fl 1.2" "fl 1.2 \<le> 1000" by linarith+
  from fl_close [OF assms r] a
  show "1.2 - 2 / 1000000000000 \<le> fl (fl 1.2)" and "fl (fl 1.2) \<le> 1.2 + 2 / 1000000000000"
    by linarith+
qed

lemma fl_accumulate:
  assumes fl: "binary64_rounding fl" and k: "k < 50"
    and a: "\<bar>a - 1.2 * real k\<bar> \<le> 3 * real k / 1000000000000"
  shows "\<bar>fl (a + fl (fl 1.2)) - 1.2 * real (Suc k)\<bar> \<le> 3 * real (Suc k) / 1000000000000"
proof -
  have kr: "real k \<le> 49" "0 \<le> real k" using k by simp_all
  note i = fl_increment [OF fl]
  have r: "1 / 1000 \<le> a + fl (fl 1.2)" "a + fl (fl 1.2) \<le> 1000"
    using a i kr by linarith+
  have s: "real (Suc k) = real k + 1" by simp
  have e: "1.2 * (real k + 1) = 1.2 * real k + 1.2"
    "3 * (real k + 1) / 1000000000000 = 3 * real k / 1000000000000 + 3 / 1000000000000"
    by (simp_all add: algebra_simps add_divide_distrib)
  from fl_close [OF fl r] a i show ?thesis unfolding s e by linarith
qed

lemma fl_scale:
  assumes fl: "binary64_rounding fl" and n: "26 \<le> n" "n < 50"
    and d: "\<bar>d - 1.2 * real n\<bar> \<le> 3 * real n / 1000000000000"
  shows "30 \<le> d" and "d < 60"
    and "\<bar>newModelScale_fl fl d - (1.5 + ((1.2 * real n - 30) / 30) * 1.3)\<bar>
            \<le> 1 / 1000000000"
proof -
  have nr: "26 \<le> real n" "real n \<le> 49" using n by simp_all
  define D where "D = 1.2 * real n"
  define X where "X = (D - 30) / 30"
  have Db: "31.2 \<le> D" "D \<le> 58.8" using nr by (simp_all add: D_def)
  have dD: "D - 150 / 1000000000000 \<le> d" "d \<le> D + 150 / 1000000000000"
    using d nr unfolding D_def by linarith+
  show b: "30 \<le> d" "d < 60" using dD Db by linarith+
  have X: "30 * X = D - 30" by (simp add: X_def)
  have Xb: "0 \<le> X" "X \<le> 1" using Db X by linarith+
  define t where "t = fl (d - 30)"
  have tr: "1 / 1000 \<le> d - 30" "d - 30 \<le> 1000" using dD Db by linarith+
  have t: "d - 30 - 1 / 1000000000000 \<le> t" "t \<le> d - 30 + 1 / 1000000000000"
    unfolding t_def by (rule fl_close [OF fl tr])+
  define q where "q = t / 30"
  have q: "30 * q = t" by (simp add: q_def)
  have qr: "1 / 1000 \<le> q" "q \<le> 1000" using q t dD Db by linarith+
  define sp where "sp = fl q"
  have sp: "q - 1 / 1000000000000 \<le> sp" "sp \<le> q + 1 / 1000000000000"
    unfolding sp_def by (rule fl_close [OF fl qr])+
  have spX: "- (7 / 1000000000000) \<le> sp - X" "sp - X \<le> 7 / 1000000000000"
    using sp q t dD X by linarith+
  define c where "c = fl 1.3"
  have c: "1.3 - 1 / 1000000000000 \<le> c" "c \<le> 1.3 + 1 / 1000000000000"
    unfolding c_def by (rule fl_close [OF fl]; simp)+
  have cb: "0 \<le> c" "c \<le> 2" using c by linarith+
  have e: "sp * c - X * 1.3 = (sp - X) * c + X * (c - 1.3)" by (simp add: algebra_simps)
  have u1: "(sp - X) * c \<le> (7 / 1000000000000) * 2"
  proof (cases "0 \<le> sp - X")
    case True
    then show ?thesis using spX(2) cb by (intro mult_mono) simp_all
  next
    case False
    then have "(sp - X) * c \<le> 0" using cb by (simp add: mult_le_0_iff)
    then show ?thesis by simp
  qed
  have l1: "- ((7 / 1000000000000) * 2) \<le> (sp - X) * c"
  proof (cases "0 \<le> sp - X")
    case True
    then have "0 \<le> (sp - X) * c" using cb by simp
    then show ?thesis by simp
  next
    case False
    then have "(X - sp) * c \<le> (7 / 1000000000000) * 2"
      using spX(1) cb by (intro mult_mono) simp_all
    then show ?thesis by (simp add: algebra_simps)
  qed
  have u2: "X * (c - 1.3) \<le> 1 / 1000000000000"
  proof -
    have "X * (c - 1.3) \<le> X * (1 / 1000000000000)"
      using Xb c by (intro mult_left_mono) simp_all
    also have "\<dots> \<le> 1 * (1 / 1000000000000)" using Xb by (intro mult_right_mono) simp_all
    finally show ?thesis by simp
  qed
  have l2: "- (1 / 1000000000000) \<le> X * (c - 1.3)"
  proof -
    have "X * (1.3 - c) \<le> X * (1 / 1000000000000)"
      using Xb c by (intro mult_left_mono) simp_all
    also have "\<dots> \<le> 1 * (1 / 1000000000000)" using Xb by (intro mult_right_mono) simp_all
    finally show ?thesis by (simp add: algebra_simps)
  qed
  define p where "p = sp * c"
  have p: "X * 1.3 - 15 / 1000000000000 \<le> p" "p \<le> X * 1.3 + 15 / 1000000000000"
    using e u1 l1 u2 l2 unfolding p_def by linarith+
  have pr: "1 / 1000 \<le> p" "p \<le> 1000" using p Xb X Db by linarith+
  define m where "m = fl p"
  have m: "p - 1 / 1000000000000 \<le> m" "m \<le> p + 1 / 1000000000000"
    unfolding m_def by (rule fl_close [OF fl pr])+
  have sr: "1 / 1000 \<le> 1.5 + m" "1.5 + m \<le> 1000" using m p Xb by linarith+
  define r where "r = fl (1.5 + m)"
  have r: "1.5 + m - 1 / 1000000000000 \<le> r" "r \<le> 1.5 + m + 1 / 1000000000000"
    unfolding r_def by (rule fl_close [OF fl sr])+
  have v: "newModelScale_fl fl d = r"
    using b by (simp add: newModelScale_fl_def Let_def r_def m_def p_def c_def sp_def q_def t_def)
  have w: "1.5 + ((1.2 * real n - 30) / 30) * 1.3 = 1.5 + X * 1.3"
    by (simp add: X_def D_def)
  show "\<bar>newModelScale_fl fl d - (1.5 + ((1.2 * real n - 30) / 30) * 1.3)\<bar>
            \<le> 1 / 1000000000"
    unfolding v w using r m p by linarith
qed

lemma sps_wheel_fl_step:
  assumes fl: "binary64_rounding fl" and d: "0 < deltaY" and k: "k < 49"
    and a: "\<bar>sps_accumulatedDegrees st - 1.2 * real k\<bar> \<le> 3 * real k / 1000000000000"
    and q: "\<not> sps_sidebarOpen st" "\<not> sps_notificationShown st"
  shows "\<bar>sps_accumulatedDegrees (sps_effects st (sps_handleWheel_fl fl deltaY st))
           - 1.2 * real (Suc k)\<bar> \<le> 3 * real (Suc k) / 1000000000000
       \<and> \<not> sps_sidebarOpen (sps_effects st (sps_handleWheel_fl fl deltaY st))
       \<and> \<not> sps_notificationShown (sps_effects st (sps_handleWheel_fl fl deltaY st))
       \<and> sps_rotationDegrees (sps_effects st (sps_handleWheel_fl fl deltaY st))
           = sps_accumulatedDegrees (sps_effects st (sps_handleWheel_fl fl deltaY st))
       \<and> sps_titleOpacity (sps_effects st (sps_handleWheel_fl fl deltaY st))
           = newTitleOpacity_fl fl
               (sps_accumulatedDegrees (sps_effects st (sps_handleWheel_fl fl deltaY st)))
       \<and> sps_modelScale (sps_effects st (sps_handleWheel_fl fl deltaY st))
           = newModelScale_fl fl
               (sps_accumulatedDegrees (sps_effects st (sps_handleWheel_fl fl deltaY st)))"
proof -
  define a' where "a' = fl (sps_accumulatedDegrees st + fl (fl 1.2))"
  have k50: "k < 50" using k by simp
  have b: "\<bar>a' - 1.2 * real (Suc k)\<bar> \<le> 3 * real (Suc k) / 1000000000000"
    unfolding a'_def by (rule fl_accumulate [OF fl k50 a])
  have kr: "real k \<le> 48" "0 \<le> real k" using k by simp_all
  have sk: "real (Suc k) = real k + 1" by simp
  have e: "1.2 * (real k + 1) = 1.2 * real k + 1.2"
    "3 * (real k + 1) / 1000000000000 = 3 * real k / 1000000000000 + 3 / 1000000000000"
    by (simp_all add: algebra_simps add_divide_distrib)
  have r: "0 \<le> a'" "a' < 60" using b kr unfolding sk e by linarith+
  then have m: "js_rem \<bar>a'\<bar> 360 = a'" by (subst js_rem_small) simp_all
  have h: "sps_effects st (sps_handleWheel_fl fl deltaY st) =
      st\<lparr>sps_accumulatedDegrees := a',
         sps_targetRotation := fl (fl (a' * fl pi) / 180),
         sps_rotationDegrees := a',
         sps_titleOpacity := newTitleOpacity_fl fl a',
         sps_modelScale := newModelScale_fl fl a'\<rparr>"
    using d q r m by (simp add: sps_handleWheel_fl_def sps_effects_def Let_def a'_def)
  show ?thesis unfolding h using b q by simp
qed

lemma sps_wheels_fl_snoc:
  "sps_wheels_fl fl (ds @ [d]) st =
     sps_effects (sps_wheels_fl fl ds st) (sps_handleWheel_fl fl d (sps_wheels_fl fl ds st))"
  by (simp add: sps_wheels_fl_def)

lemma sps_wheels_fl_run:
  assumes fl: "binary64_rounding fl"
  shows "list_all (\<lambda>d. 0 < d) ds \<Longrightarrow> length ds < 50 \<Longrightarrow>
     \<bar>sps_accumulatedDegrees (sps_wheels_fl fl ds (sps_init cam)) - 1.2 * real (length ds)\<bar>
        \<le> 3 * real (length ds) / 1000000000000
     \<and> \<not> sps_sidebarOpen (sps_wheels_fl fl ds (sps_init cam))
     \<and> \<not> sps_notificationShown (sps_wheels_fl fl ds (sps_init cam))
     \<and> (ds \<noteq> [] \<longrightarrow>
          sps_rotationDegrees (sps_wheels_fl fl ds (sps_init cam))
            = sps_accumulatedDegrees (sps_wheels_fl fl ds (sps_init cam))
          \<and> sps_titleOpacity (sps_wheels_fl fl ds (sps_init cam))
              = newTitleOpacity_fl fl (sps_accumulatedDegrees (sps_wheels_fl fl ds (sps_init cam)))
          \<and> sps_modelScale (sps_wheels_fl fl ds (sps_init cam))
              = newModelScale_fl fl (sps_accumulatedDegrees (sps_wheels_fl fl ds (sps_init cam))))"
proof (induction ds rule: rev_induct)
  case Nil
  show ?case by (simp add: sps_wheels_fl_def sps_init_def)
next
  case (snoc d ds)
  from snoc.prems have p: "list_all (\<lambda>d. 0 < d) ds" "length ds < 50" "0 < d" "length ds < 49"
    by simp_all
  note ih = snoc.IH [OF p(1,2)]
  from ih have a: "\<bar>sps_accumulatedDegrees (sps_wheels_fl fl ds (sps_init cam))
         - 1.2 * real (length ds)\<bar> \<le> 3 * real (length ds) / 1000000000000"
    and q: "\<not> sps_sidebarOpen (sps_wheels_fl fl ds (sps_init cam))"
      "\<not> sps_notificationShown (sps_wheels_fl fl ds (sps_init cam))"
    by blast+
  have l: "length (ds @ [d]) = Suc (length ds)" by simp
  from sps_wheel_fl_step [OF fl p(3,4) a q]
  show ?case unfolding sps_wheels_fl_snoc l by blast
qed

lemma lod_wheel_fl_step:
  assumes fl: "binary64_rounding fl" and d: "0 < deltaY" and k: "k < 49"
    and a: "\<bar>lod_accumulatedDegrees st - 1.2 * real k\<bar> \<le> 3 * real k / 1000000000000"
    and q: "\<not> lod_sidebarOpen st" "\<not> lod_notificationShown st"
      "lod_focusedSphere st = None"
  shows "\<bar>lod_accumulatedDegrees (lod_effects st (lod_handleWheel_fl fl deltaY st))
           - 1.2 * real (Suc k)\<bar> \<le> 3 * real (Suc k) / 1000000000000
       \<and> \<not> lod_sidebarOpen (lod_effects st (lod_handleWheel_fl fl deltaY st))
       \<and> \<not> lod_notificationShown (lod_effects st (lod_handleWheel_fl fl deltaY st))
       \<and> lod_focusedSphere (lod_effects st (lod_handleWheel_fl fl deltaY st)) = None
       \<and> lod_rotationDegrees (lod_effects st (lod_handleWheel_fl fl deltaY st))
           = lod_accumulatedDegrees (lod_effects st (lod_handleWheel_fl fl deltaY st))
       \<and> lod_modelScale (lod_effects st (lod_handleWheel_fl fl deltaY st))
           = newModelScale_fl fl
               (lod_accumulatedDegrees (lod_effects st (lod_handleWheel_fl fl deltaY st)))"
proof -
  define a' where "a' = fl (lod_accumulatedDegrees st + fl (fl 1.2))"
  have k50: "k < 50" using k by simp
  have b: "\<bar>a' - 1.2 * real (Suc k)\<bar> \<le> 3 * real (Suc k) / 1000000000000"
    unfolding a'_def by (rule fl_accumulate [OF fl k50 a])
  have kr: "real k \<le> 48" "0 \<le> real k" using k by simp_all
  have sk: "real (Suc k) = real k + 1" by simp
  have e: "1.2 * (real k + 1) = 1.2 * real k + 1.2"
    "3 * (real k + 1) / 1000000000000 = 3 * real k / 1000000000000 + 3 / 1000000000000"
    by (simp_all add: algebra_simps add_divide_distrib)
  have r: "0 \<le> a'" "a' < 60" using b kr unfolding sk e by linarith+
  then have m: "js_rem \<bar>a'\<bar> 360 = a'" by (subst js_rem_small) simp_all
  have h: "lod_effects st (lod_handleWheel_fl fl deltaY st) =
      st\<lparr>lod_accumulatedDegrees := a',
         lod_targetRotation := fl (fl (a' * fl pi) / 180),
         lod_rotationDegrees := a',
         lod_modelScale := newModelScale_fl fl a'\<rparr>"
    using d q r m by (simp add: lod_handleWheel_fl_def lod_effects_def Let_def a'_def)
  show ?thesis unfolding h using b q by simp
qed

lemma lod_wheels_fl_snoc:
  "lod_wheels_fl fl (ds @ [d]) st =
     lod_effects (lod_wheels_fl fl ds st) (lod_handleWheel_fl fl d (lod_wheels_fl fl ds st))"
  by (simp add: lod_wheels_fl_def)

lemma lod_wheels_fl_run:
  assumes fl: "binary64_rounding fl"
  shows "list_all (\<lambda>d. 0 < d) ds \<Longrightarrow> length ds < 50 \<Longrightarrow>
     \<bar>lod_accumulatedDegrees (lod_wheels_fl fl ds (lod_init cam)) - 1.2 * real (length ds)\<bar>
        \<le> 3 * real (length ds) / 1000000000000
     \<and> \<not> lod_sidebarOpen (lod_wheels_fl fl ds (lod_init cam))
     \<and> \<not> lod_notificationShown (lod_wheels_fl fl ds (lod_init cam))
     \<and> lod_focusedSphere (lod_wheels_fl fl ds (lod_init cam)) = None
     \<and> (ds \<noteq> [] \<longrightarrow>
          lod_rotationDegrees (lod_wheels_fl fl ds (lod_init cam))
            = lod_accumulatedDegrees (lod_wheels_fl fl ds (lod_init cam))
          \<and> lod_modelScale (lod_wheels_fl fl ds (lod_init cam))
              = newModelScale_fl fl (lod_accumulatedDegrees (lod_wheels_fl fl ds (lod_init cam))))"
proof (induction ds rule: rev_induct)
  case Nil
  show ?case by (simp add: lod_wheels_fl_def lod_init_def)
next
  case (snoc d ds)
  from snoc.prems have p: "list_all (\<lambda>d. 0 < d) ds" "length ds < 50" "0 < d" "length ds < 49"
    by simp_all
  note ih = snoc.IH [OF p(1,2)]
  from ih have a: "\<bar>lod_accumulatedDegrees (lod_wheels_fl fl ds (lod_init cam))
         - 1.2 * real (length ds)\<bar> \<le> 3 * real (length ds) / 1000000000000"
    and q: "\<not> lod_sidebarOpen (lod_wheels_fl fl ds (lod_init cam))"
      "\<not> lod_notificationShown (lod_wheels_fl fl ds (lod_init cam))"
      "lod_focusedSphere (lod_wheels_fl fl ds (lod_init cam)) = None"
    by blast+
  have l: "length (ds @ [d]) = Suc (length ds)" by simp
  from lod_wheel_fl_step [OF fl p(3,4) a q]
  show ?case unfolding lod_wheels_fl_snoc l by blast
qed

text \<open>
  C3, amended. Let \<open>fl\<close> round as doubles do. After \<open>n\<close> forward wheel events from the initial
  state, \<open>26 \<le> n < 50\<close>, the accumulated rotation is \<open>1.2 n\<close> degrees up to rounding, the stage
  is model-growing, the scale is \<open>1.5 + ((1.2 n - 30) / 30) * 1.3\<close> up to rounding, the sidebar
  is closed and the title opacity is 0; for \<open>n = 42\<close> (50.4 degrees) the scale is 2.384 up to
  rounding. The bounds on the rounding error are stated with \<open>10\<^sup>-\<^sup>9\<close>.
\<close>

theorem C3_wheel_scenario:
  "binary64_rounding fl \<and> list_all (\<lambda>d. 0 < d) ds \<and> 26 \<le> length ds \<and> length ds < 50 \<longrightarrow>
     \<bar>sps_accumulatedDegrees (sps_wheels_fl fl ds (sps_init cam)) - 1.2 * real (length ds)\<bar>
        \<le> 1 / 1000000000
   \<and> getCurrentStage (sps_rotationDegrees (sps_wheels_fl fl ds (sps_init cam))) = ModelGrowing
   \<and> \<bar>sps_modelScale (sps_wheels_fl fl ds (sps_init cam))
        - (1.5 + ((1.2 * real (length ds) - 30) / 30) * 1.3)\<bar> \<le> 1 / 1000000000
   \<and> \<not> sps_sidebarOpen (sps_wheels_fl fl ds (sps_init cam))
   \<and> sps_titleOpacity (sps_wheels_fl fl ds (sps_init cam)) = 0
   \<and> \<bar>lod_accumulatedDegrees (lod_wheels_fl fl ds (lod_init cam)) - 1.2 * real (length ds)\<bar>
        \<le> 1 / 1000000000
   \<and> getCurrentStage (lod_rotationDegrees (lod_wheels_fl fl ds (lod_init cam))) = ModelGrowing
   \<and> \<bar>lod_modelScale (lod_wheels_fl fl ds (lod_init cam))
        - (1.5 + ((1.2 * real (length ds) - 30) / 30) * 1.3)\<bar> \<le> 1 / 1000000000
   \<and> \<not> lod_sidebarOpen (lod_wheels_fl fl ds (lod_init cam))"
proof
  assume h: "binary64_rounding fl \<and> list_all (\<lambda>d. 0 < d) ds \<and> 26 \<le> length ds \<and> length ds < 50"
  then have fl: "binary64_rounding fl" and p: "list_all (\<lambda>d. 0 < d) ds"
    and n: "26 \<le> length ds" "length ds < 50" by simp_all
  from n have ne: "ds \<noteq> []" by auto
  have nr: "real (length ds) \<le> 49" using n by simp
  let ?S = "sps_wheels_fl fl ds (sps_init cam)" and ?L = "lod_wheels_fl fl ds (lod_init cam)"
  from sps_wheels_fl_run [OF fl p n(2), of cam] ne
  have sa: "\<bar>sps_accumulatedDegrees ?S - 1.2 * real (length ds)\<bar>
              \<le> 3 * real (length ds) / 1000000000000"
    and so: "\<not> sps_sidebarOpen ?S"
    and sr: "sps_rotationDegrees ?S = sps_accumulatedDegrees ?S"
    and st: "sps_titleOpacity ?S = newTitleOpacity_fl fl (sps_accumulatedDegrees ?S)"
    and sm: "sps_modelScale ?S = newModelScale_fl fl (sps_accumulatedDegrees ?S)"
    by blast+
  from lod_wheels_fl_run [OF fl p n(2), of cam] ne
  have la: "\<bar>lod_accumulatedDegrees ?L - 1.2 * real (length ds)\<bar>
              \<le> 3 * real (length ds) / 1000000000000"
    and lo: "\<not> lod_sidebarOpen ?L"
    and lr: "lod_rotationDegrees ?L = lod_accumulatedDegrees ?L"
    and lm: "lod_modelScale ?L = newModelScale_fl fl (lod_accumulatedDegrees ?L)"
    by blast+
  note s = fl_scale [OF fl n sa] and l = fl_scale [OF fl n la]
  have c1: "\<bar>sps_accumulatedDegrees ?S - 1.2 * real (length ds)\<bar> \<le> 1 / 1000000000"
    using sa nr by linarith
  have c2: "getCurrentStage (sps_rotationDegrees ?S) = ModelGrowing"
    unfolding sr using s(1,2) by (simp add: getCurrentStage_def)
  have c3: "\<bar>sps_modelScale ?S - (1.5 + ((1.2 * real (length ds) - 30) / 30) * 1.3)\<bar>
              \<le> 1 / 1000000000"
    unfolding sm by (rule s(3))
  have c4: "sps_titleOpacity ?S = 0"
    unfolding st using s(1) by (simp add: newTitleOpacity_fl_def)
  have c5: "\<bar>lod_accumulatedDegrees ?L - 1.2 * real (length ds)\<bar> \<le> 1 / 1000000000"
    using la nr by linarith
  have c6: "getCurrentStage (lod_rotationDegrees ?L) = ModelGrowing"
    unfolding lr using l(1,2) by (simp add: getCurrentStage_def)
  have c7: "\<bar>lod_modelScale ?L - (1.5 + ((1.2 * real (length ds) - 30) / 30) * 1.3)\<bar>
              \<le> 1 / 1000000000"
    unfolding lm by (rule l(3))
  from c1 c2 c3 so c4 c5 c6 c7 lo
  show "\<bar>sps_accumulatedDegrees ?S - 1.2 * real (length ds)\<bar> \<le> 1 / 1000000000
   \<and> getCurrentStage (sps_rotationDegrees ?S) = ModelGrowing
   \<and> \<bar>sps_modelScale ?S - (1.5 + ((1.2 * real (length ds) - 30) / 30) * 1.3)\<bar>
        \<le> 1 / 1000000000
   \<and> \<not> sps_sidebarOpen ?S
   \<and> sps_titleOpacity ?S = 0
   \<and> \<bar>lod_accumulatedDegrees ?L - 1.2 * real (length ds)\<bar> \<le> 1 / 1000000000
   \<and> getCurrentStage (lod_rotationDegrees ?L) = ModelGrowing
   \<and> \<bar>lod_modelScale ?L - (1.5 + ((1.2 * real (length ds) - 30) / 30) * 1.3)\<bar>
        \<le> 1 / 1000000000
   \<and> \<not> lod_sidebarOpen ?L"
    by (simp only: simp_thms)
qed

lemma binary64_rounding_example: "binary64_rounding (\<lambda>x. x * (1 + 1 / 2 ^ 53))"
  unfolding binary64_rounding_def
proof (intro allI impI)
  fix x :: real
  have "x * (1 + 1 / 2 ^ 53) - x = x * (1 / 2 ^ 53)" by (simp add: algebra_simps)
  then have "\<bar>x * (1 + 1 / 2 ^ 53) - x\<bar> = \<bar>x\<bar> / 2 ^ 53" by (simp add: abs_mult)
  then show "\<bar>x * (1 + 1 / 2 ^ 53) - x\<bar> \<le> \<bar>x\<bar> / 2 ^ 53" by simp
qed

theorem C3_wheel_scenario_witness:
  "binary64_rounding (\<lambda>x. x * (1 + 1 / 2 ^ 53))
   \<and> list_all (\<lambda>d. 0 < d) (replicate 42 (100::real))
   \<and> (26::nat) \<le> length (replicate 42 (100::real)) \<and> length (replicate 42 (100::real)) < 50
   \<and> getCurrentStage (sps_rotationDegrees
        (sps_wheels_fl (\<lambda>x. x * (1 + 1 / 2 ^ 53)) (replicate 42 100) (sps_init canvasCamera)))
       = ModelGrowing
   \<and> \<bar>sps_modelScale
        (sps_wheels_fl (\<lambda>x. x * (1 + 1 / 2 ^ 53)) (replicate 42 100) (sps_init canvasCamera))
       - 2.384\<bar> \<le> 1 / 1000000000
   \<and> \<not> sps_sidebarOpen
        (sps_wheels_fl (\<lambda>x. x * (1 + 1 / 2 ^ 53)) (replicate 42 100) (sps_init canvasCamera))
   \<and> sps_titleOpacity
        (sps_wheels_fl (\<lambda>x. x * (1 + 1 / 2 ^ 53)) (replicate 42 100) (sps_init canvasCamera)) = 0
   \<and> \<bar>lod_modelScale
        (lod_wheels_fl (\<lambda>x. x * (1 + 1 / 2 ^ 53)) (replicate 42 100) (lod_init canvasCamera))
       - 2.384\<bar> \<le> 1 / 1000000000
   \<and> \<not> lod_sidebarOpen
        (lod_wheels_fl (\<lambda>x. x * (1 + 1 / 2 ^ 53)) (replicate 42 100) (lod_init canvasCamera))"
proof -
  have p: "list_all (\<lambda>d. 0 < d) (replicate 42 (100::real))"
    by (simp add: list_all_length)
  have e: "1.5 + ((1.2 * real (length (replicate 42 (100::real))) - 30) / 30) * 1.3 = (2.384::real)"
    by simp
  from C3_wheel_scenario [of "\<lambda>x. x * (1 + 1 / 2 ^ 53)" "replicate 42 100" canvasCamera]
    binary64_rounding_example p
  show ?thesis unfolding e by simp
qed

section \<open>The notification latch\<close>

lemma scheduled_setTimeout:
  "scheduled t (setTimeout t' ts) = scheduled t ts + (if t' = t then 1 else 0)"
  by (simp add: scheduled_def setTimeout_def)

lemma scheduled_fired:
  "k < length ts \<Longrightarrow> scheduled t (ts[k := (fst (ts ! k), b)]) = scheduled t ts"
proof (induction ts arbitrary: k)
  case Nil
  then show ?case by simp
next
  case (Cons a ts)
  then show ?case by (cases k) (simp_all add: scheduled_def)
qed

lemma scheduled_Nil: "scheduled t [] = 0"
  by (simp add: scheduled_def)

lemma mh_latch_init: "mh_latch mh_init"
  by (simp add: mh_latch_def mh_init_def scheduled_Nil)

lemma mh_latch_handle: "mh_latch st \<Longrightarrow> mh_latch (mh_handle e st)"
  by (cases e)
     (auto simp: mh_latch_def mh_handleWheel_def mh_handleKeyDown_def mh_closeSidebar_def
        mh_toggleDropdown_def mh_timeout_def scheduled_setTimeout scheduled_fired Let_def)

lemma mh_latch_step: "mh_latch st \<Longrightarrow> mh_latch (mh_step st e)"
  using mh_latch_handle [of st e] by (auto simp: mh_step_def mh_effects_def mh_latch_def)

lemma mh_latch_run: "mh_latch st \<Longrightarrow> mh_latch (mh_run es st)"
  by (induction es arbitrary: st) (simp_all add: mh_run_def mh_latch_step)

lemma mh_shown_step: "mh_notificationShown st \<Longrightarrow> mh_notificationShown (mh_step st e)"
  by (cases e)
     (auto simp: mh_step_def mh_effects_def mh_handleWheel_def mh_handleKeyDown_def
        mh_closeSidebar_def mh_toggleDropdown_def mh_timeout_def Let_def)

lemma mh_shown_run: "mh_notificationShown st \<Longrightarrow> mh_notificationShown (mh_run es st)"
  by (induction es arbitrary: st) (simp_all add: mh_run_def mh_shown_step)

lemma sps_frame_keeps:
  "sps_timers (sps_frame st) = sps_timers st
   \<and> sps_notificationShown (sps_frame st) = sps_notificationShown st
   \<and> sps_sidebarOpen (sps_frame st) = sps_sidebarOpen st
   \<and> sps_showNotification (sps_frame st) = sps_showNotification st"
  by (simp add: sps_frame_def AnimatedCamera_frame_def sps_handleAnimationComplete_def Let_def)

lemma sps_latch_init: "sps_latch (sps_init cam)"
  by (simp add: sps_latch_def sps_init_def scheduled_Nil)

lemma sps_latch_handle: "sps_latch st \<Longrightarrow> sps_latch (sps_handle e st)"
  by (cases e)
     (auto simp: sps_latch_def sps_handleWheel_def sps_handleKeyDown_def sps_closeSidebar_def
        sps_toggleDropdown_def sps_timeout_def sps_zoomToSphere_def sps_resetCamera_def
        sps_exportCoordinates_def sps_frame_keeps
        scheduled_setTimeout scheduled_fired Let_def split: option.splits)

lemma sps_latch_step: "sps_latch st \<Longrightarrow> sps_latch (sps_step st e)"
  using sps_latch_handle [of st e] by (auto simp: sps_step_def sps_effects_def sps_latch_def)

lemma sps_latch_run: "sps_latch st \<Longrightarrow> sps_latch (sps_run es st)"
  by (induction es arbitrary: st) (simp_all add: sps_run_def sps_latch_step)

lemma sps_shown_step: "sps_notificationShown st \<Longrightarrow> sps_notificationShown (sps_step st e)"
  by (cases e)
     (auto simp: sps_step_def sps_effects_def sps_handleWheel_def sps_handleKeyDown_def
        sps_closeSidebar_def sps_toggleDropdown_def sps_timeout_def sps_zoomToSphere_def
        sps_resetCamera_def sps_exportCoordinates_def sps_frame_keeps Let_def
        split: option.splits)

lemma sps_shown_run: "sps_notificationShown st \<Longrightarrow> sps_notificationShown (sps_run es st)"
  by (induction es arbitrary: st) (simp_all add: sps_run_def sps_shown_step)

lemma mh_first_crossing:
  assumes "mh_latch st" and "\<not> mh_notificationShown st"
    and "60 \<le> mh_rotationDegrees (mh_accumulatedRotation st + deltaY * 0.005)"
  shows "mh_showNotification (mh_step st (MH_Wheel deltaY))
       \<and> mh_notificationShown (mh_step st (MH_Wheel deltaY))
       \<and> mh_sidebarOpen (mh_step st (MH_Wheel deltaY))
       \<and> scheduled (HideNotification 3000) (mh_timers (mh_step st (MH_Wheel deltaY))) = 1"
  using assms
  by (auto simp: mh_latch_def mh_step_def mh_effects_def mh_handleWheel_def
        scheduled_setTimeout Let_def)

lemma sps_first_crossing:
  assumes "sps_latch st" and "\<not> sps_notificationShown st"
    and "60 \<le> js_rem \<bar>sps_accumulatedDegrees st + (if 0 < deltaY then 1.2 else - 1.2)\<bar> 360"
  shows "sps_showNotification (sps_step st (SPS_Wheel deltaY))
       \<and> sps_notificationShown (sps_step st (SPS_Wheel deltaY))
       \<and> sps_sidebarOpen (sps_step st (SPS_Wheel deltaY))
       \<and> scheduled (HideNotification 3000) (sps_timers (sps_step st (SPS_Wheel deltaY))) = 1"
  using assms
  by (auto simp: sps_latch_def sps_step_def sps_effects_def sps_handleWheel_def
        scheduled_setTimeout Let_def)

lemma mh_wheel_no_second:
  "mh_notificationShown st \<Longrightarrow>
     mh_showNotification (mh_step st (MH_Wheel deltaY)) = mh_showNotification st
     \<and> mh_timers (mh_step st (MH_Wheel deltaY)) = mh_timers st"
  by (simp add: mh_step_def mh_effects_def mh_handleWheel_def Let_def)

lemma sps_wheel_no_second:
  "sps_notificationShown st \<Longrightarrow>
     sps_showNotification (sps_step st (SPS_Wheel deltaY)) = sps_showNotification st
     \<and> sps_timers (sps_step st (SPS_Wheel deltaY)) = sps_timers st"
  by (simp add: sps_step_def sps_effects_def sps_handleWheel_def Let_def)

lemma mh_run_append: "mh_run (es @ es') st = mh_run es' (mh_run es st)"
  by (simp add: mh_run_def)

lemma sps_run_append: "sps_run (es @ es') st = sps_run es' (sps_run es st)"
  by (simp add: sps_run_def)

lemma mh_count_reachable:
  "scheduled (HideNotification 3000) (mh_timers (mh_run es mh_init))
     = (if mh_notificationShown (mh_run es mh_init) then 1 else 0)"
  using mh_latch_run [OF mh_latch_init, of es] by (simp add: mh_latch_def)

lemma sps_count_reachable:
  "scheduled (HideNotification 3000) (sps_timers (sps_run es (sps_init cam)))
     = (if sps_notificationShown (sps_run es (sps_init cam)) then 1 else 0)"
  using sps_latch_run [OF sps_latch_init, of es cam] by (simp add: sps_latch_def)

lemma mh_shown_snoc:
  "mh_notificationShown (mh_step st e) \<longleftrightarrow>
     mh_notificationShown st
     \<or> (\<exists>deltaY. e = MH_Wheel deltaY \<and> \<not> mh_sidebarOpen st
          \<and> 60 \<le> mh_rotationDegrees (mh_accumulatedRotation st + deltaY * 0.005))"
  by (cases e)
     (auto simp: mh_step_def mh_effects_def mh_handleWheel_def mh_handleKeyDown_def
        mh_closeSidebar_def mh_toggleDropdown_def mh_timeout_def Let_def)

lemma mh_shown_iff:
  "mh_notificationShown (mh_run es mh_init) \<longleftrightarrow>
     (\<exists>es1 deltaY es2. es = es1 @ MH_Wheel deltaY # es2
        \<and> 60 \<le> mh_rotationDegrees
                  (mh_accumulatedRotation (mh_run es1 mh_init) + deltaY * 0.005))"
proof (induction es rule: rev_induct)
  case Nil
  show ?case by (simp add: mh_run_def mh_init_def)
next
  case (snoc e es)
  let ?st = "mh_run es mh_init"
  have l: "mh_latch ?st" by (rule mh_latch_run [OF mh_latch_init])
  have r: "mh_run (es @ [e]) mh_init = mh_step ?st e" by (simp add: mh_run_def)
  show ?case
  proof
    assume "mh_notificationShown (mh_run (es @ [e]) mh_init)"
    then consider "mh_notificationShown ?st"
      | deltaY where "e = MH_Wheel deltaY"
          "60 \<le> mh_rotationDegrees (mh_accumulatedRotation ?st + deltaY * 0.005)"
      unfolding r mh_shown_snoc by blast
    then show "\<exists>es1 deltaY es2. es @ [e] = es1 @ MH_Wheel deltaY # es2
        \<and> 60 \<le> mh_rotationDegrees
                  (mh_accumulatedRotation (mh_run es1 mh_init) + deltaY * 0.005)"
    proof cases
      case 1
      with snoc.IH obtain es1 deltaY es2 where "es = es1 @ MH_Wheel deltaY # es2"
        "60 \<le> mh_rotationDegrees (mh_accumulatedRotation (mh_run es1 mh_init) + deltaY * 0.005)"
        by blast
      then have "es @ [e] = es1 @ MH_Wheel deltaY # (es2 @ [e])" by simp
      with \<open>60 \<le> _\<close> show ?thesis by blast
    next
      case 2
      then have "es @ [e] = es @ MH_Wheel deltaY # []" by simp
      with 2(2) show ?thesis by blast
    qed
  next
    assume "\<exists>es1 deltaY es2. es @ [e] = es1 @ MH_Wheel deltaY # es2
        \<and> 60 \<le> mh_rotationDegrees
                  (mh_accumulatedRotation (mh_run es1 mh_init) + deltaY * 0.005)"
    then obtain es1 deltaY es2 where d: "es @ [e] = es1 @ MH_Wheel deltaY # es2"
      and c: "60 \<le> mh_rotationDegrees
                  (mh_accumulatedRotation (mh_run es1 mh_init) + deltaY * 0.005)"
      by blast
    show "mh_notificationShown (mh_run (es @ [e]) mh_init)"
    proof (cases es2 rule: rev_cases)
      case Nil
      with d have e: "es = es1" "e = MH_Wheel deltaY" by simp_all
      from l have "mh_sidebarOpen ?st \<longrightarrow> mh_notificationShown ?st" by (simp add: mh_latch_def)
      with c e show ?thesis unfolding r mh_shown_snoc by blast
    next
      case (snoc es2' e')
      with d have "es = es1 @ MH_Wheel deltaY # es2'" by simp
      with c snoc.IH have "mh_notificationShown ?st" by blast
      then show ?thesis unfolding r by (rule mh_shown_step)
    qed
  qed
qed

lemma sps_shown_snoc:
  "sps_notificationShown (sps_step st e) \<longleftrightarrow>
     sps_notificationShown st
     \<or> (\<exists>deltaY. e = SPS_Wheel deltaY \<and> \<not> sps_sidebarOpen st
          \<and> 60 \<le> js_rem \<bar>sps_accumulatedDegrees st
                  + (if 0 < deltaY then 1.2 else - 1.2)\<bar> 360)"
  by (cases e)
     (auto simp: sps_step_def sps_effects_def sps_handleWheel_def sps_handleKeyDown_def
        sps_closeSidebar_def sps_toggleDropdown_def sps_timeout_def sps_zoomToSphere_def
        sps_resetCamera_def sps_exportCoordinates_def sps_frame_keeps Let_def
        split: option.splits)

lemma sps_shown_iff:
  "sps_notificationShown (sps_run es (sps_init cam)) \<longleftrightarrow>
     (\<exists>es1 deltaY es2. es = es1 @ SPS_Wheel deltaY # es2
        \<and> 60 \<le> js_rem \<bar>sps_accumulatedDegrees (sps_run es1 (sps_init cam))
                  + (if 0 < deltaY then 1.2 else - 1.2)\<bar> 360)"
proof (induction es rule: rev_induct)
  case Nil
  show ?case by (simp add: sps_run_def sps_init_def)
next
  case (snoc e es)
  let ?st = "sps_run es (sps_init cam)"
  have l: "sps_latch ?st" by (rule sps_latch_run [OF sps_latch_init])
  have r: "sps_run (es @ [e]) (sps_init cam) = sps_step ?st e" by (simp add: sps_run_def)
  show ?case
  proof
    assume "sps_notificationShown (sps_run (es @ [e]) (sps_init cam))"
    then consider "sps_notificationShown ?st"
      | deltaY where "e = SPS_Wheel deltaY"
          "60 \<le> js_rem \<bar>sps_accumulatedDegrees ?st
                  + (if 0 < deltaY then 1.2 else - 1.2)\<bar> 360"
      unfolding r sps_shown_snoc by blast
    then show "\<exists>es1 deltaY es2. es @ [e] = es1 @ SPS_Wheel deltaY # es2
        \<and> 60 \<le> js_rem \<bar>sps_accumulatedDegrees (sps_run es1 (sps_init cam))
                  + (if 0 < deltaY then 1.2 else - 1.2)\<bar> 360"
    proof cases
      case 1
      with snoc.IH obtain es1 deltaY es2 where "es = es1 @ SPS_Wheel deltaY # es2"
        "60 \<le> js_rem \<bar>sps_accumulatedDegrees (sps_run es1 (sps_init cam))
                  + (if 0 < deltaY then 1.2 else - 1.2)\<bar> 360"
        by blast
      then have "es @ [e] = es1 @ SPS_Wheel deltaY # (es2 @ [e])" by simp
      with \<open>60 \<le> _\<close> show ?thesis by blast
    next
      case 2
      then have "es @ [e] = es @ SPS_Wheel deltaY # []" by simp
      with 2(2) show ?thesis by blast
    qed
  next
    assume "\<exists>es1 deltaY es2. es @ [e] = es1 @ SPS_Wheel deltaY # es2
        \<and> 60 \<le> js_rem \<bar>sps_accumulatedDegrees (sps_run es1 (sps_init cam))
                  + (if 0 < deltaY then 1.2 else - 1.2)\<bar> 360"
    then obtain es1 deltaY es2 where d: "es @ [e] = es1 @ SPS_Wheel deltaY # es2"
      and c: "60 \<le> js_rem \<bar>sps_accumulatedDegrees (sps_run es1 (sps_init cam))
                  + (if 0 < deltaY then 1.2 else - 1.2)\<bar> 360"
      by blast
    show "sps_notificationShown (sps_run (es @ [e]) (sps_init cam))"
    proof (cases es2 rule: rev_cases)
      case Nil
      with d have e: "es = es1" "e = SPS_Wheel deltaY" by simp_all
      from l have "sps_sidebarOpen ?st \<longrightarrow> sps_notificationShown ?st" by (simp add: sps_latch_def)
      with c e show ?thesis unfolding r sps_shown_snoc by blast
    next
      case (snoc es2' e')
      with d have "es = es1 @ SPS_Wheel deltaY # es2'" by simp
      with c snoc.IH have "sps_notificationShown ?st" by blast
      then show ?thesis unfolding r by (rule sps_shown_step)
    qed
  qed
qed

text \<open>
  C6. In every state reachable from the initial one, by any sequence of events, the 3000 ms
  notification of the wheel handler has been scheduled at most once. While the latch
  \<open>notificationShown\<close> is unset, a wheel event that brings the displayed degrees to 60 or more
  shows the notification and sets the latch; once the latch is set, every later state has
  exactly one such notification scheduled, and a wheel event leaves \<open>showNotification\<close> as it
  was. The latch is set exactly when some wheel event of the run has brought the displayed
  degrees to 60 or more: as long as every wheel event stays below the threshold the latch is
  unset and nothing is scheduled, so the notification is shown at the first crossing and at
  no other event. This holds for MenuHome and for the sphere positioning scene.
\<close>

theorem C6_notification_latch:
  "scheduled (HideNotification 3000) (mh_timers (mh_run es mh_init)) \<le> 1
   \<and> (\<not> mh_notificationShown (mh_run es mh_init)
        \<and> 60 \<le> mh_rotationDegrees (mh_accumulatedRotation (mh_run es mh_init) + deltaY * 0.005)
      \<longrightarrow> mh_showNotification (mh_run (es @ [MH_Wheel deltaY]) mh_init)
          \<and> mh_notificationShown (mh_run (es @ [MH_Wheel deltaY]) mh_init)
          \<and> scheduled (HideNotification 3000)
                (mh_timers (mh_run (es @ [MH_Wheel deltaY]) mh_init)) = 1)
   \<and> (mh_notificationShown (mh_run es mh_init)
      \<longrightarrow> scheduled (HideNotification 3000) (mh_timers (mh_run (es @ es') mh_init)) = 1
          \<and> mh_showNotification (mh_run (es @ [MH_Wheel deltaY]) mh_init)
              = mh_showNotification (mh_run es mh_init))
   \<and> scheduled (HideNotification 3000) (sps_timers (sps_run ses (sps_init cam))) \<le> 1
   \<and> (\<not> sps_notificationShown (sps_run ses (sps_init cam))
        \<and> 60 \<le> js_rem \<bar>sps_accumulatedDegrees (sps_run ses (sps_init cam))
                           + (if 0 < deltaY then 1.2 else - 1.2)\<bar> 360
      \<longrightarrow> sps_showNotification (sps_run (ses @ [SPS_Wheel deltaY]) (sps_init cam))
          \<and> sps_notificationShown (sps_run (ses @ [SPS_Wheel deltaY]) (sps_init cam))
          \<and> scheduled (HideNotification 3000)
                (sps_timers (sps_run (ses @ [SPS_Wheel deltaY]) (sps_init cam))) = 1)
   \<and> (sps_notificationShown (sps_run ses (sps_init cam))
      \<longrightarrow> scheduled (HideNotification 3000)
             (sps_timers (sps_run (ses @ ses') (sps_init cam))) = 1
          \<and> sps_showNotification (sps_run (ses @ [SPS_Wheel deltaY]) (sps_init cam))
              = sps_showNotification (sps_run ses (sps_init cam)))
   \<and> (mh_notificationShown (mh_run es mh_init) \<longleftrightarrow>
        (\<exists>es1 d es2. es = es1 @ MH_Wheel d # es2
           \<and> 60 \<le> mh_rotationDegrees
                     (mh_accumulatedRotation (mh_run es1 mh_init) + d * 0.005)))
   \<and> (sps_notificationShown (sps_run ses (sps_init cam)) \<longleftrightarrow>
        (\<exists>es1 d es2. ses = es1 @ SPS_Wheel d # es2
           \<and> 60 \<le> js_rem \<bar>sps_accumulatedDegrees (sps_run es1 (sps_init cam))
                              + (if 0 < d then 1.2 else - 1.2)\<bar> 360))"
proof -
  let ?m = "mh_run es mh_init" and ?s = "sps_run ses (sps_init cam)"
  have lm: "mh_latch ?m" by (rule mh_latch_run [OF mh_latch_init])
  have ls: "sps_latch ?s" by (rule sps_latch_run [OF sps_latch_init])
  have m1: "scheduled (HideNotification 3000) (mh_timers ?m) \<le> 1"
    by (simp add: mh_count_reachable)
  have s1: "scheduled (HideNotification 3000) (sps_timers ?s) \<le> 1"
    by (simp add: sps_count_reachable)
  have m2: "\<not> mh_notificationShown ?m
        \<and> 60 \<le> mh_rotationDegrees (mh_accumulatedRotation ?m + deltaY * 0.005)
      \<longrightarrow> mh_showNotification (mh_run (es @ [MH_Wheel deltaY]) mh_init)
          \<and> mh_notificationShown (mh_run (es @ [MH_Wheel deltaY]) mh_init)
          \<and> scheduled (HideNotification 3000)
                (mh_timers (mh_run (es @ [MH_Wheel deltaY]) mh_init)) = 1"
    using mh_first_crossing [OF lm, of deltaY] by (simp add: mh_run_snoc)
  have s2: "\<not> sps_notificationShown ?s
        \<and> 60 \<le> js_rem \<bar>sps_accumulatedDegrees ?s + (if 0 < deltaY then 1.2 else - 1.2)\<bar> 360
      \<longrightarrow> sps_showNotification (sps_run (ses @ [SPS_Wheel deltaY]) (sps_init cam))
          \<and> sps_notificationShown (sps_run (ses @ [SPS_Wheel deltaY]) (sps_init cam))
          \<and> scheduled (HideNotification 3000)
                (sps_timers (sps_run (ses @ [SPS_Wheel deltaY]) (sps_init cam))) = 1"
    using sps_first_crossing [OF ls, of deltaY] by (simp add: sps_run_snoc)
  have m3: "mh_notificationShown ?m
      \<longrightarrow> scheduled (HideNotification 3000) (mh_timers (mh_run (es @ es') mh_init)) = 1
          \<and> mh_showNotification (mh_run (es @ [MH_Wheel deltaY]) mh_init)
              = mh_showNotification ?m"
  proof
    assume h: "mh_notificationShown ?m"
    then have "mh_notificationShown (mh_run (es @ es') mh_init)"
      by (simp add: mh_run_append mh_shown_run)
    then have "scheduled (HideNotification 3000) (mh_timers (mh_run (es @ es') mh_init)) = 1"
      by (simp add: mh_count_reachable)
    moreover have "mh_showNotification (mh_run (es @ [MH_Wheel deltaY]) mh_init)
              = mh_showNotification ?m"
      using mh_wheel_no_second [OF h, of deltaY] by (simp add: mh_run_snoc)
    ultimately show "scheduled (HideNotification 3000) (mh_timers (mh_run (es @ es') mh_init)) = 1
          \<and> mh_showNotification (mh_run (es @ [MH_Wheel deltaY]) mh_init)
              = mh_showNotification ?m" by simp
  qed
  have s3: "sps_notificationShown ?s
      \<longrightarrow> scheduled (HideNotification 3000)
             (sps_timers (sps_run (ses @ ses') (sps_init cam))) = 1
          \<and> sps_showNotification (sps_run (ses @ [SPS_Wheel deltaY]) (sps_init cam))
              = sps_showNotification ?s"
  proof
    assume h: "sps_notificationShown ?s"
    then have "sps_notificationShown (sps_run (ses @ ses') (sps_init cam))"
      by (simp add: sps_run_append sps_shown_run)
    then have "scheduled (HideNotification 3000)
                 (sps_timers (sps_run (ses @ ses') (sps_init cam))) = 1"
      by (simp add: sps_count_reachable)
    moreover have "sps_showNotification (sps_run (ses @ [SPS_Wheel deltaY]) (sps_init cam))
              = sps_showNotification ?s"
      using sps_wheel_no_second [OF h, of deltaY] by (simp add: sps_run_snoc)
    ultimately show "scheduled (HideNotification 3000)
             (sps_timers (sps_run (ses @ ses') (sps_init cam))) = 1
          \<and> sps_showNotification (sps_run (ses @ [SPS_Wheel deltaY]) (sps_init cam))
              = sps_showNotification ?s" by simp
  qed
  have m4: "(mh_notificationShown (?m) \<longleftrightarrow>
        (\<exists>es1 d es2. es = es1 @ MH_Wheel d # es2
           \<and> 60 \<le> mh_rotationDegrees
                     (mh_accumulatedRotation (mh_run es1 mh_init) + d * 0.005)))"
    by (rule mh_shown_iff)
  have s4: "(sps_notificationShown (?s) \<longleftrightarrow>
        (\<exists>es1 d es2. ses = es1 @ SPS_Wheel d # es2
           \<and> 60 \<le> js_rem \<bar>sps_accumulatedDegrees (sps_run es1 (sps_init cam))
                              + (if 0 < d then 1.2 else - 1.2)\<bar> 360))"
    by (rule sps_shown_iff)
  from m1 m2 m3 s1 s2 s3 m4 s4 show ?thesis by (simp only: simp_thms)
qed


lemma mh_deg_300: "mh_rotationDegrees (300 * 0.005) = 270 / pi"
proof -
  have p: "2 \<le> pi" "pi < 4" using pi_ge_two pi_less_4 by simp_all
  have a: "\<bar>300 * 0.005 * 180 / pi\<bar> = 270 / pi" using p by simp
  have "270 / pi < 360" using p by (simp add: divide_simps)
  moreover have "0 \<le> 270 / pi" using p by simp
  ultimately have "js_rem (270 / pi) 360 = 270 / pi" by (rule js_rem_small [rotated])
  with a show ?thesis by (simp add: mh_rotationDegrees_def)
qed

lemma mh_deg_300_ge: "60 \<le> mh_rotationDegrees (300 * 0.005)"
proof -
  have p: "2 \<le> pi" "pi < 4" using pi_ge_two pi_less_4 by simp_all
  then have "60 \<le> 270 / pi" by (simp add: divide_simps)
  then show ?thesis by (simp only: mh_deg_300)
qed

theorem C6_notification_latch_witness:
  "\<not> mh_notificationShown (mh_run [] mh_init)
   \<and> 60 \<le> mh_rotationDegrees (mh_accumulatedRotation (mh_run [] mh_init) + 300 * 0.005)
   \<and> mh_showNotification (mh_run [MH_Wheel 300] mh_init)
   \<and> scheduled (HideNotification 3000)
        (mh_timers (mh_run ([MH_Wheel 300] @ [MH_CloseSidebar, MH_Wheel 300]) mh_init)) = 1
   \<and> \<not> sps_notificationShown (sps_run (replicate 49 (SPS_Wheel 100)) (sps_init canvasCamera))
   \<and> sps_showNotification
        (sps_run (replicate 49 (SPS_Wheel 100) @ [SPS_Wheel 100]) (sps_init canvasCamera))
   \<and> scheduled (HideNotification 3000)
        (sps_timers (sps_run ((replicate 49 (SPS_Wheel 100) @ [SPS_Wheel 100])
            @ SPS_CloseSidebar # replicate 50 (SPS_Wheel 100)) (sps_init canvasCamera))) = 1"
proof -
  have m0: "\<not> mh_notificationShown (mh_run [] mh_init)"
    by (simp add: mh_run_def mh_init_def)
  have m1: "60 \<le> mh_rotationDegrees (mh_accumulatedRotation (mh_run [] mh_init) + 300 * 0.005)"
    using mh_deg_300_ge by (simp add: mh_run_def mh_init_def)
  from C6_notification_latch [of "[]" 300 "[]" "[]" canvasCamera "[]"] m0 m1
  have m2: "mh_showNotification (mh_run [MH_Wheel 300] mh_init)"
    and m3: "mh_notificationShown (mh_run [MH_Wheel 300] mh_init)"
    by simp_all
  from C6_notification_latch
         [of "[MH_Wheel 300]" 300 "[MH_CloseSidebar, MH_Wheel 300]" "[]" canvasCamera "[]"] m3
  have m4: "scheduled (HideNotification 3000)
        (mh_timers (mh_run ([MH_Wheel 300] @ [MH_CloseSidebar, MH_Wheel 300]) mh_init)) = 1"
    by blast
  have f: "sps_run (replicate 49 (SPS_Wheel 100)) (sps_init canvasCamera) =
           (sps_init canvasCamera)\<lparr>sps_accumulatedDegrees := real 49 * 1.2,
              sps_targetRotation := (real 49 * 1.2) * pi / 180,
              sps_rotationDegrees := real 49 * 1.2,
              sps_titleOpacity := newTitleOpacity (real 49 * 1.2),
              sps_modelScale := newModelScale (real 49 * 1.2)\<rparr>"
    by (rule sps_forward_run) simp_all
  have s0: "\<not> sps_notificationShown (sps_run (replicate 49 (SPS_Wheel 100)) (sps_init canvasCamera))"
    unfolding f by (simp add: sps_init_def)
  have s1: "60 \<le> js_rem \<bar>sps_accumulatedDegrees
                 (sps_run (replicate 49 (SPS_Wheel 100)) (sps_init canvasCamera))
               + (if 0 < (100::real) then 1.2 else - 1.2)\<bar> 360"
    unfolding f by (simp add: js_rem_small)
  from C6_notification_latch
         [of "[]" 100 "[]" "replicate 49 (SPS_Wheel 100)" canvasCamera "[]"] s0 s1
  have s2: "sps_showNotification
        (sps_run (replicate 49 (SPS_Wheel 100) @ [SPS_Wheel 100]) (sps_init canvasCamera))"
    and s3: "sps_notificationShown
        (sps_run (replicate 49 (SPS_Wheel 100) @ [SPS_Wheel 100]) (sps_init canvasCamera))"
    by blast+
  from C6_notification_latch
         [of "[]" 100 "[]" "replicate 49 (SPS_Wheel 100) @ [SPS_Wheel 100]" canvasCamera
             "SPS_CloseSidebar # replicate 50 (SPS_Wheel 100)"] s3
  have s4: "scheduled (HideNotification 3000)
        (sps_timers (sps_run ((replicate 49 (SPS_Wheel 100) @ [SPS_Wheel 100])
            @ SPS_CloseSidebar # replicate 50 (SPS_Wheel 100)) (sps_init canvasCamera))) = 1"
    by blast
  from m0 m1 m2 m4 s0 s2 s4 show ?thesis by blast
qed

section \<open>Completion of a camera animation\<close>

lemma sqrt_less_iff_sq: "0 < c \<Longrightarrow> sqrt x < c \<longleftrightarrow> x < c\<^sup>2"
  using real_sqrt_less_iff [of x "c\<^sup>2"] by simp

lemma sqrt_less_005: "sqrt x < 0.05 \<longleftrightarrow> x < 0.0025"
  using sqrt_less_iff_sq [of "0.05" x] by (simp add: power2_eq_square)

lemma sqrt_less_01: "sqrt x < 0.1 \<longleftrightarrow> x < 0.01"
  using sqrt_less_iff_sq [of "0.1" x] by (simp add: power2_eq_square)

lemma distanceTo_far:
  "c\<^sup>2 \<le> (t0 - c0)\<^sup>2 + (t1 - c1)\<^sup>2 + (t2 - c2)\<^sup>2
     \<Longrightarrow> c \<le> distanceTo (t0, t1, t2) (c0, c1, c2)"
  by (simp add: distanceTo_def real_le_rsqrt)

lemma distanceTo_self: "distanceTo t t = 0"
  by (cases t) (simp add: distanceTo_def)

lemma lerp3_self: "lerp3 f t t = t"
  by (cases t) (simp add: lerp3_def)

lemma AnimatedCamera_frame_complete:
  assumes "animating (sps_cameraTarget st)"
  shows "(\<not> animating (sps_cameraTarget (AnimatedCamera_frame st)))
           = (distanceTo (position (sps_cameraTarget st))
                (camera_position (sps_camera (AnimatedCamera_frame st))) < 0.1)"
    and "isAnimating (sps_anim (AnimatedCamera_frame st))
           = animating (sps_cameraTarget (AnimatedCamera_frame st))"
  using assms
  by (simp_all add: AnimatedCamera_frame_def AnimatedCamera_complete_def
        sps_handleAnimationComplete_def Let_def)

lemma LODStaticCameraAnimation_frame_complete:
  assumes "animating (lod_cameraTarget st)"
    and "Suc (frameCounter (lod_anim st)) mod snd (animationQuality fps) = 0"
  shows "(\<not> animating (lod_cameraTarget (LODStaticCameraAnimation_frame fps st)))
           = (distanceTo (position (lod_cameraTarget st))
                (camera_position (lod_camera (LODStaticCameraAnimation_frame fps st))) < 0.05
              \<and> distanceTo (lookAt (lod_cameraTarget st))
                (camera_lookAt (lod_camera (LODStaticCameraAnimation_frame fps st))) < 0.05)"
    and "isAnimating (lod_anim (LODStaticCameraAnimation_frame fps st))
           = animating (lod_cameraTarget (LODStaticCameraAnimation_frame fps st))"
  using assms
  by (simp_all add: LODStaticCameraAnimation_frame_def LODStaticCameraAnimation_complete_def
        lod_handleAnimationComplete_def Let_def split: prod.splits)

lemma find_first_initial: "find (\<lambda>s. sphere_id s = 1) initialSpheres = Some (initialSpheres ! 0)"
  by (simp add: initialSpheres_eq)

lemma revisit_target:
  "lookAt (sps_cameraTarget revisit_state) = (- 1.2, 2.4, 1.8)
   \<and> animating (sps_cameraTarget revisit_state)
   \<and> camera_position (sps_camera revisit_state) = position (sps_cameraTarget revisit_state)
   \<and> \<not> isAnimating (sps_anim revisit_state)"
  by (simp add: revisit_state_def sps_zoomToSphere_def sps_init_def initialSpheres_eq Let_def)

lemma revisit_frame:
  "camera_position (sps_camera (AnimatedCamera_frame revisit_state))
     = position (sps_cameraTarget revisit_state)
   \<and> camera_lookAt (sps_camera (AnimatedCamera_frame revisit_state)) = (- 0.096, 0.192, 0.144)
   \<and> \<not> animating (sps_cameraTarget (AnimatedCamera_frame revisit_state))"
  using revisit_target
  by (simp add: AnimatedCamera_frame_def AnimatedCamera_complete_def Let_def lerp3_self
        distanceTo_self sps_handleAnimationComplete_def lerp3_def)

text \<open>
  C4, as stated, fails in the sphere positioning scene: \<open>AnimatedCamera\<close> tests the position
  only. With the camera resting at the target position, the first frame of a new animation
  reports completion while the look-at point, restarted from the origin, is still more than
  two units away from its target.
\<close>

theorem C4_position_only_counterexample:
  "animating (sps_cameraTarget revisit_state)
   \<and> \<not> animating (sps_cameraTarget (AnimatedCamera_frame revisit_state))
   \<and> distanceTo (position (sps_cameraTarget revisit_state))
        (camera_position (sps_camera (AnimatedCamera_frame revisit_state))) < 0.05
   \<and> 2 < distanceTo (lookAt (sps_cameraTarget revisit_state))
        (camera_lookAt (sps_camera (AnimatedCamera_frame revisit_state)))"
proof -
  have "(2::real) < sqrt ((- 1.2 + 0.096)\<^sup>2 + (2.4 - 0.192)\<^sup>2 + (1.8 - 0.144)\<^sup>2)"
    by (rule real_less_rsqrt) (simp add: power2_eq_square)
  then show ?thesis
    using revisit_target revisit_frame by (simp add: distanceTo_self distanceTo_def)
qed

text \<open>
  C4, amended. In a frame of \<open>LODStaticCameraAnimation\<close> that animates (and is not skipped),
  completion is reported exactly when, after the interpolation of that frame, both the
  position and the look-at point are less than 0.05 away from their targets. In a frame of
  \<open>AnimatedCamera\<close> that animates, completion is reported exactly when the position is less
  than 0.1 away from its target, whatever the look-at distance.
\<close>

theorem C4_completion_test:
  "(animating (lod_cameraTarget st)
      \<and> Suc (frameCounter (lod_anim st)) mod snd (animationQuality fps) = 0
    \<longrightarrow> (\<not> animating (lod_cameraTarget (LODStaticCameraAnimation_frame fps st)))
          = (distanceTo (position (lod_cameraTarget st))
               (camera_position (lod_camera (LODStaticCameraAnimation_frame fps st))) < 0.05
             \<and> distanceTo (lookAt (lod_cameraTarget st))
               (camera_lookAt (lod_camera (LODStaticCameraAnimation_frame fps st))) < 0.05))
   \<and> (animating (sps_cameraTarget sst)
    \<longrightarrow> (\<not> animating (sps_cameraTarget (AnimatedCamera_frame sst)))
          = (distanceTo (position (sps_cameraTarget sst))
               (camera_position (sps_camera (AnimatedCamera_frame sst))) < 0.1))"
  using LODStaticCameraAnimation_frame_complete(1) [of st fps]
        AnimatedCamera_frame_complete(1) [of sst]
  by simp

lemma overview_at_rest_facts:
  "animating (lod_cameraTarget overview_at_rest)
   \<and> position (lod_cameraTarget overview_at_rest) = (0, 3, 8)
   \<and> lookAt (lod_cameraTarget overview_at_rest) = (0, 0, 0)
   \<and> frameCounter (lod_anim overview_at_rest) = 1
   \<and> \<not> isAnimating (lod_anim overview_at_rest)
   \<and> camera_position (lod_camera overview_at_rest) = (0, 3, 8)"
  by (simp add: overview_at_rest_def lod_run_Cons lod_run_Nil first_render)
     (simp add: lod_step_def lod_resetCamera_def lod_effects_def lod_init_def)

lemma overview_at_rest_frame:
  "camera_position (lod_camera (LODStaticCameraAnimation_frame 60 overview_at_rest)) = (0, 3, 8)
   \<and> camera_lookAt (lod_camera (LODStaticCameraAnimation_frame 60 overview_at_rest))
       = (0, 2.7, 6.3)"
  using overview_at_rest_facts
  by (simp add: LODStaticCameraAnimation_frame_def LODStaticCameraAnimation_complete_def Let_def
        animationQuality_def lerp3_def distanceTo_def sqrt_less_005 power2_eq_square
        lod_handleAnimationComplete_def)

theorem C4_completion_test_witness:
  "animating (lod_cameraTarget overview_at_rest)
   \<and> Suc (frameCounter (lod_anim overview_at_rest)) mod snd (animationQuality 60) = 0
   \<and> distanceTo (position (lod_cameraTarget overview_at_rest))
        (camera_position (lod_camera (LODStaticCameraAnimation_frame 60 overview_at_rest))) < 0.05
   \<and> animating (lod_cameraTarget (LODStaticCameraAnimation_frame 60 overview_at_rest))
   \<and> animating (sps_cameraTarget revisit_state)
   \<and> \<not> animating (sps_cameraTarget (AnimatedCamera_frame revisit_state))"
proof -
  have a: "animating (lod_cameraTarget overview_at_rest)"
    and f: "Suc (frameCounter (lod_anim overview_at_rest)) mod snd (animationQuality 60) = 0"
    using overview_at_rest_facts by (simp_all add: animationQuality_def)
  have p: "distanceTo (position (lod_cameraTarget overview_at_rest))
        (camera_position (lod_camera (LODStaticCameraAnimation_frame 60 overview_at_rest))) < 0.05"
    using overview_at_rest_facts overview_at_rest_frame by (simp add: distanceTo_self)
  have "(1::real) \<le> distanceTo (0, 0, 0) (0, 2.7, 6.3)"
    by (rule distanceTo_far) (simp add: power2_eq_square)
  then have l: "\<not> distanceTo (lookAt (lod_cameraTarget overview_at_rest))
        (camera_lookAt (lod_camera (LODStaticCameraAnimation_frame 60 overview_at_rest))) < 0.05"
    using overview_at_rest_facts overview_at_rest_frame by simp
  have b: "animating (sps_cameraTarget revisit_state)" using revisit_target by simp
  have c: "distanceTo (position (sps_cameraTarget revisit_state))
               (camera_position (sps_camera (AnimatedCamera_frame revisit_state))) < 0.1"
    using revisit_frame by (simp add: distanceTo_self)
  from C4_completion_test [of overview_at_rest 60 revisit_state] a f p l b c
  show ?thesis by blast
qed

section \<open>World positions\<close>




lemma LODStaticCameraAnimation_frame_keeps:
  "lod_targetRotation (LODStaticCameraAnimation_frame fps st) = lod_targetRotation st
   \<and> lod_spheres (LODStaticCameraAnimation_frame fps st) = lod_spheres st
   \<and> lod_focusedSphere (LODStaticCameraAnimation_frame fps st) = lod_focusedSphere st
   \<and> lod_cameraMode (LODStaticCameraAnimation_frame fps st) = lod_cameraMode st
   \<and> lod_pendingTarget (LODStaticCameraAnimation_frame fps st) = lod_pendingTarget st
   \<and> lod_transitionPhase (LODStaticCameraAnimation_frame fps st) = lod_transitionPhase st
   \<and> lod_sidebarOpen (LODStaticCameraAnimation_frame fps st) = lod_sidebarOpen st
   \<and> lod_notificationShown (LODStaticCameraAnimation_frame fps st) = lod_notificationShown st
   \<and> lod_modelScale (LODStaticCameraAnimation_frame fps st) = lod_modelScale st
   \<and> lod_model (LODStaticCameraAnimation_frame fps st) = lod_model st"
  by (simp add: LODStaticCameraAnimation_frame_def lod_handleAnimationComplete_def Let_def
        split: prod.splits option.splits)












section \<open>Switching the focus between two anchors\<close>

lemma lod_effects_keeps:
  "lod_cameraMode (lod_effects old new) = lod_cameraMode new
   \<and> lod_focusedSphere (lod_effects old new) = lod_focusedSphere new
   \<and> lod_pendingTarget (lod_effects old new) = lod_pendingTarget new
   \<and> lod_transitionPhase (lod_effects old new) = lod_transitionPhase new
   \<and> lod_timers (lod_effects old new) = lod_timers new
   \<and> lod_spheres (lod_effects old new) = lod_spheres new
   \<and> lod_cameraTarget (lod_effects old new) = lod_cameraTarget new
   \<and> lod_camera (lod_effects old new) = lod_camera new
   \<and> lod_modelScale (lod_effects old new) = lod_modelScale new
   \<and> lod_targetRotation (lod_effects old new) = lod_targetRotation new"
  by (simp add: lod_effects_def Let_def)

lemma switch_inv_effects: "switch_inv a T (lod_effects old new) = switch_inv a T new"
  by (simp add: switch_inv_def focused_on_def transitioning_to_def lod_effects_keeps)

lemma ids_update: "sphere_id ` set (updateSpherePosition i ax v ss) = sphere_id ` set ss"
proof -
  have "map sphere_id (updateSpherePosition i ax v ss) = map sphere_id ss"
    by (induction ss) (simp_all add: updateSpherePosition_def split: axis.splits)
  then have "set (map sphere_id (updateSpherePosition i ax v ss)) = set (map sphere_id ss)"
    by simp
  then show ?thesis by simp
qed

lemma ids_toggle: "sphere_id ` set (toggleSphereVisibility i ss) = sphere_id ` set ss"
proof -
  have "map sphere_id (toggleSphereVisibility i ss) = map sphere_id ss"
    by (induction ss) (simp_all add: toggleSphereVisibility_def)
  then have "set (map sphere_id (toggleSphereVisibility i ss)) = set (map sphere_id ss)"
    by simp
  then show ?thesis by simp
qed

lemma ids_resetOne: "sphere_id ` set (lod_resetSpherePosition i rnd n ss) = sphere_id ` set ss"
proof -
  have "map sphere_id (lod_resetSpherePosition i rnd n ss) = map sphere_id ss"
    by (induction ss arbitrary: n) simp_all
  then have "set (map sphere_id (lod_resetSpherePosition i rnd n ss)) = set (map sphere_id ss)"
    by simp
  then show ?thesis by simp
qed

lemma ids_resetAll: "sphere_id ` set (lod_resetAllSpheres rnd n ss) = sphere_id ` set ss"
proof -
  have "set (map sphere_id (lod_resetAllSpheres rnd n ss)) = set (map sphere_id ss)"
    by (simp add: lod_resetAll_frame)
  then show ?thesis by simp
qed

lemma zoomIn_for_setTimeout_hide:
  "list_all (zoomIn_for a) (setTimeout (HideNotification ms) ts) = list_all (zoomIn_for a) ts"
  by (simp add: setTimeout_def)

lemma zoomIn_for_fired:
  "list_all (zoomIn_for a) ts \<Longrightarrow> list_all (zoomIn_for a) (ts[k := (fst (ts ! k), False)])"
proof (induction ts arbitrary: k)
  case Nil
  then show ?case by simp
next
  case (Cons t ts)
  show ?case
  proof (cases k)
    case 0
    with Cons.prems show ?thesis by (cases t, cases "fst t") simp_all
  next
    case (Suc j)
    with Cons show ?thesis by simp
  qed
qed

lemma find_by_id:
  "a \<in> sphere_id ` set sph \<Longrightarrow> \<exists>s. find (\<lambda>s. Some (sphere_id s) = Some a) sph = Some s"
  by (cases "find (\<lambda>s. Some (sphere_id s) = Some a) sph") (auto simp: find_None_iff)

lemma frame_target:
  "position (lod_cameraTarget (LODStaticCameraAnimation_frame fps st)) = position (lod_cameraTarget st)
   \<and> lookAt (lod_cameraTarget (LODStaticCameraAnimation_frame fps st)) = lookAt (lod_cameraTarget st)"
  by (simp add: LODStaticCameraAnimation_frame_def lod_handleAnimationComplete_def Let_def
        split: prod.splits option.splits)

lemma frame_timers:
  "lod_timers (LODStaticCameraAnimation_frame fps st) = lod_timers st
   \<or> (lod_timers (LODStaticCameraAnimation_frame fps st)
         = setTimeout (ZoomIn (lod_pendingTarget st) (lod_spheres st) (lod_targetRotation st))
             (lod_timers st)
       \<and> lod_cameraMode st = Transitioning \<and> lod_transitionPhase st = Zoom_out
       \<and> truthy (lod_pendingTarget st)
       \<and> \<not> animating (lod_cameraTarget (LODStaticCameraAnimation_frame fps st))
       \<and> distanceTo (position (lod_cameraTarget st))
            (camera_position (lod_camera (LODStaticCameraAnimation_frame fps st))) < 0.05
       \<and> distanceTo (lookAt (lod_cameraTarget st))
            (camera_lookAt (lod_camera (LODStaticCameraAnimation_frame fps st))) < 0.05)"
  by (simp add: LODStaticCameraAnimation_frame_def lod_handleAnimationComplete_def
        LODStaticCameraAnimation_complete_def Let_def
        split: prod.splits option.splits)

lemma switch_inv_frame:
  assumes "switch_inv a T st"
  shows "switch_inv a T (lod_frame fps st)"
proof -
  note k = LODStaticCameraAnimation_frame_keeps [of fps st] frame_target [of fps st]
  from frame_timers [of fps st]
  have t: "list_all (zoomIn_for a) (lod_timers (LODStaticCameraAnimation_frame fps st))"
  proof
    assume "lod_timers (LODStaticCameraAnimation_frame fps st) = lod_timers st"
    with assms show ?thesis by (simp add: switch_inv_def)
  next
    assume h: "lod_timers (LODStaticCameraAnimation_frame fps st)
         = setTimeout (ZoomIn (lod_pendingTarget st) (lod_spheres st) (lod_targetRotation st))
             (lod_timers st)
       \<and> lod_cameraMode st = Transitioning \<and> lod_transitionPhase st = Zoom_out
       \<and> truthy (lod_pendingTarget st)
       \<and> \<not> animating (lod_cameraTarget (LODStaticCameraAnimation_frame fps st))
       \<and> distanceTo (position (lod_cameraTarget st))
            (camera_position (lod_camera (LODStaticCameraAnimation_frame fps st))) < 0.05
       \<and> distanceTo (lookAt (lod_cameraTarget st))
            (camera_lookAt (lod_camera (LODStaticCameraAnimation_frame fps st))) < 0.05"
    with assms have "lod_pendingTarget st = Some a"
      by (auto simp: switch_inv_def transitioning_to_def focused_on_def)
    with h assms show ?thesis by (simp add: switch_inv_def setTimeout_def)
  qed
  with assms k show ?thesis
    by (simp add: switch_inv_def lod_frame_def Let_def transitioning_to_def focused_on_def)
qed

lemma switch_inv_timeout:
  assumes "switch_inv a T st"
  shows "switch_inv a T (lod_timeout k st)"
proof (cases "k < length (lod_timers st) \<and> snd (lod_timers st ! k)")
  case False
  then have "lod_timeout k st = st" by (auto simp: lod_timeout_def)
  with assms show ?thesis by simp
next
  case True
  from assms have all: "list_all (zoomIn_for a) (lod_timers st)" by (simp add: switch_inv_def)
  have fired: "list_all (zoomIn_for a) ((lod_timers st)[k := (fst (lod_timers st ! k), False)])"
    by (rule zoomIn_for_fired [OF all])
  show ?thesis
  proof (cases "fst (lod_timers st ! k)")
    case (HideNotification ms)
    with True assms fired show ?thesis
      by (simp add: lod_timeout_def Let_def switch_inv_def transitioning_to_def focused_on_def)
  next
    case (ZoomIn p sph rot)
    from all True have "zoomIn_for a (lod_timers st ! k)" by (simp add: list_all_length)
    with ZoomIn True have p: "p = Some a" and m: "a \<in> sphere_id ` set sph"
      by (cases "lod_timers st ! k", simp)+
    from find_by_id [OF m] obtain s where s: "find (\<lambda>s. Some (sphere_id s) = Some a) sph = Some s"
      by blast
    from ZoomIn True assms fired p s show ?thesis
      by (simp add: lod_timeout_def Let_def switch_inv_def focused_on_def lod_zoomInCallback_def
            zoomIn_for_setTimeout_hide)
  qed
qed

lemma switch_inv_handle:
  assumes "switch_inv a T st" and "is_passive e"
  shows "switch_inv a T (lod_handle e st)"
proof (cases e)
  case (LOD_Frame fps)
  with assms switch_inv_frame show ?thesis by simp
next
  case (LOD_Timeout k)
  with assms switch_inv_timeout show ?thesis by simp
next
  case (LOD_Wheel d)
  with assms show ?thesis
    by (simp add: switch_inv_def lod_handleWheel_def Let_def transitioning_to_def focused_on_def
          zoomIn_for_setTimeout_hide)
next
  case (LOD_KeyDown key)
  with assms show ?thesis
    by (simp add: switch_inv_def lod_handleKeyDown_def transitioning_to_def focused_on_def)
next
  case LOD_CloseSidebar
  with assms show ?thesis
    by (simp add: switch_inv_def lod_closeSidebar_def transitioning_to_def focused_on_def)
next
  case (LOD_ToggleDropdown item)
  with assms show ?thesis
    by (simp add: switch_inv_def lod_toggleDropdown_def transitioning_to_def focused_on_def)
next
  case (LOD_ZoomToSphere i)
  with assms show ?thesis by simp
next
  case LOD_ResetCamera
  with assms show ?thesis by simp
next
  case (LOD_UpdateSpherePosition i ax v)
  with assms show ?thesis
    by (simp add: switch_inv_def transitioning_to_def focused_on_def ids_update)
next
  case (LOD_ToggleSphereVisibility i)
  with assms show ?thesis
    by (simp add: switch_inv_def transitioning_to_def focused_on_def ids_toggle)
next
  case (LOD_ResetSpherePosition i rnd)
  with assms show ?thesis
    by (simp add: switch_inv_def transitioning_to_def focused_on_def ids_resetOne)
next
  case (LOD_ResetAllSpheres rnd)
  with assms show ?thesis
    by (simp add: switch_inv_def transitioning_to_def focused_on_def ids_resetAll)
next
  case LOD_ExportCoordinates
  with assms show ?thesis
    by (simp add: switch_inv_def lod_exportCoordinates_def transitioning_to_def focused_on_def
          zoomIn_for_setTimeout_hide)
next
  case (LOD_SetSelectedSphere sel)
  with assms show ?thesis
    by (simp add: switch_inv_def transitioning_to_def focused_on_def)
qed

lemma switch_inv_step:
  "switch_inv a T st \<Longrightarrow> is_passive e \<Longrightarrow> switch_inv a T (lod_step st e)"
  by (simp add: lod_step_def switch_inv_effects switch_inv_handle)

lemma switch_inv_run:
  "switch_inv a T st \<Longrightarrow> list_all is_passive es \<Longrightarrow> switch_inv a T (lod_run es st)"
proof (induction es arbitrary: st)
  case Nil
  then show ?case by (simp add: lod_run_def)
next
  case (Cons e es)
  from Cons.prems have "switch_inv a T (lod_step st e)" by (simp add: switch_inv_step)
  with Cons.IH [of "lod_step st e"] Cons.prems show ?case by (simp add: lod_run_def)
qed

lemma modes_exclusive: "transitioning_to a st \<Longrightarrow> \<not> focused_on b st"
  by (simp add: transitioning_to_def focused_on_def)

lemma zoomIn_at_pending: "zoomIn_at k st \<Longrightarrow> zoomIn_pending st"
  by (auto simp: zoomIn_at_def zoomIn_pending_def list_ex_iff)

lemma pending_setTimeout_hide:
  "list_ex (\<lambda>e. snd e \<and> is_zoomIn (fst e)) (setTimeout (HideNotification ms) ts)
     = list_ex (\<lambda>e. snd e \<and> is_zoomIn (fst e)) ts"
  by (simp add: setTimeout_def)

lemma pending_fired:
  "list_ex (\<lambda>e. snd e \<and> is_zoomIn (fst e)) (ts[k := (t, False)])
     \<Longrightarrow> list_ex (\<lambda>e. snd e \<and> is_zoomIn (fst e)) ts"
proof (induction ts arbitrary: k)
  case Nil
  then show ?case by simp
next
  case (Cons x ts)
  then show ?case by (cases k) auto
qed

lemma frame_step_camera:
  "lod_camera (lod_step st (LOD_Frame fps)) = lod_camera (LODStaticCameraAnimation_frame fps st)
   \<and> lod_timers (lod_step st (LOD_Frame fps)) = lod_timers (LODStaticCameraAnimation_frame fps st)
   \<and> lod_cameraTarget (lod_step st (LOD_Frame fps))
       = lod_cameraTarget (LODStaticCameraAnimation_frame fps st)"
  by (simp add: lod_step_def lod_effects_keeps lod_frame_def Let_def)

lemma timeout_pending:
  "zoomIn_pending (lod_timeout k st) \<Longrightarrow> zoomIn_pending st"
proof (cases "k < length (lod_timers st) \<and> snd (lod_timers st ! k)")
  case False
  then have "lod_timeout k st = st" by (auto simp: lod_timeout_def)
  then show "zoomIn_pending (lod_timeout k st) \<Longrightarrow> zoomIn_pending st" by simp
next
  case True
  assume p: "zoomIn_pending (lod_timeout k st)"
  show "zoomIn_pending st"
  proof (cases "fst (lod_timers st ! k)")
    case (HideNotification ms)
    with True p show ?thesis
      by (auto simp: lod_timeout_def Let_def zoomIn_pending_def dest: pending_fired)
  next
    case (ZoomIn q sph rot)
    with True p show ?thesis
      by (auto simp: lod_timeout_def Let_def zoomIn_pending_def lod_zoomInCallback_def
            pending_setTimeout_hide split: option.splits dest: pending_fired)
  qed
qed

lemma lod_wheel_keeps:
  "lod_cameraMode (lod_handleWheel d st) = lod_cameraMode st
   \<and> lod_focusedSphere (lod_handleWheel d st) = lod_focusedSphere st
   \<and> (lod_timers (lod_handleWheel d st) = lod_timers st
      \<or> lod_timers (lod_handleWheel d st) = setTimeout (HideNotification 3000) (lod_timers st))"
  by (simp add: lod_handleWheel_def Let_def)

lemma lod_keydown_keeps:
  "lod_cameraMode (lod_handleKeyDown key st) = lod_cameraMode st
   \<and> lod_focusedSphere (lod_handleKeyDown key st) = lod_focusedSphere st
   \<and> lod_timers (lod_handleKeyDown key st) = lod_timers st"
  by (simp add: lod_handleKeyDown_def)

lemma new_pending_is_arrival:
  assumes "\<not> zoomIn_pending st" and "is_passive e" and "zoomIn_pending (lod_step st e)"
    and "position (lod_cameraTarget st) = overview" and "lookAt (lod_cameraTarget st) = (0, 0, 0)"
  shows "\<exists>fps. e = LOD_Frame fps \<and> zoom_out_arrived overview fps st"
proof (cases e)
  case (LOD_Frame fps)
  from assms(3) LOD_Frame
  have p: "zoomIn_pending (LODStaticCameraAnimation_frame fps st)"
    by (simp add: zoomIn_pending_def frame_step_camera)
  from frame_timers [of fps st] have "zoom_out_arrived overview fps st"
  proof
    assume "lod_timers (LODStaticCameraAnimation_frame fps st) = lod_timers st"
    with p assms(1) show ?thesis by (simp add: zoomIn_pending_def)
  next
    assume "lod_timers (LODStaticCameraAnimation_frame fps st)
         = setTimeout (ZoomIn (lod_pendingTarget st) (lod_spheres st) (lod_targetRotation st))
             (lod_timers st)
       \<and> lod_cameraMode st = Transitioning \<and> lod_transitionPhase st = Zoom_out
       \<and> truthy (lod_pendingTarget st)
       \<and> \<not> animating (lod_cameraTarget (LODStaticCameraAnimation_frame fps st))
       \<and> distanceTo (position (lod_cameraTarget st))
            (camera_position (lod_camera (LODStaticCameraAnimation_frame fps st))) < 0.05
       \<and> distanceTo (lookAt (lod_cameraTarget st))
            (camera_lookAt (lod_camera (LODStaticCameraAnimation_frame fps st))) < 0.05"
    with assms(4,5) show ?thesis by (simp add: zoom_out_arrived_def frame_step_camera)
  qed
  with LOD_Frame show ?thesis by simp
next
  case (LOD_Timeout k)
  with assms(3) have "zoomIn_pending (lod_timeout k st)"
    by (simp add: lod_step_def zoomIn_pending_def lod_effects_keeps)
  with assms(1) timeout_pending show ?thesis by blast
next
  case (LOD_Wheel d)
  with assms(1,3) lod_wheel_keeps [of d st] show ?thesis
    by (auto simp: lod_step_def zoomIn_pending_def lod_effects_keeps pending_setTimeout_hide)
next
  case (LOD_KeyDown key)
  with assms(1,3) show ?thesis
    by (simp add: lod_step_def zoomIn_pending_def lod_effects_keeps lod_keydown_keeps)
next
  case LOD_CloseSidebar
  with assms(1,3) show ?thesis
    by (simp add: lod_step_def zoomIn_pending_def lod_effects_keeps lod_closeSidebar_def)
next
  case (LOD_ToggleDropdown item)
  with assms(1,3) show ?thesis
    by (simp add: lod_step_def zoomIn_pending_def lod_effects_keeps lod_toggleDropdown_def)
next
  case (LOD_ZoomToSphere i)
  with assms(2) show ?thesis by simp
next
  case LOD_ResetCamera
  with assms(2) show ?thesis by simp
next
  case (LOD_UpdateSpherePosition i ax v)
  with assms(1,3) show ?thesis
    by (simp add: lod_step_def zoomIn_pending_def lod_effects_keeps)
next
  case (LOD_ToggleSphereVisibility i)
  with assms(1,3) show ?thesis
    by (simp add: lod_step_def zoomIn_pending_def lod_effects_keeps)
next
  case (LOD_ResetSpherePosition i rnd)
  with assms(1,3) show ?thesis
    by (simp add: lod_step_def zoomIn_pending_def lod_effects_keeps)
next
  case (LOD_ResetAllSpheres rnd)
  with assms(1,3) show ?thesis
    by (simp add: lod_step_def zoomIn_pending_def lod_effects_keeps)
next
  case LOD_ExportCoordinates
  with assms(1,3) show ?thesis
    by (simp add: lod_step_def zoomIn_pending_def lod_effects_keeps lod_exportCoordinates_def
          pending_setTimeout_hide)
next
  case (LOD_SetSelectedSphere sel)
  with assms(1,3) show ?thesis
    by (simp add: lod_step_def zoomIn_pending_def lod_effects_keeps)
qed

lemma focus_entered_by_timer:
  assumes "transitioning_to a st" and "is_passive e" and "lod_cameraMode (lod_step st e) = Focused"
  shows "\<exists>k. e = LOD_Timeout k \<and> zoomIn_at k st"
proof (cases e)
  case (LOD_Timeout k)
  have "zoomIn_at k st"
  proof (rule ccontr)
    assume n: "\<not> zoomIn_at k st"
    have "lod_cameraMode (lod_timeout k st) = lod_cameraMode st"
    proof (cases "k < length (lod_timers st) \<and> snd (lod_timers st ! k)")
      case False
      then have "lod_timeout k st = st" by (auto simp: lod_timeout_def)
      then show ?thesis by simp
    next
      case True
      with n have "\<not> is_zoomIn (fst (lod_timers st ! k))" by (simp add: zoomIn_at_def)
      then obtain ms where "fst (lod_timers st ! k) = HideNotification ms"
        by (cases "fst (lod_timers st ! k)") simp_all
      with True show ?thesis by (simp add: lod_timeout_def Let_def)
    qed
    with assms(1,3) LOD_Timeout show False
      by (simp add: lod_step_def lod_effects_keeps transitioning_to_def)
  qed
  with LOD_Timeout show ?thesis by simp
next
  case (LOD_Frame fps)
  with assms(1,3) LODStaticCameraAnimation_frame_keeps [of fps st] show ?thesis
    by (simp add: lod_step_def lod_effects_keeps lod_frame_def Let_def transitioning_to_def)
next
  case (LOD_Wheel d)
  with assms(1,3) show ?thesis
    by (simp add: lod_step_def lod_effects_keeps lod_wheel_keeps transitioning_to_def)
next
  case (LOD_KeyDown key)
  with assms(1,3) show ?thesis
    by (simp add: lod_step_def lod_effects_keeps lod_keydown_keeps transitioning_to_def)
next
  case LOD_CloseSidebar
  with assms(1,3) show ?thesis
    by (simp add: lod_step_def lod_effects_keeps lod_closeSidebar_def transitioning_to_def)
next
  case (LOD_ToggleDropdown item)
  with assms(1,3) show ?thesis
    by (simp add: lod_step_def lod_effects_keeps lod_toggleDropdown_def transitioning_to_def)
next
  case (LOD_ZoomToSphere i)
  with assms(2) show ?thesis by simp
next
  case LOD_ResetCamera
  with assms(2) show ?thesis by simp
next
  case (LOD_UpdateSpherePosition i ax v)
  with assms(1,3) show ?thesis
    by (simp add: lod_step_def lod_effects_keeps transitioning_to_def)
next
  case (LOD_ToggleSphereVisibility i)
  with assms(1,3) show ?thesis
    by (simp add: lod_step_def lod_effects_keeps transitioning_to_def)
next
  case (LOD_ResetSpherePosition i rnd)
  with assms(1,3) show ?thesis
    by (simp add: lod_step_def lod_effects_keeps transitioning_to_def)
next
  case (LOD_ResetAllSpheres rnd)
  with assms(1,3) show ?thesis
    by (simp add: lod_step_def lod_effects_keeps transitioning_to_def)
next
  case LOD_ExportCoordinates
  with assms(1,3) show ?thesis
    by (simp add: lod_step_def lod_effects_keeps lod_exportCoordinates_def transitioning_to_def)
next
  case (LOD_SetSelectedSphere sel)
  with assms(1,3) show ?thesis
    by (simp add: lod_step_def lod_effects_keeps transitioning_to_def)
qed

lemma timer_resolves:
  assumes "switch_inv a T st" and "zoomIn_at k st"
  shows "focused_on a (lod_step st (LOD_Timeout k))
       \<and> animating (lod_cameraTarget (lod_step st (LOD_Timeout k)))"
proof -
  from assms(2) have pend: "k < length (lod_timers st)" "snd (lod_timers st ! k)"
    and z: "is_zoomIn (fst (lod_timers st ! k))"
    by (simp_all add: zoomIn_at_def)
  from z obtain p sph rot where t: "fst (lod_timers st ! k) = ZoomIn p sph rot"
    by (cases "fst (lod_timers st ! k)") simp_all
  from assms(1) pend have "zoomIn_for a (lod_timers st ! k)"
    by (simp add: switch_inv_def list_all_length)
  with t pend have p: "p = Some a" and m: "a \<in> sphere_id ` set sph"
    by (cases "lod_timers st ! k", simp)+
  from find_by_id [OF m] obtain s where s: "find (\<lambda>s. Some (sphere_id s) = Some a) sph = Some s"
    by blast
  from pend t p s show ?thesis
    by (simp add: lod_step_def lod_effects_keeps focused_on_def lod_timeout_def Let_def
          lod_zoomInCallback_def)
qed

lemma completion_schedules_zoomIn:
  assumes "transitioning_to a st" and "a \<noteq> 0" and "animating (lod_cameraTarget st)"
    and "\<not> animating (lod_cameraTarget (lod_step st (LOD_Frame fps)))"
  shows "zoomIn_at (length (lod_timers st)) (lod_step st (LOD_Frame fps))"
proof -
  from frame_timers [of fps st]
  have "lod_timers (LODStaticCameraAnimation_frame fps st)
         = setTimeout (ZoomIn (lod_pendingTarget st) (lod_spheres st) (lod_targetRotation st))
             (lod_timers st)"
    using assms
    by (auto simp: frame_step_camera LODStaticCameraAnimation_frame_def
          lod_handleAnimationComplete_def transitioning_to_def truthy_def Let_def
          split: prod.splits option.splits if_splits)
  then show ?thesis by (simp add: zoomIn_at_def frame_step_camera setTimeout_def nth_append)
qed

lemma no_pending_zoomIn_for:
  "\<not> list_ex (\<lambda>e. snd e \<and> is_zoomIn (fst e)) ts \<Longrightarrow> list_all (zoomIn_for a) ts"
proof (induction ts)
  case Nil
  then show ?case by simp
next
  case (Cons t ts)
  then show ?case by (cases t, cases "fst t") auto
qed

lemma find_by_id_plain:
  "a \<in> sphere_id ` set sph \<Longrightarrow> \<exists>s. find (\<lambda>s. sphere_id s = a) sph = Some s"
  by (cases "find (\<lambda>s. sphere_id s = a) sph") (auto simp: find_None_iff)

lemma switch_establishes:
  assumes "focused_on a1 st" and "a1 \<noteq> 0" and "a2 \<noteq> a1"
    and "a2 \<in> sphere_id ` set (lod_spheres st)" and "\<not> zoomIn_pending st"
  shows "transitioning_to a2 (lod_step st (LOD_ZoomToSphere a2))"
    and "lod_cameraTarget (lod_step st (LOD_ZoomToSphere a2))
           = \<lparr>position = (0, 3, 8 - (lod_modelScale st - 1.5) * 1.5), lookAt = (0, 0, 0),
              animating = True\<rparr>"
    and "\<not> zoomIn_pending (lod_step st (LOD_ZoomToSphere a2))"
    and "switch_inv a2 (lod_cameraTarget (lod_step st (LOD_ZoomToSphere a2)))
           (lod_step st (LOD_ZoomToSphere a2))"
proof -
  from find_by_id_plain [OF assms(4)]
  obtain s where s: "find (\<lambda>s. sphere_id s = a2) (lod_spheres st) = Some s" by blast
  have z: "lod_zoomToSphere a2 st =
            st\<lparr>lod_cameraMode := Transitioning,
               lod_pendingTarget := Some a2,
               lod_transitionPhase := Zoom_out,
               lod_focusedSphere := None,
               lod_cameraTarget := \<lparr>position = (0, 3, 8 - (lod_modelScale st - 1.5) * 1.5),
                                     lookAt = (0, 0, 0), animating = True\<rparr>,
               lod_notificationText :=
                 ''Transitioning from ''
                 @ (case find (\<lambda>s. Some (sphere_id s) = lod_focusedSphere st) (lod_spheres st) of
                      None \<Rightarrow> ''undefined'' | Some old \<Rightarrow> sphere_name old)
                 @ '' to '' @ sphere_name s @ ''...'',
               lod_showNotification := True,
               lod_timers := setTimeout (HideNotification 2000) (lod_timers st)\<rparr>"
    using assms(1,2,3) s by (simp add: lod_zoomToSphere_def focused_on_def truthy_def)
  show t: "transitioning_to a2 (lod_step st (LOD_ZoomToSphere a2))"
    by (simp add: lod_step_def lod_effects_keeps transitioning_to_def z)
  show c: "lod_cameraTarget (lod_step st (LOD_ZoomToSphere a2))
           = \<lparr>position = (0, 3, 8 - (lod_modelScale st - 1.5) * 1.5), lookAt = (0, 0, 0),
              animating = True\<rparr>"
    by (simp add: lod_step_def lod_effects_keeps z)
  show p: "\<not> zoomIn_pending (lod_step st (LOD_ZoomToSphere a2))"
    using assms(5)
    by (simp add: lod_step_def lod_effects_keeps zoomIn_pending_def z pending_setTimeout_hide)
  have "list_all (zoomIn_for a2) (lod_timers (lod_step st (LOD_ZoomToSphere a2)))"
    using p by (simp add: zoomIn_pending_def no_pending_zoomIn_for)
  moreover have "a2 \<in> sphere_id ` set (lod_spheres (lod_step st (LOD_ZoomToSphere a2)))"
    using assms(4) by (simp add: lod_step_def lod_effects_keeps z)
  ultimately show "switch_inv a2 (lod_cameraTarget (lod_step st (LOD_ZoomToSphere a2)))
           (lod_step st (LOD_ZoomToSphere a2))"
    using t by (simp add: switch_inv_def)
qed

lemma focused_stays:
  assumes "switch_inv a T st" and "focused_on a st" and "is_passive e"
  shows "focused_on a (lod_step st e)"
proof -
  from switch_inv_step [OF assms(1,3)] have i: "switch_inv a T (lod_step st e)" .
  show ?thesis
  proof (rule ccontr)
    assume n: "\<not> focused_on a (lod_step st e)"
    with i have t: "transitioning_to a (lod_step st e)" by (auto simp: switch_inv_def)
    have "lod_cameraMode (lod_step st e) = Focused"
    proof (cases e)
      case (LOD_Timeout k)
      show ?thesis
      proof (cases "zoomIn_at k st")
        case True
        from timer_resolves [OF assms(1) True] LOD_Timeout show ?thesis
          by (simp add: focused_on_def)
      next
        case False
        have "lod_cameraMode (lod_timeout k st) = lod_cameraMode st"
        proof (cases "k < length (lod_timers st) \<and> snd (lod_timers st ! k)")
          case False
          then have "lod_timeout k st = st" by (auto simp: lod_timeout_def)
          then show ?thesis by simp
        next
          case True
          with False have "\<not> is_zoomIn (fst (lod_timers st ! k))" by (simp add: zoomIn_at_def)
          then obtain ms where "fst (lod_timers st ! k) = HideNotification ms"
            by (cases "fst (lod_timers st ! k)") simp_all
          with True show ?thesis by (simp add: lod_timeout_def Let_def)
        qed
        with assms(2) LOD_Timeout show ?thesis
          by (simp add: lod_step_def lod_effects_keeps focused_on_def)
      qed
    next
      case (LOD_Frame fps)
      with assms(2) LODStaticCameraAnimation_frame_keeps [of fps st] show ?thesis
        by (simp add: lod_step_def lod_effects_keeps lod_frame_def Let_def focused_on_def)
    next
      case (LOD_Wheel d)
      with assms(2) show ?thesis
        by (simp add: lod_step_def lod_effects_keeps lod_wheel_keeps focused_on_def)
    next
      case (LOD_KeyDown key)
      with assms(2) show ?thesis
        by (simp add: lod_step_def lod_effects_keeps lod_keydown_keeps focused_on_def)
    next
      case LOD_CloseSidebar
      with assms(2) show ?thesis
        by (simp add: lod_step_def lod_effects_keeps lod_closeSidebar_def focused_on_def)
    next
      case (LOD_ToggleDropdown item)
      with assms(2) show ?thesis
        by (simp add: lod_step_def lod_effects_keeps lod_toggleDropdown_def focused_on_def)
    next
      case (LOD_ZoomToSphere i)
      with assms(3) show ?thesis by simp
    next
      case LOD_ResetCamera
      with assms(3) show ?thesis by simp
    next
      case (LOD_UpdateSpherePosition i ax v)
      with assms(2) show ?thesis by (simp add: lod_step_def lod_effects_keeps focused_on_def)
    next
      case (LOD_ToggleSphereVisibility i)
      with assms(2) show ?thesis by (simp add: lod_step_def lod_effects_keeps focused_on_def)
    next
      case (LOD_ResetSpherePosition i rnd)
      with assms(2) show ?thesis by (simp add: lod_step_def lod_effects_keeps focused_on_def)
    next
      case (LOD_ResetAllSpheres rnd)
      with assms(2) show ?thesis by (simp add: lod_step_def lod_effects_keeps focused_on_def)
    next
      case LOD_ExportCoordinates
      with assms(2) show ?thesis
        by (simp add: lod_step_def lod_effects_keeps lod_exportCoordinates_def focused_on_def)
    next
      case (LOD_SetSelectedSphere sel)
      with assms(2) show ?thesis by (simp add: lod_step_def lod_effects_keeps focused_on_def)
    qed
    with t show False by (simp add: transitioning_to_def)
  qed
qed

lemma still_transitioning:
  assumes "switch_inv a T st1" and "list_all is_passive (es @ [e])"
    and "transitioning_to a (lod_run (es @ [e]) st1)"
  shows "transitioning_to a (lod_run es st1)"
proof -
  from assms(2) have pe: "list_all is_passive es" and e: "is_passive e" by simp_all
  from switch_inv_run [OF assms(1) pe] have i: "switch_inv a T (lod_run es st1)" .
  show ?thesis
  proof (rule ccontr)
    assume "\<not> transitioning_to a (lod_run es st1)"
    with i have "focused_on a (lod_run es st1)" by (auto simp: switch_inv_def)
    from focused_stays [OF i this e] have "focused_on a (lod_run (es @ [e]) st1)"
      by (simp add: lod_run_snoc)
    with assms(3) modes_exclusive show False by blast
  qed
qed

lemma pending_after_arrival:
  assumes inv: "switch_inv a T st1" and np: "\<not> zoomIn_pending st1"
    and T: "position T = overview" "lookAt T = (0, 0, 0)"
  shows "list_all is_passive es \<Longrightarrow> transitioning_to a (lod_run es st1)
     \<Longrightarrow> zoomIn_pending (lod_run es st1)
     \<Longrightarrow> \<exists>es0 fps es1. es = es0 @ LOD_Frame fps # es1
           \<and> transitioning_to a (lod_run es0 st1)
           \<and> zoom_out_arrived overview fps (lod_run es0 st1)"
proof (induction es rule: rev_induct)
  case Nil
  with np show ?case by (simp add: lod_run_def)
next
  case (snoc e es)
  from snoc.prems(1) have pe: "list_all is_passive es" and e: "is_passive e" by simp_all
  from still_transitioning [OF inv snoc.prems(1,2)]
  have t: "transitioning_to a (lod_run es st1)" .
  show ?case
  proof (cases "zoomIn_pending (lod_run es st1)")
    case True
    from snoc.IH [OF pe t True] obtain es0 fps es1 where
      "es = es0 @ LOD_Frame fps # es1" "transitioning_to a (lod_run es0 st1)"
      "zoom_out_arrived overview fps (lod_run es0 st1)" by blast
    then have "es @ [e] = es0 @ LOD_Frame fps # (es1 @ [e])
        \<and> transitioning_to a (lod_run es0 st1)
        \<and> zoom_out_arrived overview fps (lod_run es0 st1)" by simp
    then show ?thesis by blast
  next
    case False
    from switch_inv_run [OF inv pe] t T
    have tg: "position (lod_cameraTarget (lod_run es st1)) = overview"
      "lookAt (lod_cameraTarget (lod_run es st1)) = (0, 0, 0)"
      using modes_exclusive by (auto simp: switch_inv_def)
    from snoc.prems(3) have "zoomIn_pending (lod_step (lod_run es st1) e)"
      by (simp add: lod_run_snoc)
    from new_pending_is_arrival [OF False e this tg]
    obtain fps where "e = LOD_Frame fps" "zoom_out_arrived overview fps (lod_run es st1)"
      by blast
    with t have "es @ [e] = es @ LOD_Frame fps # []
        \<and> transitioning_to a (lod_run es st1)
        \<and> zoom_out_arrived overview fps (lod_run es st1)" by simp
    then show ?thesis by blast
  qed
qed

lemma focus_after_timer:
  assumes inv: "switch_inv a T st1" and np: "\<not> zoomIn_pending st1"
    and tr: "transitioning_to a st1"
    and T: "position T = overview" "lookAt T = (0, 0, 0)"
  shows "list_all is_passive es \<Longrightarrow> focused_on a (lod_run es st1)
     \<Longrightarrow> \<exists>es0 fps es1 k es2. es = es0 @ LOD_Frame fps # es1 @ LOD_Timeout k # es2
           \<and> transitioning_to a (lod_run es0 st1)
           \<and> zoom_out_arrived overview fps (lod_run es0 st1)
           \<and> transitioning_to a (lod_run (es0 @ LOD_Frame fps # es1) st1)
           \<and> zoomIn_at k (lod_run (es0 @ LOD_Frame fps # es1) st1)"
proof (induction es rule: rev_induct)
  case Nil
  with tr modes_exclusive show ?case by (auto simp: lod_run_def)
next
  case (snoc e es)
  from snoc.prems(1) have pe: "list_all is_passive es" and e: "is_passive e" by simp_all
  show ?case
  proof (cases "focused_on a (lod_run es st1)")
    case True
    from snoc.IH [OF pe True] obtain es0 fps es1 k es2 where
      "es = es0 @ LOD_Frame fps # es1 @ LOD_Timeout k # es2"
      "transitioning_to a (lod_run es0 st1)"
      "zoom_out_arrived overview fps (lod_run es0 st1)"
      "transitioning_to a (lod_run (es0 @ LOD_Frame fps # es1) st1)"
      "zoomIn_at k (lod_run (es0 @ LOD_Frame fps # es1) st1)" by blast
    then have "es @ [e] = es0 @ LOD_Frame fps # es1 @ LOD_Timeout k # (es2 @ [e])
      \<and> transitioning_to a (lod_run es0 st1)
      \<and> zoom_out_arrived overview fps (lod_run es0 st1)
      \<and> transitioning_to a (lod_run (es0 @ LOD_Frame fps # es1) st1)
      \<and> zoomIn_at k (lod_run (es0 @ LOD_Frame fps # es1) st1)" by simp
    then show ?thesis by blast
  next
    case False
    from switch_inv_run [OF inv pe] False
    have t: "transitioning_to a (lod_run es st1)" by (auto simp: switch_inv_def)
    from snoc.prems(2) have "lod_cameraMode (lod_step (lod_run es st1) e) = Focused"
      by (simp add: lod_run_snoc focused_on_def)
    from focus_entered_by_timer [OF t e this]
    obtain k where k: "e = LOD_Timeout k" "zoomIn_at k (lod_run es st1)" by blast
    from pending_after_arrival [OF inv np T pe t zoomIn_at_pending [OF k(2)]]
    obtain es0 fps es1 where d: "es = es0 @ LOD_Frame fps # es1"
      "transitioning_to a (lod_run es0 st1)"
      "zoom_out_arrived overview fps (lod_run es0 st1)" by blast
    with k t have "es @ [e] = es0 @ LOD_Frame fps # es1 @ LOD_Timeout k # []
      \<and> transitioning_to a (lod_run es0 st1)
      \<and> zoom_out_arrived overview fps (lod_run es0 st1)
      \<and> transitioning_to a (lod_run (es0 @ LOD_Frame fps # es1) st1)
      \<and> zoomIn_at k (lod_run (es0 @ LOD_Frame fps # es1) st1)" by simp
    then show ?thesis by blast
  qed
qed

lemma focus_5_state:
  "lod_focusedSphere (lod_run [LOD_Frame 60, LOD_ZoomToSphere 5] (lod_init canvasCamera)) = Some 5
   \<and> lod_cameraMode (lod_run [LOD_Frame 60, LOD_ZoomToSphere 5] (lod_init canvasCamera)) = Focused
   \<and> lod_spheres (lod_run [LOD_Frame 60, LOD_ZoomToSphere 5] (lod_init canvasCamera))
       = initialSpheres
   \<and> lod_timers (lod_run [LOD_Frame 60, LOD_ZoomToSphere 5] (lod_init canvasCamera))
       = [(HideNotification 2000, True)]"
proof -
  have f5: "find (\<lambda>s. sphere_id s = 5) initialSpheres = Some (initialSpheres ! 4)"
    by (simp add: initialSpheres_eq)
  show ?thesis
    by (simp add: lod_run_Cons lod_run_Nil first_render)
       (simp add: lod_step_def lod_zoomToSphere_def performZoomToSphere_def lod_effects_def
          lod_init_def truthy_def f5 Let_def setTimeout_def)
qed

lemma switch_state_eq:
  "switch_state =
     (lod_init canvasCamera)
       \<lparr>lod_cameraMode := Transitioning,
        lod_pendingTarget := Some 7,
        lod_transitionPhase := Zoom_out,
        lod_focusedSphere := None,
        lod_cameraTarget := \<lparr>position = (0, 3, 8), lookAt = (0, 0, 0), animating = True\<rparr>,
        lod_notificationText := ''Transitioning from Oven to Mixer...'',
        lod_showNotification := True,
        lod_timers := [(HideNotification 2000, True), (HideNotification 2000, True)],
        lod_camera := \<lparr>camera_position = (0, 3, 8), camera_lookAt = (0, 0, 0)\<rparr>,
        lod_anim := \<lparr>currentPosition = (0, 3, 8), currentLookAt = (0, 0, 0),
                      isAnimating = False, isLocked = False, frameCounter = 1\<rparr>\<rparr>"
proof -
  have f5: "find (\<lambda>s. sphere_id s = 5) initialSpheres = Some (initialSpheres ! 4)"
    by (simp add: initialSpheres_eq)
  have f7: "find (\<lambda>s. sphere_id s = 7) initialSpheres = Some (initialSpheres ! 6)"
    by (simp add: initialSpheres_eq)
  have n5: "sphere_name (initialSpheres ! 4) = ''Oven''"
    and n7: "sphere_name (initialSpheres ! 6) = ''Mixer''"
    by (simp_all add: initialSpheres_eq)
  show ?thesis
    by (simp add: switch_state_def lod_run_Cons lod_run_Nil first_render)
       (simp add: lod_step_def lod_zoomToSphere_def performZoomToSphere_def lod_effects_def
          lod_init_def truthy_def f5 f7 n5 n7 Let_def setTimeout_def)
qed

lemma overview_complete_iff:
  "LODStaticCameraAnimation_complete
     \<lparr>position = (0, 3, 8), lookAt = (0, 0, 0), animating = b\<rparr>
     \<lparr>currentPosition = (0, 3, 8), currentLookAt = (0, m, l),
      isAnimating = a, isLocked = k, frameCounter = n\<rparr>
   \<longleftrightarrow> m\<^sup>2 + l\<^sup>2 < 0.0025"
proof -
  have b: "(0 - m)\<^sup>2 + (0 - l)\<^sup>2 = m\<^sup>2 + l\<^sup>2" by (simp add: power2_eq_square)
  have z: "sqrt ((0 - 0)\<^sup>2 + (3 - 3)\<^sup>2 + (8 - 8)\<^sup>2) < (0.05::real)" by simp
  have "sqrt ((0 - 0)\<^sup>2 + (0 - m)\<^sup>2 + (0 - l)\<^sup>2) < 0.05 \<longleftrightarrow> m\<^sup>2 + l\<^sup>2 < 0.0025"
    using sqrt_less_005 [of "m\<^sup>2 + l\<^sup>2"] by (simp add: power2_eq_square)
  with z show ?thesis
    unfolding LODStaticCameraAnimation_complete_def Let_def distanceTo_def
    by (simp only: prod.case CameraTarget.simps AnimRefs.simps simp_thms)
qed

lemma lerp_overview_position: "lerp3 (1 / 10) (0, 3, 8) (0, 3, 8) = (0, 3, 8)"
  by (simp add: lerp3_def)

lemma lerp_overview_lookAt: "lerp3 (1 / 10) (0, 0, 0) (0, m, l) = (0, 0.9 * m, 0.9 * l)"
  by (simp add: lerp3_def algebra_simps)

lemma zoom_out_first_frame:
  "lod_step switch_state (LOD_Frame 60) = zooming_out 2.7 6.3 2"
  by (simp add: lod_step_def lod_frame_def LODStaticCameraAnimation_frame_def zooming_out_def
        switch_state_eq lod_init_def animationQuality_def Let_def lod_effects_def
        lerp_overview_position lerp_overview_lookAt overview_complete_iff
        power2_eq_square LODTinyHouseModel_frame_def rotationQuality_def)

lemma zoom_out_next_frame:
  assumes "0.0025 \<le> (0.9 * m)\<^sup>2 + (0.9 * l)\<^sup>2"
  shows "lod_step (zooming_out m l n) (LOD_Frame 60) = zooming_out (0.9 * m) (0.9 * l) (Suc n)"
  using assms
  by (simp add: lod_step_def lod_frame_def LODStaticCameraAnimation_frame_def zooming_out_def
        switch_state_eq lod_init_def animationQuality_def Let_def lod_effects_def
        lerp_overview_position lerp_overview_lookAt overview_complete_iff
        LODTinyHouseModel_frame_def rotationQuality_def)

lemma zoom_out_last_frame:
  assumes "(0.9 * m)\<^sup>2 + (0.9 * l)\<^sup>2 < 0.0025"
  shows "lod_step (zooming_out m l n) (LOD_Frame 60) =
           (zooming_out (0.9 * m) (0.9 * l) (Suc n))
             \<lparr>lod_cameraTarget := \<lparr>position = (0, 3, 8), lookAt = (0, 0, 0), animating = False\<rparr>,
              lod_timers := [(HideNotification 2000, True), (HideNotification 2000, True),
                             (ZoomIn (Some 7) initialSpheres 0, True)],
              lod_anim := \<lparr>currentPosition = (0, 3, 8), currentLookAt = (0, 0.9 * m, 0.9 * l),
                            isAnimating = False, isLocked = False, frameCounter = Suc n\<rparr>\<rparr>"
  using assms
  by (simp add: lod_step_def lod_frame_def LODStaticCameraAnimation_frame_def zooming_out_def
        switch_state_eq lod_init_def animationQuality_def Let_def lod_effects_def
        lerp_overview_position lerp_overview_lookAt overview_complete_iff
        lod_handleAnimationComplete_def truthy_def setTimeout_def
        LODTinyHouseModel_frame_def rotationQuality_def)

lemma zoom_out_frames:
  "0.0025 \<le> (0.9 ^ k * m)\<^sup>2 + (0.9 ^ k * l)\<^sup>2 \<Longrightarrow>
     lod_run (replicate k (LOD_Frame 60)) (zooming_out m l n)
       = zooming_out (0.9 ^ k * m) (0.9 ^ k * l) (n + k)"
proof (induction k arbitrary: m l n)
  case 0
  then show ?case by (simp add: lod_run_def)
next
  case (Suc k)
  have e: "0.9 ^ Suc k * m = 0.9 ^ k * (0.9 * m)" "0.9 ^ Suc k * l = 0.9 ^ k * (0.9 * l)"
    by simp_all
  have c: "0.0025 \<le> (0.9 ^ k * (0.9 * m))\<^sup>2 + (0.9 ^ k * (0.9 * l))\<^sup>2"
    using Suc.prems by (simp only: e)
  have le: "(0.9::real) ^ k \<le> 1" by (simp add: power_le_one)
  have sq: "((0.9::real) ^ k)\<^sup>2 \<le> 1\<^sup>2" using le by (intro power_mono) simp_all
  have "(0.9 ^ k * (0.9 * m))\<^sup>2 + (0.9 ^ k * (0.9 * l))\<^sup>2
          = (0.9 ^ k)\<^sup>2 * ((0.9 * m)\<^sup>2 + (0.9 * l)\<^sup>2)"
    by (simp only: power_mult_distrib distrib_left)
  also have "\<dots> \<le> 1\<^sup>2 * ((0.9 * m)\<^sup>2 + (0.9 * l)\<^sup>2)"
    using sq by (rule mult_right_mono) simp
  finally have "(0.9 ^ k * (0.9 * m))\<^sup>2 + (0.9 ^ k * (0.9 * l))\<^sup>2
          \<le> (0.9 * m)\<^sup>2 + (0.9 * l)\<^sup>2" by simp
  with c have s: "0.0025 \<le> (0.9 * m)\<^sup>2 + (0.9 * l)\<^sup>2" by (rule order_trans)
  have "lod_run (replicate (Suc k) (LOD_Frame 60)) (zooming_out m l n)
          = lod_run (replicate k (LOD_Frame 60)) (zooming_out (0.9 * m) (0.9 * l) (Suc n))"
    by (simp only: replicate_Suc lod_run_Cons zoom_out_next_frame [OF s])
  also have "\<dots> = zooming_out (0.9 ^ k * (0.9 * m)) (0.9 ^ k * (0.9 * l)) (Suc n + k)"
    by (rule Suc.IH [OF c])
  also have "0.9 ^ k * (0.9 * m) = 0.9 ^ Suc k * m" by simp
  also have "0.9 ^ k * (0.9 * l) = 0.9 ^ Suc k * l" by simp
  also have "Suc n + k = n + Suc k" by simp
  finally show ?case .
qed

lemma zoom_out_47:
  "lod_run (replicate 47 (LOD_Frame 60)) switch_state
     = zooming_out (0.9 ^ 46 * 2.7) (0.9 ^ 46 * 6.3) 48"
proof -
  have "replicate 47 (LOD_Frame 60) = LOD_Frame 60 # replicate 46 (LOD_Frame 60)"
    by (simp add: numeral_eq_Suc)
  then have "lod_run (replicate 47 (LOD_Frame 60)) switch_state
      = lod_run (replicate 46 (LOD_Frame 60)) (zooming_out 2.7 6.3 2)"
    by (simp only: lod_run_Cons zoom_out_first_frame)
  also have "\<dots> = zooming_out (0.9 ^ 46 * 2.7) (0.9 ^ 46 * 6.3) (2 + 46)"
  proof (rule zoom_out_frames)
    show "(0.0025::real) \<le> (0.9 ^ 46 * 2.7)\<^sup>2 + (0.9 ^ 46 * 6.3)\<^sup>2"
      by (simp add: power_divide power_mult_distrib field_simps)
  qed
  finally show ?thesis by simp
qed

lemma zoom_out_48:
  "lod_run (replicate 48 (LOD_Frame 60)) switch_state =
     (zooming_out (0.9 * (0.9 ^ 46 * 2.7)) (0.9 * (0.9 ^ 46 * 6.3)) 49)
       \<lparr>lod_cameraTarget := \<lparr>position = (0, 3, 8), lookAt = (0, 0, 0), animating = False\<rparr>,
        lod_timers := [(HideNotification 2000, True), (HideNotification 2000, True),
                       (ZoomIn (Some 7) initialSpheres 0, True)],
        lod_anim := \<lparr>currentPosition = (0, 3, 8),
                      currentLookAt = (0, 0.9 * (0.9 ^ 46 * 2.7), 0.9 * (0.9 ^ 46 * 6.3)),
                      isAnimating = False, isLocked = False, frameCounter = 49\<rparr>\<rparr>"
proof -
  have "replicate 48 (LOD_Frame 60) = replicate 47 (LOD_Frame 60) @ [LOD_Frame 60]"
    by (simp add: numeral_eq_Suc replicate_append_same)
  then have "lod_run (replicate 48 (LOD_Frame 60)) switch_state
      = lod_step (zooming_out (0.9 ^ 46 * 2.7) (0.9 ^ 46 * 6.3) 48) (LOD_Frame 60)"
    by (simp only: lod_run_snoc zoom_out_47)
  also have "\<dots> = (zooming_out (0.9 * (0.9 ^ 46 * 2.7)) (0.9 * (0.9 ^ 46 * 6.3)) (Suc 48))
       \<lparr>lod_cameraTarget := \<lparr>position = (0, 3, 8), lookAt = (0, 0, 0), animating = False\<rparr>,
        lod_timers := [(HideNotification 2000, True), (HideNotification 2000, True),
                       (ZoomIn (Some 7) initialSpheres 0, True)],
        lod_anim := \<lparr>currentPosition = (0, 3, 8),
                      currentLookAt = (0, 0.9 * (0.9 ^ 46 * 2.7), 0.9 * (0.9 ^ 46 * 6.3)),
                      isAnimating = False, isLocked = False, frameCounter = Suc 48\<rparr>\<rparr>"
  proof (rule zoom_out_last_frame)
    show "(0.9 * (0.9 ^ 46 * 2.7))\<^sup>2 + (0.9 * (0.9 ^ 46 * 6.3))\<^sup>2 < (0.0025::real)"
      by (simp add: power_divide power_mult_distrib field_simps)
  qed
  finally show ?thesis by simp
qed

lemma early_focus_state_eq:
  "early_focus_state = lod_step (lod_run (replicate 48 (LOD_Frame 60)) switch_state) (LOD_Timeout 2)"
  by (simp only: early_focus_state_def switch_state_def lod_run_append lod_run_Cons lod_run_Nil)


lemma early_focus_facts:
  "focused_on 7 early_focus_state
   \<and> animating (lod_cameraTarget early_focus_state)
   \<and> fst (snd (position (lod_cameraTarget early_focus_state))) = 0.9
   \<and> camera_position (lod_camera early_focus_state) = (0, 3, 8)"
proof -
  have f7: "find (\<lambda>s. Some (sphere_id s) = Some 7) initialSpheres = Some (initialSpheres ! 6)"
    by (simp add: initialSpheres_eq)
  have f7': "find (\<lambda>s. sphere_id s = 7) initialSpheres = Some (initialSpheres ! 6)"
    by (simp add: initialSpheres_eq)
  have y: "sphere_y (initialSpheres ! 6) = 0.6" by (simp add: initialSpheres_eq)
  show ?thesis
    unfolding early_focus_state_eq zoom_out_48
    by (simp add: lod_step_def lod_timeout_def lod_zoomInCallback_def f7 f7' y Let_def
          lod_effects_def focused_on_def zooming_out_def switch_state_eq lod_init_def)
qed

lemma distanceTo_ge_y:
  assumes "0 \<le> c" and "c < cy - ty"
  shows "c < distanceTo (tx, ty, tz) (cx, cy, cz)"
proof -
  from assms have "c\<^sup>2 < (cy - ty)\<^sup>2" by (intro power_strict_mono) simp_all
  then have "c\<^sup>2 < (ty - cy)\<^sup>2" by (simp add: power2_commute)
  moreover have "(ty - cy)\<^sup>2 \<le> (tx - cx)\<^sup>2 + (ty - cy)\<^sup>2 + (tz - cz)\<^sup>2" by simp
  ultimately have "c\<^sup>2 < (tx - cx)\<^sup>2 + (ty - cy)\<^sup>2 + (tz - cz)\<^sup>2" by linarith
  then have "c < sqrt ((tx - cx)\<^sup>2 + (ty - cy)\<^sup>2 + (tz - cz)\<^sup>2)" by (rule real_less_rsqrt)
  then show ?thesis by (simp only: distanceTo_def prod.case)
qed

text \<open>
  The scene is FOCUSED on the new anchor from the moment the deferred zoom-in fires, as it is
  from the call of \<open>performZoomToSphere\<close> in a direct zoom: after a first frame, \<open>focus(5)\<close>,
  \<open>focus(7)\<close>, the forty-eight frames in which the zoom-out reaches the overview pose, and
  the firing of the deferred zoom-in, the state is FOCUSED on 7 while the target is still
  animating and the camera is more than two units away from the zoom-in pose.
\<close>

lemma focused_when_zoom_in_starts:
  "focused_on 5 (lod_run [LOD_Frame 60, LOD_ZoomToSphere 5] (lod_init canvasCamera))
   \<and> transitioning_to 7
        (lod_run [LOD_Frame 60, LOD_ZoomToSphere 5, LOD_ZoomToSphere 7] (lod_init canvasCamera))
   \<and> focused_on 7 early_focus_state
   \<and> animating (lod_cameraTarget early_focus_state)
   \<and> 2 < distanceTo (position (lod_cameraTarget early_focus_state))
             (camera_position (lod_camera early_focus_state))"
proof -
  have a: "focused_on 5 (lod_run [LOD_Frame 60, LOD_ZoomToSphere 5] (lod_init canvasCamera))"
    using focus_5_state by (simp add: focused_on_def)
  have b: "transitioning_to 7
        (lod_run [LOD_Frame 60, LOD_ZoomToSphere 5, LOD_ZoomToSphere 7] (lod_init canvasCamera))"
    unfolding switch_state_def [symmetric]
    by (simp add: switch_state_eq transitioning_to_def)
  obtain tx ty tz where t: "position (lod_cameraTarget early_focus_state) = (tx, ty, tz)"
    by (cases "position (lod_cameraTarget early_focus_state)") auto
  with early_focus_facts have ty: "ty = 0.9" by simp
  have "2 < distanceTo (tx, ty, tz) (0, 3, 8)"
    by (rule distanceTo_ge_y) (simp_all add: ty)
  with t early_focus_facts
  have "2 < distanceTo (position (lod_cameraTarget early_focus_state))
             (camera_position (lod_camera early_focus_state))" by (simp only:)
  with a b early_focus_facts show ?thesis by (simp only: simp_thms)
qed

text \<open>
  When no deferred zoom-in is pending at the request, the switch proceeds as the comments of
  \<open>zoomToSphere\<close> and \<open>handleAnimationComplete\<close> describe. \<open>zoomToSphere(a2)\<close> in a state FOCUSED
  on \<open>a1\<close> enters TRANSITIONING with phase zoom-out and pending target \<open>a2\<close>, the camera
  target being the overview pose. Along every execution without a further focus or reset
  request the state is never FOCUSED on \<open>a1\<close> again, and is always either still in that
  transition or FOCUSED on \<open>a2\<close>; it is FOCUSED on \<open>a2\<close> only after a frame in which the
  camera arrived at the overview pose and the later firing of the deferred zoom-in.
\<close>

lemma focus_switch_without_stale_timer:
  "focused_on a1 st \<and> a1 \<noteq> 0 \<and> a2 \<noteq> 0 \<and> a2 \<noteq> a1
     \<and> a2 \<in> sphere_id ` set (lod_spheres st) \<and> \<not> zoomIn_pending st
     \<and> st1 = lod_step st (LOD_ZoomToSphere a2) \<and> list_all is_passive es
   \<longrightarrow>
     transitioning_to a2 st1
     \<and> lod_cameraTarget st1
         = \<lparr>position = (0, 3, 8 - (lod_modelScale st - 1.5) * 1.5), lookAt = (0, 0, 0),
            animating = True\<rparr>
     \<and> \<not> focused_on a1 (lod_run es st1)
     \<and> (transitioning_to a2 (lod_run es st1) \<or> focused_on a2 (lod_run es st1))
     \<and> (focused_on a2 (lod_run es st1) \<longrightarrow>
          (\<exists>es0 fps es1 k es2.
              es = es0 @ LOD_Frame fps # es1 @ LOD_Timeout k # es2
            \<and> transitioning_to a2 (lod_run es0 st1)
            \<and> zoom_out_arrived (0, 3, 8 - (lod_modelScale st - 1.5) * 1.5) fps (lod_run es0 st1)
            \<and> transitioning_to a2 (lod_run (es0 @ LOD_Frame fps # es1) st1)
            \<and> zoomIn_at k (lod_run (es0 @ LOD_Frame fps # es1) st1)))
     \<and> (transitioning_to a2 (lod_run es st1) \<and> animating (lod_cameraTarget (lod_run es st1))
          \<and> \<not> animating (lod_cameraTarget (lod_step (lod_run es st1) (LOD_Frame fps')))
        \<longrightarrow> zoomIn_at (length (lod_timers (lod_run es st1)))
              (lod_step (lod_run es st1) (LOD_Frame fps')))
     \<and> (zoomIn_at k' (lod_run es st1)
        \<longrightarrow> focused_on a2 (lod_step (lod_run es st1) (LOD_Timeout k'))
            \<and> animating (lod_cameraTarget (lod_step (lod_run es st1) (LOD_Timeout k'))))"
proof (intro impI)
  assume h: "focused_on a1 st \<and> a1 \<noteq> 0 \<and> a2 \<noteq> 0 \<and> a2 \<noteq> a1
     \<and> a2 \<in> sphere_id ` set (lod_spheres st) \<and> \<not> zoomIn_pending st
     \<and> st1 = lod_step st (LOD_ZoomToSphere a2) \<and> list_all is_passive es"
  then have f: "focused_on a1 st" and a1: "a1 \<noteq> 0" and a2: "a2 \<noteq> 0" and ne: "a2 \<noteq> a1"
    and m: "a2 \<in> sphere_id ` set (lod_spheres st)" and np: "\<not> zoomIn_pending st"
    and st1: "st1 = lod_step st (LOD_ZoomToSphere a2)" and pe: "list_all is_passive es"
    by simp_all
  note e = switch_establishes [OF f a1 ne m np, folded st1]
  let ?T = "lod_cameraTarget st1"
  let ?ov = "(0, 3, 8 - (lod_modelScale st - 1.5) * 1.5) :: vec3"
  have T: "position ?T = ?ov" "lookAt ?T = (0, 0, 0)" by (simp_all add: e(2))
  from switch_inv_run [OF e(4) pe] have i: "switch_inv a2 ?T (lod_run es st1)" .
  then have d: "transitioning_to a2 (lod_run es st1) \<or> focused_on a2 (lod_run es st1)"
    by (auto simp: switch_inv_def)
  have n1: "\<not> focused_on a1 (lod_run es st1)"
    using d ne by (auto simp: transitioning_to_def focused_on_def)
  have until: "focused_on a2 (lod_run es st1) \<longrightarrow>
          (\<exists>es0 fps es1 k es2.
              es = es0 @ LOD_Frame fps # es1 @ LOD_Timeout k # es2
            \<and> transitioning_to a2 (lod_run es0 st1)
            \<and> zoom_out_arrived ?ov fps (lod_run es0 st1)
            \<and> transitioning_to a2 (lod_run (es0 @ LOD_Frame fps # es1) st1)
            \<and> zoomIn_at k (lod_run (es0 @ LOD_Frame fps # es1) st1))"
    using focus_after_timer [OF e(4) e(3) e(1) T pe] by blast
  have sched: "transitioning_to a2 (lod_run es st1) \<and> animating (lod_cameraTarget (lod_run es st1))
          \<and> \<not> animating (lod_cameraTarget (lod_step (lod_run es st1) (LOD_Frame fps')))
        \<longrightarrow> zoomIn_at (length (lod_timers (lod_run es st1)))
              (lod_step (lod_run es st1) (LOD_Frame fps'))"
    using completion_schedules_zoomIn [of a2 "lod_run es st1" fps'] a2 by blast
  have res: "zoomIn_at k' (lod_run es st1)
        \<longrightarrow> focused_on a2 (lod_step (lod_run es st1) (LOD_Timeout k'))
            \<and> animating (lod_cameraTarget (lod_step (lod_run es st1) (LOD_Timeout k')))"
    using timer_resolves [OF i, of k'] by blast
  from e(1) e(2) n1 d until sched res
  show "transitioning_to a2 st1
     \<and> lod_cameraTarget st1
         = \<lparr>position = (0, 3, 8 - (lod_modelScale st - 1.5) * 1.5), lookAt = (0, 0, 0),
            animating = True\<rparr>
     \<and> \<not> focused_on a1 (lod_run es st1)
     \<and> (transitioning_to a2 (lod_run es st1) \<or> focused_on a2 (lod_run es st1))
     \<and> (focused_on a2 (lod_run es st1) \<longrightarrow>
          (\<exists>es0 fps es1 k es2.
              es = es0 @ LOD_Frame fps # es1 @ LOD_Timeout k # es2
            \<and> transitioning_to a2 (lod_run es0 st1)
            \<and> zoom_out_arrived (0, 3, 8 - (lod_modelScale st - 1.5) * 1.5) fps (lod_run es0 st1)
            \<and> transitioning_to a2 (lod_run (es0 @ LOD_Frame fps # es1) st1)
            \<and> zoomIn_at k (lod_run (es0 @ LOD_Frame fps # es1) st1)))
     \<and> (transitioning_to a2 (lod_run es st1) \<and> animating (lod_cameraTarget (lod_run es st1))
          \<and> \<not> animating (lod_cameraTarget (lod_step (lod_run es st1) (LOD_Frame fps')))
        \<longrightarrow> zoomIn_at (length (lod_timers (lod_run es st1)))
              (lod_step (lod_run es st1) (LOD_Frame fps')))
     \<and> (zoomIn_at k' (lod_run es st1)
        \<longrightarrow> focused_on a2 (lod_step (lod_run es st1) (LOD_Timeout k'))
            \<and> animating (lod_cameraTarget (lod_step (lod_run es st1) (LOD_Timeout k'))))"
    by (intro conjI)
qed

text \<open>
  C2 fails on the code. The callback deferred by \<open>handleAnimationComplete\<close> is never cancelled
  and tests nothing when it fires. In \<open>stale_focus_state\<close> the scene is FOCUSED on 7 while
  the zoom-in of an earlier switch to 7 is still pending. \<open>zoomToSphere(5)\<close> enters
  TRANSITIONING with phase zoom-out and pending target 5; then the pending callback fires,
  an event that requests neither a focus nor a reset: the scene is FOCUSED on 7 again, the
  pending target is cleared and no zoom-in remains scheduled, so the switch to 5 is lost.
  The comments of \<open>zoomToSphere\<close> (the focused sphere is cleared \<open>to prevent camera from
  locking back to old sphere\<close>) and of the lock branch (\<open>to prevent returning to old
  sphere\<close>) state the opposite intent.
\<close>

theorem C2_stale_zoom_in_returns:
  "focused_on 7 stale_focus_state
   \<and> transitioning_to 5 (lod_step stale_focus_state (LOD_ZoomToSphere 5))
   \<and> zoomIn_at 2 (lod_step stale_focus_state (LOD_ZoomToSphere 5))
   \<and> is_passive (LOD_Timeout 2)
   \<and> focused_on 7 (lod_run [LOD_ZoomToSphere 5, LOD_Timeout 2] stale_focus_state)
   \<and> lod_pendingTarget (lod_run [LOD_ZoomToSphere 5, LOD_Timeout 2] stale_focus_state) = None
   \<and> \<not> zoomIn_pending (lod_run [LOD_ZoomToSphere 5, LOD_Timeout 2] stale_focus_state)"
proof -
  have f7: "find (\<lambda>s. Some (sphere_id s) = Some 7) initialSpheres = Some (initialSpheres ! 6)"
    by (simp add: initialSpheres_eq)
  have f7': "find (\<lambda>s. sphere_id s = 7) initialSpheres = Some (initialSpheres ! 6)"
    by (simp add: initialSpheres_eq)
  have f5: "find (\<lambda>s. sphere_id s = 5) initialSpheres = Some (initialSpheres ! 4)"
    by (simp add: initialSpheres_eq)
  have e: "stale_focus_state
      = lod_step (lod_run (replicate 48 (LOD_Frame 60)) switch_state) (LOD_ZoomToSphere 7)"
    by (simp only: stale_focus_state_def switch_state_def lod_run_append lod_run_Cons
          lod_run_Nil)
  show ?thesis
    unfolding e zoom_out_48 lod_run_Cons lod_run_Nil
    by (simp add: lod_step_def lod_zoomToSphere_def performZoomToSphere_def lod_timeout_def
          lod_zoomInCallback_def f7 f7' f5 Let_def lod_effects_def focused_on_def
          transitioning_to_def zoomIn_at_def zoomIn_pending_def truthy_def setTimeout_def
          zooming_out_def switch_state_eq lod_init_def)
qed

section \<open>World positions: the rotation that is used\<close>













end
